theory Spec2Isabelle
  imports Main "HOL-Library.Word"
begin

section \<open>The rclc executor: data model\<close>

text \<open>
  A shallow embedding of \<^verbatim>\<open>rclc/executor.c\<close> and \<^verbatim>\<open>rclc/executor_handle.c\<close>.
  Conventions:
  \<^item> a C pointer is an address, a natural number, and \<open>NULL\<close> is address 0;
  \<^item> a function taking \<^verbatim>\<open>rclc_executor_t *\<close> takes an \<open>option\<close> (\<open>None\<close> is the null
    pointer) and returns the return code together with the executor as the call leaves it;
  \<^item> a \<^verbatim>\<open>static\<close> function \<^verbatim>\<open>_rclc_f\<close> is named \<open>rclc_f\<close> (an identifier cannot start
    with an underscore);
  \<^item> struct fields carry a prefix (\<open>h_\<close> for the handle, \<open>e_\<close> for the executor);
  \<^item> \<^verbatim>\<open>size_t\<close> counters are 64-bit words (they wrap); \<^verbatim>\<open>index\<close> and \<^verbatim>\<open>max_handles\<close>
    are positions in the allocated handle array and are natural numbers: the code
    increments \<^verbatim>\<open>index\<close> only below \<^verbatim>\<open>max_handles\<close> and decrements it only above 0;
  \<^item> the middleware (rcl, rmw), the allocator and the user's callbacks are not part of the
    repository: they are parameters, collected in the record \<open>rcl\<close> below.
\<close>

type_synonym ptr = nat

abbreviation (input) NULL :: ptr where
  "NULL \<equiv> 0"

text \<open>The values of \<^verbatim>\<open>rcl_ret_t\<close> that the executor names, and any other code.\<close>

datatype rcl_ret_t =
    RCL_RET_OK
  | RCL_RET_ERROR
  | RCL_RET_TIMEOUT
  | RCL_RET_BAD_ALLOC
  | RCL_RET_INVALID_ARGUMENT
  | RCL_RET_SUBSCRIPTION_TAKE_FAILED
  | RCL_RET_CLIENT_TAKE_FAILED
  | RCL_RET_SERVICE_TAKE_FAILED
  | RCL_RET_TIMER_CANCELED
  | RCL_RET_ACTION_GOAL_ACCEPTED
  | RCL_RET_ACTION_GOAL_REJECTED
  | RCL_RET_OTHER nat

datatype rclc_executor_handle_type_t =
    RCLC_SUBSCRIPTION
  | RCLC_SUBSCRIPTION_WITH_CONTEXT
  | RCLC_TIMER
  | RCLC_CLIENT
  | RCLC_CLIENT_WITH_REQUEST_ID
  | RCLC_SERVICE
  | RCLC_SERVICE_WITH_REQUEST_ID
  | RCLC_SERVICE_WITH_CONTEXT
  | RCLC_ACTION_CLIENT
  | RCLC_ACTION_SERVER
  | RCLC_GUARD_CONDITION
  | RCLC_NONE

datatype rclc_executor_handle_invocation_t = ON_NEW_DATA | ALWAYS

text \<open>
  \<^verbatim>\<open>rclc_executor_handle_t\<close>. The anonymous union of endpoint pointers
  (\<^verbatim>\<open>subscription\<close>, \<^verbatim>\<open>timer\<close>, \<^verbatim>\<open>client\<close>, \<^verbatim>\<open>service\<close>, \<^verbatim>\<open>gc\<close>, \<^verbatim>\<open>action_client\<close>,
  \<^verbatim>\<open>action_server\<close>) is the one field \<open>h_entity\<close>; the anonymous union of callback
  pointers is the one field \<open>h_callback\<close>.
\<close>

record rclc_executor_handle_t =
  h_type :: rclc_executor_handle_type_t
  h_invocation :: rclc_executor_handle_invocation_t
  h_entity :: ptr
  h_data :: ptr
  h_req_id :: nat
  h_data_response_msg :: ptr
  h_callback_context :: ptr
  h_callback :: ptr
  h_index :: nat
  h_initialized :: bool
  h_data_available :: bool

record rclc_executor_handle_counters_t =
  number_of_subscriptions :: "64 word"
  number_of_timers :: "64 word"
  number_of_clients :: "64 word"
  number_of_services :: "64 word"
  number_of_action_clients :: "64 word"
  number_of_action_servers :: "64 word"
  number_of_guard_conditions :: "64 word"
  number_of_events :: "64 word"

datatype rclc_executor_semantics_t = RCLCPP_EXECUTOR | LET

text \<open>
  A trigger function pointer: the four built-in trigger functions, or a function of the
  user, identified by its address. The null function pointer is \<open>None\<close>.
\<close>

datatype rclc_executor_trigger_t =
    TRIGGER_ALL
  | TRIGGER_ANY
  | TRIGGER_ONE
  | TRIGGER_ALWAYS
  | TRIGGER_USER nat

text \<open>\<^verbatim>\<open>rclc_executor_t\<close>; \<open>'ws\<close> is the middleware's \<^verbatim>\<open>rcl_wait_set_t\<close>.\<close>

record 'ws rclc_executor_t =
  e_context :: ptr
  e_handles :: "rclc_executor_handle_t list option"
  e_max_handles :: nat
  e_index :: nat
  e_allocator :: ptr
  e_wait_set :: 'ws
  e_info :: rclc_executor_handle_counters_t
  e_timeout_ns :: "64 word"
  e_invocation_time :: "64 word"
  e_trigger_function :: "rclc_executor_trigger_t option"
  e_trigger_object :: ptr
  e_data_comm_semantics :: rclc_executor_semantics_t

text \<open>
  The fields of \<^verbatim>\<open>rclc_action_client_t\<close> and \<^verbatim>\<open>rclc_action_server_t\<close> that the executor
  reads and writes itself. The objects live outside the executor, behind the pointer
  stored in the handle.
\<close>

record rclc_action_client_t =
  ac_allocator :: ptr
  ac_goal_callback :: ptr
  ac_feedback_callback :: ptr
  ac_result_callback :: ptr
  ac_cancel_callback :: ptr
  ac_ros_feedback :: ptr
  ac_ros_result_response :: ptr
  feedback_available :: bool
  status_available :: bool
  goal_response_available :: bool
  cancel_response_available :: bool
  result_response_available :: bool

record rclc_action_server_t =
  as_allocator :: ptr
  as_goal_callback :: ptr
  as_cancel_callback :: ptr
  goal_request_available :: bool
  cancel_request_available :: bool
  result_request_available :: bool
  goal_expired_available :: bool
  goal_ended :: bool

text \<open>
  The memory outside the executor: the action client and action server objects by
  address, and everything else (middleware queues, user buffers, goal-handle pools) as the
  opaque component \<open>w_rest\<close>.
\<close>

record 'x world =
  action_clients :: "ptr \<Rightarrow> rclc_action_client_t"
  action_servers :: "ptr \<Rightarrow> rclc_action_server_t"
  w_rest :: 'x

section \<open>Handles (executor\_handle.c)\<close>

definition rclc_executor_handle_counters_zero_init :: rclc_executor_handle_counters_t where
  "rclc_executor_handle_counters_zero_init =
     \<lparr> number_of_subscriptions = 0, number_of_timers = 0, number_of_clients = 0,
       number_of_services = 0, number_of_action_clients = 0, number_of_action_servers = 0,
       number_of_guard_conditions = 0, number_of_events = 0 \<rparr>"

text \<open>\<^verbatim>\<open>rclc_executor_handle_init\<close> assigns every field but \<^verbatim>\<open>req_id\<close>.\<close>

definition rclc_executor_handle_init ::
  "rclc_executor_handle_t \<Rightarrow> nat \<Rightarrow> rclc_executor_handle_t" where
  "rclc_executor_handle_init handle max_handles =
     handle\<lparr> h_type := RCLC_NONE, h_invocation := ON_NEW_DATA, h_entity := NULL,
             h_data := NULL, h_data_response_msg := NULL, h_callback_context := NULL,
             h_callback := NULL, h_index := max_handles, h_initialized := False,
             h_data_available := False \<rparr>"

fun rclc_executor_handle_get_ptr :: "rclc_executor_handle_t option \<Rightarrow> ptr" where
  "rclc_executor_handle_get_ptr None = NULL"
| "rclc_executor_handle_get_ptr (Some handle) =
     (case h_type handle of
        RCLC_SUBSCRIPTION \<Rightarrow> h_entity handle
      | RCLC_SUBSCRIPTION_WITH_CONTEXT \<Rightarrow> h_entity handle
      | RCLC_TIMER \<Rightarrow> h_entity handle
      | RCLC_CLIENT \<Rightarrow> h_entity handle
      | RCLC_CLIENT_WITH_REQUEST_ID \<Rightarrow> h_entity handle
      | RCLC_SERVICE \<Rightarrow> h_entity handle
      | RCLC_SERVICE_WITH_REQUEST_ID \<Rightarrow> h_entity handle
      | RCLC_SERVICE_WITH_CONTEXT \<Rightarrow> h_entity handle
      | RCLC_GUARD_CONDITION \<Rightarrow> h_entity handle
      | RCLC_ACTION_CLIENT \<Rightarrow> NULL
      | RCLC_ACTION_SERVER \<Rightarrow> NULL
      | RCLC_NONE \<Rightarrow> NULL)"

section \<open>Executor life cycle and configuration (executor.c)\<close>

fun rclc_executor_is_valid :: "'ws rclc_executor_t option \<Rightarrow> bool" where
  "rclc_executor_is_valid None = False"
| "rclc_executor_is_valid (Some executor) =
     (if e_handles executor = None then False
      else if e_allocator executor = NULL then False
      else if e_max_handles executor = 0 then False
      else True)"

text \<open>
  The static initialiser names nine fields; the others (\<^verbatim>\<open>wait_set\<close>, \<^verbatim>\<open>info\<close>,
  \<^verbatim>\<open>data_comm_semantics\<close>) are zero as well, since the object has static storage. The
  zero wait set is the parameter \<open>zws\<close>.
\<close>

definition rclc_executor_get_zero_initialized_executor :: "'ws \<Rightarrow> 'ws rclc_executor_t" where
  "rclc_executor_get_zero_initialized_executor zws =
     \<lparr> e_context = NULL, e_handles = None, e_max_handles = 0, e_index = 0,
       e_allocator = NULL, e_wait_set = zws,
       e_info = rclc_executor_handle_counters_zero_init,
       e_timeout_ns = 0, e_invocation_time = 0, e_trigger_function = None,
       e_trigger_object = NULL, e_data_comm_semantics = RCLCPP_EXECUTOR \<rparr>"

fun rclc_executor_set_timeout ::
  "'ws rclc_executor_t option \<Rightarrow> 64 word \<Rightarrow> rcl_ret_t \<times> 'ws rclc_executor_t option" where
  "rclc_executor_set_timeout None timeout_ns = (RCL_RET_INVALID_ARGUMENT, None)"
| "rclc_executor_set_timeout (Some executor) timeout_ns =
     (if rclc_executor_is_valid (Some executor)
      then (RCL_RET_OK, Some (executor\<lparr> e_timeout_ns := timeout_ns \<rparr>))
      else (RCL_RET_ERROR, Some executor))"

fun rclc_executor_set_semantics ::
  "'ws rclc_executor_t option \<Rightarrow> rclc_executor_semantics_t
     \<Rightarrow> rcl_ret_t \<times> 'ws rclc_executor_t option" where
  "rclc_executor_set_semantics None semantics = (RCL_RET_INVALID_ARGUMENT, None)"
| "rclc_executor_set_semantics (Some executor) semantics =
     (if rclc_executor_is_valid (Some executor)
      then (RCL_RET_OK, Some (executor\<lparr> e_data_comm_semantics := semantics \<rparr>))
      else (RCL_RET_ERROR, Some executor))"

fun rclc_executor_set_trigger ::
  "'ws rclc_executor_t option \<Rightarrow> rclc_executor_trigger_t option \<Rightarrow> ptr
     \<Rightarrow> rcl_ret_t \<times> 'ws rclc_executor_t option" where
  "rclc_executor_set_trigger None trigger_function trigger_object =
     (RCL_RET_INVALID_ARGUMENT, None)"
| "rclc_executor_set_trigger (Some executor) trigger_function trigger_object =
     (RCL_RET_OK, Some (executor\<lparr> e_trigger_function := trigger_function,
                                  e_trigger_object := trigger_object \<rparr>))"

section \<open>The middleware, the allocator and the user's code as parameters\<close>

text \<open>
  The kinds of middleware entity a wait set holds, and the steps of the action protocol.
  They index the parameters below, so that one parameter stands for a family of rcl
  functions: \<open>rcl_wait_set_add SUBSCRIPTION\<close> is \<^verbatim>\<open>rcl_wait_set_add_subscription\<close>,
  \<open>rcl_wait_set_add ACTION_CLIENT\<close> is \<^verbatim>\<open>rcl_action_wait_set_add_action_client\<close>,
  \<open>wait_set_entry TIMER ws i\<close> is \<^verbatim>\<open>ws->timers[i]\<close>, \<open>rcl_action_take GOAL_RESPONSE\<close> is
  \<^verbatim>\<open>rcl_action_take_goal_response\<close>, and so on.
\<close>

datatype rcl_entity =
  SUBSCRIPTION | TIMER | SERVICE | CLIENT | GUARD_CONDITION | ACTION_CLIENT | ACTION_SERVER

datatype action_step =
    GOAL_RESPONSE | FEEDBACK | CANCEL_RESPONSE | RESULT_RESPONSE
  | GOAL_REQUEST | GOAL_REQUEST_FAILED | RESULT_REQUEST | CANCEL_REQUEST | GOAL_ENDED

text \<open>
  \<^item> \<open>allocate_handles a n\<close>: \<^verbatim>\<open>a->allocate(n * sizeof(rclc_executor_handle_t), a->state)\<close>;
    \<open>None\<close> is a null result, otherwise the (arbitrary) content of the \<open>n\<close> fresh slots.
  \<^item> \<open>rcl_wait_set_add k ws p i\<close> returns the code, the wait set and the value of the index
    variable after the call (\<open>i\<close> before it).
  \<^item> \<open>rcl_action_wait_set_get_num_entities k p\<close> returns the code and the five numbers
    (subscriptions, guard conditions, timers, clients, services) of the action endpoint
    \<open>p\<close>; they are a property of the endpoint and do not change while it exists.
  \<^item> \<open>rcl_take_request\<close> and \<open>rcl_take_response\<close> also return the request id they write.
  \<^item> \<open>call f args\<close> runs the user callback at address \<open>f\<close>; the request id is passed by
    value.
  \<^item> \<open>rclc_action_goal_memory\<close> stands for the allocation and initialisation of the
    goal-handle pool of an action endpoint when it is registered (\<open>None\<close>: the allocator
    returned null); \<open>rclc_action_take_goal_handle\<close> tells whether a free goal handle was
    obtained; \<open>rclc_action_bookkeeping\<close> stands for the goal-handle updates that follow a
    successful take of the action protocol, \<open>rclc_action_execute\<close> for one sweep over the
    goal handles in \<^verbatim>\<open>_rclc_execute\<close>, with its callbacks. The goal-handle pool and its
    helper functions are declared in headers that are not among the source files.
\<close>

record ('ws, 'x) rcl =
  rcutils_allocator_is_valid :: "ptr \<Rightarrow> bool"
  allocate_handles :: "ptr \<Rightarrow> nat \<Rightarrow> (nat \<Rightarrow> rclc_executor_handle_t) option"
  rcl_context_is_valid :: "ptr \<Rightarrow> 'x world \<Rightarrow> bool"
  rcl_get_zero_initialized_wait_set :: 'ws
  rcl_wait_set_is_valid :: "'ws \<Rightarrow> bool"
  rcl_wait_set_fini :: "'ws \<Rightarrow> rcl_ret_t \<times> 'ws"
  rcl_wait_set_init ::
    "'ws \<Rightarrow> rclc_executor_handle_counters_t \<Rightarrow> ptr \<Rightarrow> ptr \<Rightarrow> rcl_ret_t \<times> 'ws"
  rcl_wait_set_clear :: "'ws \<Rightarrow> rcl_ret_t \<times> 'ws"
  rcl_wait_set_add :: "rcl_entity \<Rightarrow> 'ws \<Rightarrow> ptr \<Rightarrow> nat \<Rightarrow> rcl_ret_t \<times> 'ws \<times> nat"
  rcl_wait :: "'ws \<Rightarrow> 64 word \<Rightarrow> 'x world \<Rightarrow> rcl_ret_t \<times> 'ws \<times> 'x world"
  wait_set_entry :: "rcl_entity \<Rightarrow> 'ws \<Rightarrow> nat \<Rightarrow> ptr"
  rcl_action_wait_set_get_entities_ready ::
    "rcl_entity \<Rightarrow> 'ws \<Rightarrow> ptr \<Rightarrow> 'x world \<Rightarrow> rcl_ret_t \<times> 'x world"
  rcl_action_wait_set_get_num_entities ::
    "rcl_entity \<Rightarrow> ptr
       \<Rightarrow> rcl_ret_t \<times> (64 word \<times> 64 word \<times> 64 word \<times> 64 word \<times> 64 word)"
  rcl_take :: "ptr \<Rightarrow> ptr \<Rightarrow> 'x world \<Rightarrow> rcl_ret_t \<times> 'x world"
  rcl_take_request :: "ptr \<Rightarrow> nat \<Rightarrow> ptr \<Rightarrow> 'x world \<Rightarrow> rcl_ret_t \<times> nat \<times> 'x world"
  rcl_take_response :: "ptr \<Rightarrow> nat \<Rightarrow> ptr \<Rightarrow> 'x world \<Rightarrow> rcl_ret_t \<times> nat \<times> 'x world"
  rcl_timer_call :: "ptr \<Rightarrow> 'x world \<Rightarrow> rcl_ret_t \<times> 'x world"
  rcl_send_response :: "ptr \<Rightarrow> nat \<Rightarrow> ptr \<Rightarrow> 'x world \<Rightarrow> rcl_ret_t \<times> 'x world"
  call :: "ptr \<Rightarrow> nat list \<Rightarrow> 'x world \<Rightarrow> 'x world"
  user_trigger ::
    "nat \<Rightarrow> 'x world \<Rightarrow> rclc_executor_handle_t list option \<Rightarrow> nat \<Rightarrow> ptr \<Rightarrow> bool"
  rcl_action_take :: "action_step \<Rightarrow> ptr \<Rightarrow> 'x world \<Rightarrow> rcl_ret_t \<times> 'x world"
  rclc_action_goal_memory :: "rcl_entity \<Rightarrow> ptr \<Rightarrow> nat \<Rightarrow> 'x world \<Rightarrow> 'x world option"
  rclc_action_take_goal_handle :: "ptr \<Rightarrow> 'x world \<Rightarrow> bool \<times> 'x world"
  rclc_action_bookkeeping :: "action_step \<Rightarrow> ptr \<Rightarrow> 'x world \<Rightarrow> 'x world"
  rclc_action_execute :: "action_step \<Rightarrow> ptr \<Rightarrow> ptr \<Rightarrow> 'x world \<Rightarrow> 'x world"

section \<open>Readiness and the trigger functions\<close>

fun rclc_check_handle_data_available ::
  "'x world \<Rightarrow> rclc_executor_handle_t option \<Rightarrow> bool" where
  "rclc_check_handle_data_available w None = False"
| "rclc_check_handle_data_available w (Some handle) =
     (case h_type handle of
        RCLC_ACTION_CLIENT \<Rightarrow>
          (let ac = action_clients w (h_entity handle)
           in feedback_available ac \<or> status_available ac \<or> goal_response_available ac \<or>
              cancel_response_available ac \<or> result_response_available ac)
      | RCLC_ACTION_SERVER \<Rightarrow>
          (let as = action_servers w (h_entity handle)
           in goal_request_available as \<or> cancel_request_available as \<or>
              goal_expired_available as \<or> result_request_available as \<or> goal_ended as)
      | _ \<Rightarrow> h_data_available handle)"

text \<open>
  The loops of the trigger functions,
  \<^verbatim>\<open>for (unsigned int i = 0; i < size; i++) { if (handles[i].initialized) ... else break; }\<close>,
  as recursion on \<open>i\<close>.
\<close>

function trigger_all_from ::
  "'x world \<Rightarrow> rclc_executor_handle_t list \<Rightarrow> nat \<Rightarrow> nat \<Rightarrow> bool" where
  "trigger_all_from w handles sz i =
     (if i < sz then
        (if h_initialized (handles ! i) then
           (if rclc_check_handle_data_available w (Some (handles ! i)) = False then False
            else trigger_all_from w handles sz (i + 1))
         else True)
      else True)"
  by pat_completeness auto
termination
  by (relation "measure (\<lambda>(w, handles, sz, i). sz - i)") auto

function trigger_any_from ::
  "'x world \<Rightarrow> rclc_executor_handle_t list \<Rightarrow> nat \<Rightarrow> nat \<Rightarrow> bool" where
  "trigger_any_from w handles sz i =
     (if i < sz then
        (if h_initialized (handles ! i) then
           (if rclc_check_handle_data_available w (Some (handles ! i)) then True
            else trigger_any_from w handles sz (i + 1))
         else False)
      else False)"
  by pat_completeness auto
termination
  by (relation "measure (\<lambda>(w, handles, sz, i). sz - i)") auto

function trigger_one_from ::
  "'x world \<Rightarrow> rclc_executor_handle_t list \<Rightarrow> nat \<Rightarrow> ptr \<Rightarrow> nat \<Rightarrow> bool" where
  "trigger_one_from w handles sz obj i =
     (if i < sz then
        (if h_initialized (handles ! i) then
           (if rclc_check_handle_data_available w (Some (handles ! i)) then
              (let handle_obj_ptr = rclc_executor_handle_get_ptr (Some (handles ! i))
               in if NULL = handle_obj_ptr then False
                  else if obj = handle_obj_ptr then True
                  else trigger_one_from w handles sz obj (i + 1))
            else trigger_one_from w handles sz obj (i + 1))
         else False)
      else False)"
  by pat_completeness auto
termination
  by (relation "measure (\<lambda>(w, handles, sz, obj, i). sz - i)") auto

fun rclc_executor_trigger_all ::
  "'x world \<Rightarrow> rclc_executor_handle_t list option \<Rightarrow> nat \<Rightarrow> ptr \<Rightarrow> bool" where
  "rclc_executor_trigger_all w None sz obj = False"
| "rclc_executor_trigger_all w (Some handles) sz obj = trigger_all_from w handles sz 0"

fun rclc_executor_trigger_any ::
  "'x world \<Rightarrow> rclc_executor_handle_t list option \<Rightarrow> nat \<Rightarrow> ptr \<Rightarrow> bool" where
  "rclc_executor_trigger_any w None sz obj = False"
| "rclc_executor_trigger_any w (Some handles) sz obj = trigger_any_from w handles sz 0"

fun rclc_executor_trigger_one ::
  "'x world \<Rightarrow> rclc_executor_handle_t list option \<Rightarrow> nat \<Rightarrow> ptr \<Rightarrow> bool" where
  "rclc_executor_trigger_one w None sz obj = False"
| "rclc_executor_trigger_one w (Some handles) sz obj =
     trigger_one_from w handles sz obj 0"

definition rclc_executor_trigger_always ::
  "'x world \<Rightarrow> rclc_executor_handle_t list option \<Rightarrow> nat \<Rightarrow> ptr \<Rightarrow> bool" where
  "rclc_executor_trigger_always w handles sz obj = True"

text \<open>
  The call \<^verbatim>\<open>executor->trigger_function(executor->handles, executor->max_handles,
  executor->trigger_object)\<close>: a call through a null function pointer has no result
  (\<open>None\<close>); the \<^verbatim>\<open>size_t\<close> argument is converted to the \<^verbatim>\<open>unsigned int\<close> parameter.
\<close>

definition call_trigger_function ::
  "('ws, 'x) rcl \<Rightarrow> 'ws rclc_executor_t \<Rightarrow> 'x world \<Rightarrow> bool option" where
  "call_trigger_function mw executor w =
     (let handles = e_handles executor;
          sz = e_max_handles executor mod 2 ^ 32;
          obj = e_trigger_object executor
      in case e_trigger_function executor of
           None \<Rightarrow> None
         | Some TRIGGER_ALL \<Rightarrow> Some (rclc_executor_trigger_all w handles sz obj)
         | Some TRIGGER_ANY \<Rightarrow> Some (rclc_executor_trigger_any w handles sz obj)
         | Some TRIGGER_ONE \<Rightarrow> Some (rclc_executor_trigger_one w handles sz obj)
         | Some TRIGGER_ALWAYS \<Rightarrow> Some (rclc_executor_trigger_always w handles sz obj)
         | Some (TRIGGER_USER f) \<Rightarrow> Some (user_trigger mw f w handles sz obj))"

section \<open>One handle: readiness, take, execute\<close>

text \<open>
  The three static functions below are only called with the address of an element of the
  handle array and the address of the executor's wait set, so their null-pointer checks
  never fail and are not modelled. Each returns the code, the handle and the world as the
  call leaves them.
\<close>

definition set_data_available ::
  "('ws, 'x) rcl \<Rightarrow> rcl_entity \<Rightarrow> rclc_executor_handle_t \<Rightarrow> 'ws \<Rightarrow> rclc_executor_handle_t" where
  "set_data_available mw k handle wait_set =
     handle\<lparr> h_data_available := (NULL \<noteq> wait_set_entry mw k wait_set (h_index handle)) \<rparr>"

definition rclc_check_for_new_data ::
  "('ws, 'x) rcl \<Rightarrow> rclc_executor_handle_t \<Rightarrow> 'ws \<Rightarrow> 'x world
     \<Rightarrow> rcl_ret_t \<times> rclc_executor_handle_t \<times> 'x world" where
  "rclc_check_for_new_data mw handle wait_set w =
     (case h_type handle of
        RCLC_SUBSCRIPTION \<Rightarrow> (RCL_RET_OK, set_data_available mw SUBSCRIPTION handle wait_set, w)
      | RCLC_SUBSCRIPTION_WITH_CONTEXT \<Rightarrow>
          (RCL_RET_OK, set_data_available mw SUBSCRIPTION handle wait_set, w)
      | RCLC_TIMER \<Rightarrow> (RCL_RET_OK, set_data_available mw TIMER handle wait_set, w)
      | RCLC_SERVICE \<Rightarrow> (RCL_RET_OK, set_data_available mw SERVICE handle wait_set, w)
      | RCLC_SERVICE_WITH_REQUEST_ID \<Rightarrow>
          (RCL_RET_OK, set_data_available mw SERVICE handle wait_set, w)
      | RCLC_SERVICE_WITH_CONTEXT \<Rightarrow>
          (RCL_RET_OK, set_data_available mw SERVICE handle wait_set, w)
      | RCLC_CLIENT \<Rightarrow> (RCL_RET_OK, set_data_available mw CLIENT handle wait_set, w)
      | RCLC_CLIENT_WITH_REQUEST_ID \<Rightarrow>
          (RCL_RET_OK, set_data_available mw CLIENT handle wait_set, w)
      | RCLC_GUARD_CONDITION \<Rightarrow>
          (RCL_RET_OK, set_data_available mw GUARD_CONDITION handle wait_set, w)
      | RCLC_ACTION_CLIENT \<Rightarrow>
          (let (rc, w') = rcl_action_wait_set_get_entities_ready mw ACTION_CLIENT wait_set
                            (h_entity handle) w
           in (rc, handle, w'))
      | RCLC_ACTION_SERVER \<Rightarrow>
          (let (rc, w') = rcl_action_wait_set_get_entities_ready mw ACTION_SERVER wait_set
                            (h_entity handle) w
           in (rc, handle, w'))
      | RCLC_NONE \<Rightarrow> (RCL_RET_ERROR, handle, w))"

text \<open>The branches of the switch in \<^verbatim>\<open>_rclc_take_new_data\<close>.\<close>

definition take_new_data_subscription ::
  "('ws, 'x) rcl \<Rightarrow> rclc_executor_handle_t \<Rightarrow> 'ws \<Rightarrow> 'x world
     \<Rightarrow> rcl_ret_t \<times> rclc_executor_handle_t \<times> 'x world" where
  "take_new_data_subscription mw handle wait_set w =
     (if wait_set_entry mw SUBSCRIPTION wait_set (h_index handle) \<noteq> NULL then
        (let (rc, w') = rcl_take mw (h_entity handle) (h_data handle) w
         in if rc \<noteq> RCL_RET_OK then
              (if rc = RCL_RET_SUBSCRIPTION_TAKE_FAILED
               then (rc, handle\<lparr> h_data_available := False \<rparr>, w')
               else (rc, handle, w'))
            else (rc, handle, w'))
      else (RCL_RET_OK, handle, w))"

definition take_new_data_service ::
  "('ws, 'x) rcl \<Rightarrow> rclc_executor_handle_t \<Rightarrow> 'ws \<Rightarrow> 'x world
     \<Rightarrow> rcl_ret_t \<times> rclc_executor_handle_t \<times> 'x world" where
  "take_new_data_service mw handle wait_set w =
     (if wait_set_entry mw SERVICE wait_set (h_index handle) \<noteq> NULL then
        (let (rc, req_id, w') =
               rcl_take_request mw (h_entity handle) (h_req_id handle) (h_data handle) w;
             handle' = handle\<lparr> h_req_id := req_id \<rparr>
         in if rc \<noteq> RCL_RET_OK then
              (if rc = RCL_RET_SERVICE_TAKE_FAILED
               then (rc, handle'\<lparr> h_data_available := False \<rparr>, w')
               else (rc, handle', w'))
            else (rc, handle', w'))
      else (RCL_RET_OK, handle, w))"

definition take_new_data_client ::
  "('ws, 'x) rcl \<Rightarrow> rclc_executor_handle_t \<Rightarrow> 'ws \<Rightarrow> 'x world
     \<Rightarrow> rcl_ret_t \<times> rclc_executor_handle_t \<times> 'x world" where
  "take_new_data_client mw handle wait_set w =
     (if wait_set_entry mw CLIENT wait_set (h_index handle) \<noteq> NULL then
        (let (rc, req_id, w') =
               rcl_take_response mw (h_entity handle) (h_req_id handle) (h_data handle) w
         in (rc, handle\<lparr> h_req_id := req_id \<rparr>, w'))
      else (RCL_RET_OK, handle, w))"

text \<open>
  One guarded step of the action protocol: take, return the error if there is one,
  otherwise update the goal handles. The first component tells whether the function
  returns at this step.
\<close>

definition action_take_step ::
  "('ws, 'x) rcl \<Rightarrow> action_step \<Rightarrow> ptr \<Rightarrow> 'x world \<Rightarrow> bool \<times> rcl_ret_t \<times> 'x world" where
  "action_take_step mw step p w =
     (let (rc, w') = rcl_action_take mw step p w
      in if rc \<noteq> RCL_RET_OK then (True, rc, w')
         else (False, rc, rclc_action_bookkeeping mw step p w'))"

definition take_new_data_action_client ::
  "('ws, 'x) rcl \<Rightarrow> rclc_executor_handle_t \<Rightarrow> 'x world
     \<Rightarrow> rcl_ret_t \<times> rclc_executor_handle_t \<times> 'x world" where
  "take_new_data_action_client mw handle w =
     (let p = h_entity handle;
          (ret1, rc1, w1) =
            (if goal_response_available (action_clients w p)
             then action_take_step mw GOAL_RESPONSE p w else (False, RCL_RET_OK, w))
      in if ret1 then (rc1, handle, w1) else
     (let (ret2, rc2, w2) =
            (if ac_feedback_callback (action_clients w1 p) \<noteq> NULL \<and>
                feedback_available (action_clients w1 p)
             then action_take_step mw FEEDBACK p w1 else (False, rc1, w1))
      in if ret2 then (rc2, handle, w2) else
     (let (ret3, rc3, w3) =
            (if cancel_response_available (action_clients w2 p)
             then action_take_step mw CANCEL_RESPONSE p w2 else (False, rc2, w2))
      in if ret3 then (rc3, handle, w3) else
     (let (ret4, rc4, w4) =
            (if result_response_available (action_clients w3 p)
             then action_take_step mw RESULT_RESPONSE p w3 else (False, rc3, w3))
      in (rc4, handle, w4)))))"

definition take_new_data_action_server ::
  "('ws, 'x) rcl \<Rightarrow> rclc_executor_handle_t \<Rightarrow> 'x world
     \<Rightarrow> rcl_ret_t \<times> rclc_executor_handle_t \<times> 'x world" where
  "take_new_data_action_server mw handle w =
     (let p = h_entity handle;
          (ret1, rc1, w1) =
            (if goal_request_available (action_servers w p) then
               (let (got, wa) = rclc_action_take_goal_handle mw p w
                in if got then
                     (let (rc, wb) = rcl_action_take mw GOAL_REQUEST p wa
                      in if rc \<noteq> RCL_RET_OK
                         then (True, rc, rclc_action_bookkeeping mw GOAL_REQUEST_FAILED p wb)
                         else (False, rc, rclc_action_bookkeeping mw GOAL_REQUEST p wb))
                   else (False, RCL_RET_OK, wa))
             else (False, RCL_RET_OK, w))
      in if ret1 then (rc1, handle, w1) else
     (let (ret2, rc2, w2) =
            (if result_request_available (action_servers w1 p) then
               (let (ret, rc, wa) = action_take_step mw RESULT_REQUEST p w1
                in if ret then (True, rc, wa)
                   else (False, rc,
                         wa\<lparr> action_servers := (action_servers wa)
                               (p := (action_servers wa p)\<lparr> result_request_available := False \<rparr>) \<rparr>))
             else (False, rc1, w1))
      in if ret2 then (rc2, handle, w2) else
     (let (ret3, rc3, w3) =
            (if cancel_request_available (action_servers w2 p)
             then action_take_step mw CANCEL_REQUEST p w2 else (False, rc2, w2))
      in (rc3, handle, w3))))"

definition rclc_take_new_data ::
  "('ws, 'x) rcl \<Rightarrow> rclc_executor_handle_t \<Rightarrow> 'ws \<Rightarrow> 'x world
     \<Rightarrow> rcl_ret_t \<times> rclc_executor_handle_t \<times> 'x world" where
  "rclc_take_new_data mw handle wait_set w =
     (case h_type handle of
        RCLC_SUBSCRIPTION \<Rightarrow> take_new_data_subscription mw handle wait_set w
      | RCLC_SUBSCRIPTION_WITH_CONTEXT \<Rightarrow> take_new_data_subscription mw handle wait_set w
      | RCLC_TIMER \<Rightarrow> (RCL_RET_OK, handle, w)
      | RCLC_ACTION_CLIENT \<Rightarrow> take_new_data_action_client mw handle w
      | RCLC_ACTION_SERVER \<Rightarrow> take_new_data_action_server mw handle w
      | RCLC_SERVICE \<Rightarrow> take_new_data_service mw handle wait_set w
      | RCLC_SERVICE_WITH_REQUEST_ID \<Rightarrow> take_new_data_service mw handle wait_set w
      | RCLC_SERVICE_WITH_CONTEXT \<Rightarrow> take_new_data_service mw handle wait_set w
      | RCLC_CLIENT \<Rightarrow> take_new_data_client mw handle wait_set w
      | RCLC_CLIENT_WITH_REQUEST_ID \<Rightarrow> take_new_data_client mw handle wait_set w
      | RCLC_GUARD_CONDITION \<Rightarrow> (RCL_RET_OK, handle, w)
      | RCLC_NONE \<Rightarrow> (RCL_RET_ERROR, handle, w))"

text \<open>The branches of the switch in \<^verbatim>\<open>_rclc_execute\<close>.\<close>

definition execute_service ::
  "('ws, 'x) rcl \<Rightarrow> rclc_executor_handle_t \<Rightarrow> nat list \<Rightarrow> 'x world \<Rightarrow> rcl_ret_t \<times> 'x world" where
  "execute_service mw handle args w =
     rcl_send_response mw (h_entity handle) (h_req_id handle) (h_data_response_msg handle)
       (call mw (h_callback handle) args w)"

definition execute_action_client ::
  "('ws, 'x) rcl \<Rightarrow> rclc_executor_handle_t \<Rightarrow> 'x world \<Rightarrow> 'x world" where
  "execute_action_client mw handle w =
     (let p = h_entity handle; ctx = h_callback_context handle;
          w1 = (if goal_response_available (action_clients w p)
                then rclc_action_execute mw GOAL_RESPONSE p ctx w else w);
          w2 = (if feedback_available (action_clients w1 p)
                then rclc_action_execute mw FEEDBACK p ctx w1 else w1);
          w3 = (if cancel_response_available (action_clients w2 p)
                then rclc_action_execute mw CANCEL_RESPONSE p ctx w2 else w2)
      in if result_response_available (action_clients w3 p)
         then rclc_action_execute mw RESULT_RESPONSE p ctx w3 else w3)"

definition execute_action_server ::
  "('ws, 'x) rcl \<Rightarrow> rclc_executor_handle_t \<Rightarrow> 'x world \<Rightarrow> 'x world" where
  "execute_action_server mw handle w =
     (let p = h_entity handle; ctx = h_callback_context handle;
          w1 = (if goal_ended (action_servers w p) then
                  (let wa = rclc_action_execute mw GOAL_ENDED p ctx w
                   in wa\<lparr> action_servers := (action_servers wa)
                           (p := (action_servers wa p)\<lparr> goal_ended := False \<rparr>) \<rparr>)
                else w);
          w2 = (if goal_request_available (action_servers w1 p) then
                  (let wa = rclc_action_execute mw GOAL_REQUEST p ctx w1
                   in wa\<lparr> action_servers := (action_servers wa)
                           (p := (action_servers wa p)\<lparr> goal_request_available := False \<rparr>) \<rparr>)
                else w1)
      in if cancel_request_available (action_servers w2 p) then
           (let wa = rclc_action_execute mw CANCEL_REQUEST p ctx w2
            in wa\<lparr> action_servers := (action_servers wa)
                    (p := (action_servers wa p)\<lparr> cancel_request_available := False \<rparr>) \<rparr>)
         else w2)"

definition rclc_execute ::
  "('ws, 'x) rcl \<Rightarrow> rclc_executor_handle_t \<Rightarrow> 'x world \<Rightarrow> rcl_ret_t \<times> 'x world" where
  "rclc_execute mw handle w =
     (let invoke_callback =
            ((h_invocation handle = ON_NEW_DATA \<and>
              rclc_check_handle_data_available w (Some handle)) \<or>
             h_invocation handle = ALWAYS);
          msg = (if h_data_available handle then h_data handle else NULL)
      in if invoke_callback then
           (case h_type handle of
              RCLC_SUBSCRIPTION \<Rightarrow> (RCL_RET_OK, call mw (h_callback handle) [msg] w)
            | RCLC_SUBSCRIPTION_WITH_CONTEXT \<Rightarrow>
                (RCL_RET_OK, call mw (h_callback handle) [msg, h_callback_context handle] w)
            | RCLC_TIMER \<Rightarrow>
                (let (rc, w') = rcl_timer_call mw (h_entity handle) w
                 in if rc = RCL_RET_TIMER_CANCELED then (RCL_RET_OK, w') else (rc, w'))
            | RCLC_SERVICE \<Rightarrow>
                execute_service mw handle [h_data handle, h_data_response_msg handle] w
            | RCLC_SERVICE_WITH_REQUEST_ID \<Rightarrow>
                execute_service mw handle
                  [h_data handle, h_req_id handle, h_data_response_msg handle] w
            | RCLC_SERVICE_WITH_CONTEXT \<Rightarrow>
                execute_service mw handle
                  [h_data handle, h_data_response_msg handle, h_callback_context handle] w
            | RCLC_CLIENT \<Rightarrow> (RCL_RET_OK, call mw (h_callback handle) [h_data handle] w)
            | RCLC_CLIENT_WITH_REQUEST_ID \<Rightarrow>
                (RCL_RET_OK, call mw (h_callback handle) [h_data handle, h_req_id handle] w)
            | RCLC_GUARD_CONDITION \<Rightarrow> (RCL_RET_OK, call mw (h_callback handle) [] w)
            | RCLC_ACTION_CLIENT \<Rightarrow> (RCL_RET_OK, execute_action_client mw handle w)
            | RCLC_ACTION_SERVER \<Rightarrow> (RCL_RET_OK, execute_action_server mw handle w)
            | RCLC_NONE \<Rightarrow> (RCL_RET_ERROR, w))
         else (RCL_RET_OK, w))"

section \<open>The schedulers\<close>

text \<open>
  The state of a processing round: the executor, the world, and the log of the calls of
  \<^verbatim>\<open>_rclc_take_new_data\<close> and \<^verbatim>\<open>_rclc_execute\<close> made so far, each with the
  position of its handle. User callbacks, \<^verbatim>\<open>rcl_timer_call\<close> and \<^verbatim>\<open>rcl_send_response\<close>
  run only inside \<^verbatim>\<open>_rclc_execute\<close>. The callbacks act on the world, not on the executor.
\<close>

datatype event = EV_TAKE nat | EV_EXECUTE nat

record ('ws, 'x) round_state =
  rs_executor :: "'ws rclc_executor_t"
  rs_world :: "'x world"
  rs_trace :: "event list"

definition handle_at :: "'ws rclc_executor_t \<Rightarrow> nat \<Rightarrow> rclc_executor_handle_t" where
  "handle_at executor i = the (e_handles executor) ! i"

definition set_handle ::
  "'ws rclc_executor_t \<Rightarrow> nat \<Rightarrow> rclc_executor_handle_t \<Rightarrow> 'ws rclc_executor_t" where
  "set_handle executor i handle =
     executor\<lparr> e_handles := map_option (\<lambda>hs. hs[i := handle]) (e_handles executor) \<rparr>"

text \<open>
  The loop
  \<^verbatim>\<open>for (size_t i = 0; (i < executor->max_handles && executor->handles[i].initialized); i++)\<close>
  around a body that either executes \<^verbatim>\<open>return rc\<close> (first component \<open>True\<close>) or falls
  through to the next iteration. No body changes \<^verbatim>\<open>max_handles\<close>, which is read once.
  The result tells whether the enclosing function has returned, and the last value
  assigned to \<^verbatim>\<open>rc\<close>.
\<close>

function for_each_handle ::
  "(nat \<Rightarrow> ('ws, 'x) round_state \<Rightarrow> bool \<times> rcl_ret_t \<times> ('ws, 'x) round_state)
     \<Rightarrow> nat \<Rightarrow> nat \<Rightarrow> rcl_ret_t \<Rightarrow> ('ws, 'x) round_state
     \<Rightarrow> bool \<times> rcl_ret_t \<times> ('ws, 'x) round_state" where
  "for_each_handle body max_handles i rc s =
     (if i < max_handles \<and> h_initialized (handle_at (rs_executor s) i) then
        (let (returned, rc', s') = body i s
         in if returned then (True, rc', s')
            else for_each_handle body max_handles (i + 1) rc' s')
      else (False, rc, s))"
  by pat_completeness auto
termination
  by (relation "measure (\<lambda>(body, max_handles, i, rc, s). max_handles - i)") auto

definition check_body ::
  "('ws, 'x) rcl \<Rightarrow> nat \<Rightarrow> ('ws, 'x) round_state
     \<Rightarrow> bool \<times> rcl_ret_t \<times> ('ws, 'x) round_state" where
  "check_body mw i s =
     (let executor = rs_executor s;
          (rc, handle, w) = rclc_check_for_new_data mw (handle_at executor i)
                              (e_wait_set executor) (rs_world s);
          s' = s\<lparr> rs_executor := set_handle executor i handle, rs_world := w \<rparr>
      in ((rc \<noteq> RCL_RET_OK) \<and> (rc \<noteq> RCL_RET_SUBSCRIPTION_TAKE_FAILED), rc, s'))"

definition take_step ::
  "('ws, 'x) rcl \<Rightarrow> nat \<Rightarrow> ('ws, 'x) round_state \<Rightarrow> rcl_ret_t \<times> ('ws, 'x) round_state" where
  "take_step mw i s =
     (let executor = rs_executor s;
          (rc, handle, w) = rclc_take_new_data mw (handle_at executor i)
                              (e_wait_set executor) (rs_world s)
      in (rc, s\<lparr> rs_executor := set_handle executor i handle, rs_world := w,
                 rs_trace := rs_trace s @ [EV_TAKE i] \<rparr>))"

definition execute_step ::
  "('ws, 'x) rcl \<Rightarrow> nat \<Rightarrow> ('ws, 'x) round_state \<Rightarrow> rcl_ret_t \<times> ('ws, 'x) round_state" where
  "execute_step mw i s =
     (let (rc, w) = rclc_execute mw (handle_at (rs_executor s) i) (rs_world s)
      in (rc, s\<lparr> rs_world := w, rs_trace := rs_trace s @ [EV_EXECUTE i] \<rparr>))"

definition default_body ::
  "('ws, 'x) rcl \<Rightarrow> nat \<Rightarrow> ('ws, 'x) round_state
     \<Rightarrow> bool \<times> rcl_ret_t \<times> ('ws, 'x) round_state" where
  "default_body mw i s =
     (let (rc, s1) = take_step mw i s
      in if (rc \<noteq> RCL_RET_OK) \<and> (rc \<noteq> RCL_RET_SUBSCRIPTION_TAKE_FAILED) \<and>
            (rc \<noteq> RCL_RET_SERVICE_TAKE_FAILED)
         then (True, rc, s1)
         else (let (rc2, s2) = execute_step mw i s1 in (rc2 \<noteq> RCL_RET_OK, rc2, s2)))"

definition let_take_body ::
  "('ws, 'x) rcl \<Rightarrow> nat \<Rightarrow> ('ws, 'x) round_state
     \<Rightarrow> bool \<times> rcl_ret_t \<times> ('ws, 'x) round_state" where
  "let_take_body mw i s =
     (let (rc, s1) = take_step mw i s
      in ((rc \<noteq> RCL_RET_OK) \<and> (rc \<noteq> RCL_RET_SUBSCRIPTION_TAKE_FAILED), rc, s1))"

definition let_execute_body ::
  "('ws, 'x) rcl \<Rightarrow> nat \<Rightarrow> ('ws, 'x) round_state
     \<Rightarrow> bool \<times> rcl_ret_t \<times> ('ws, 'x) round_state" where
  "let_execute_body mw i s =
     (let (rc, s1) = execute_step mw i s in (rc \<noteq> RCL_RET_OK, rc, s1))"

text \<open>
  The schedulers are called by \<^verbatim>\<open>rclc_executor_spin_some\<close> with a non-null executor.
  The result is \<open>None\<close> when the trigger function pointer is null.
\<close>

definition rclc_default_scheduling ::
  "('ws, 'x) rcl \<Rightarrow> ('ws, 'x) round_state \<Rightarrow> (rcl_ret_t \<times> ('ws, 'x) round_state) option" where
  "rclc_default_scheduling mw s =
     (let max_handles = e_max_handles (rs_executor s);
          (returned, rc, s1) = for_each_handle (check_body mw) max_handles 0 RCL_RET_OK s
      in if returned then Some (rc, s1)
         else (case call_trigger_function mw (rs_executor s1) (rs_world s1) of
                 None \<Rightarrow> None
               | Some fired \<Rightarrow>
                   if fired then
                     (let (returned2, rc2, s2) =
                            for_each_handle (default_body mw) max_handles 0 rc s1
                      in Some (rc2, s2))
                   else Some (rc, s1)))"

definition rclc_let_scheduling ::
  "('ws, 'x) rcl \<Rightarrow> ('ws, 'x) round_state \<Rightarrow> (rcl_ret_t \<times> ('ws, 'x) round_state) option" where
  "rclc_let_scheduling mw s =
     (let max_handles = e_max_handles (rs_executor s);
          (returned, rc, s1) = for_each_handle (check_body mw) max_handles 0 RCL_RET_OK s
      in if returned then Some (rc, s1)
         else (case call_trigger_function mw (rs_executor s1) (rs_world s1) of
                 None \<Rightarrow> None
               | Some fired \<Rightarrow>
                   if fired then
                     (let (returned2, rc2, s2) =
                            for_each_handle (let_take_body mw) max_handles 0 rc s1
                      in if returned2 then Some (rc2, s2)
                         else (let (returned3, rc3, s3) =
                                     for_each_handle (let_execute_body mw) max_handles 0 rc2 s2
                               in Some (rc3, s3)))
                   else Some (rc, s1)))"

section \<open>The wait set and spin\_some\<close>

fun rclc_executor_prepare ::
  "('ws, 'x) rcl \<Rightarrow> 'ws rclc_executor_t option \<Rightarrow> rcl_ret_t \<times> 'ws rclc_executor_t option" where
  "rclc_executor_prepare mw None = (RCL_RET_INVALID_ARGUMENT, None)"
| "rclc_executor_prepare mw (Some executor) =
     (if \<not> rcl_wait_set_is_valid mw (e_wait_set executor) then
        (let (rc_fini, ws1) = rcl_wait_set_fini mw (e_wait_set executor);
             ws2 = rcl_get_zero_initialized_wait_set mw;
             (rc, ws3) = rcl_wait_set_init mw ws2 (e_info executor) (e_context executor)
                           (e_allocator executor)
         in (rc, Some (executor\<lparr> e_wait_set := ws3 \<rparr>)))
      else (RCL_RET_OK, Some executor))"

text \<open>The rcl function that the switch in \<^verbatim>\<open>rclc_executor_spin_some\<close> calls for a handle type.\<close>

fun wait_set_add_kind :: "rclc_executor_handle_type_t \<Rightarrow> rcl_entity option" where
  "wait_set_add_kind RCLC_SUBSCRIPTION = Some SUBSCRIPTION"
| "wait_set_add_kind RCLC_SUBSCRIPTION_WITH_CONTEXT = Some SUBSCRIPTION"
| "wait_set_add_kind RCLC_TIMER = Some TIMER"
| "wait_set_add_kind RCLC_SERVICE = Some SERVICE"
| "wait_set_add_kind RCLC_SERVICE_WITH_REQUEST_ID = Some SERVICE"
| "wait_set_add_kind RCLC_SERVICE_WITH_CONTEXT = Some SERVICE"
| "wait_set_add_kind RCLC_CLIENT = Some CLIENT"
| "wait_set_add_kind RCLC_CLIENT_WITH_REQUEST_ID = Some CLIENT"
| "wait_set_add_kind RCLC_GUARD_CONDITION = Some GUARD_CONDITION"
| "wait_set_add_kind RCLC_ACTION_CLIENT = Some ACTION_CLIENT"
| "wait_set_add_kind RCLC_ACTION_SERVER = Some ACTION_SERVER"
| "wait_set_add_kind RCLC_NONE = None"

definition wait_set_add_body ::
  "('ws, 'x) rcl \<Rightarrow> nat \<Rightarrow> ('ws, 'x) round_state
     \<Rightarrow> bool \<times> rcl_ret_t \<times> ('ws, 'x) round_state" where
  "wait_set_add_body mw i s =
     (let executor = rs_executor s; handle = handle_at executor i
      in case wait_set_add_kind (h_type handle) of
           None \<Rightarrow> (True, RCL_RET_ERROR, s)
         | Some k \<Rightarrow>
             (let (rc, ws, idx) = rcl_wait_set_add mw k (e_wait_set executor) (h_entity handle)
                                    (h_index handle);
                  executor' = (set_handle executor i (handle\<lparr> h_index := idx \<rparr>))
                                \<lparr> e_wait_set := ws \<rparr>
              in (rc \<noteq> RCL_RET_OK, rc, s\<lparr> rs_executor := executor' \<rparr>)))"

text \<open>
  \<^verbatim>\<open>rclc_executor_spin_some\<close>, in the order of its statements; the three parts after
  \<^verbatim>\<open>rcl_wait_set_clear\<close> are written as functions of their own: the dispatch on the
  semantics, the call of \<^verbatim>\<open>rcl_wait\<close>, and the loop that adds the handles to the wait
  set. The value of \<^verbatim>\<open>rclc_executor_prepare\<close> is not looked at; the value of
  \<^verbatim>\<open>rcl_wait\<close> is assigned to \<^verbatim>\<open>rc\<close> and overwritten by the scheduler's. The result
  is the code, the executor, the world and the log of the round.
\<close>

definition spin_some_schedule ::
  "('ws, 'x) rcl \<Rightarrow> ('ws, 'x) round_state
     \<Rightarrow> (rcl_ret_t \<times> 'ws rclc_executor_t option \<times> 'x world \<times> event list) option" where
  "spin_some_schedule mw s =
     map_option (\<lambda>(rc, s'). (rc, Some (rs_executor s'), rs_world s', rs_trace s'))
       (case e_data_comm_semantics (rs_executor s) of
          LET \<Rightarrow> rclc_let_scheduling mw s
        | RCLCPP_EXECUTOR \<Rightarrow> rclc_default_scheduling mw s)"

definition spin_some_wait ::
  "('ws, 'x) rcl \<Rightarrow> 64 word \<Rightarrow> ('ws, 'x) round_state
     \<Rightarrow> (rcl_ret_t \<times> 'ws rclc_executor_t option \<times> 'x world \<times> event list) option" where
  "spin_some_wait mw timeout_ns s =
     (let (rc_wait, ws, w) =
            rcl_wait mw (e_wait_set (rs_executor s)) timeout_ns (rs_world s)
      in spin_some_schedule mw
           (s\<lparr> rs_executor := (rs_executor s)\<lparr> e_wait_set := ws \<rparr>, rs_world := w \<rparr>))"

definition spin_some_add_handles ::
  "('ws, 'x) rcl \<Rightarrow> 64 word \<Rightarrow> 'ws rclc_executor_t \<Rightarrow> 'x world \<Rightarrow> rcl_ret_t
     \<Rightarrow> (rcl_ret_t \<times> 'ws rclc_executor_t option \<times> 'x world \<times> event list) option" where
  "spin_some_add_handles mw timeout_ns executor w rc =
     (let (returned, rc_add, s) =
            for_each_handle (wait_set_add_body mw) (e_max_handles executor) 0 rc
              \<lparr> rs_executor = executor, rs_world = w, rs_trace = [] \<rparr>
      in if returned then Some (rc_add, Some (rs_executor s), rs_world s, rs_trace s)
         else spin_some_wait mw timeout_ns s)"

fun rclc_executor_spin_some ::
  "('ws, 'x) rcl \<Rightarrow> 'ws rclc_executor_t option \<Rightarrow> 64 word \<Rightarrow> 'x world
     \<Rightarrow> (rcl_ret_t \<times> 'ws rclc_executor_t option \<times> 'x world \<times> event list) option" where
  "rclc_executor_spin_some mw None timeout_ns w =
     Some (RCL_RET_INVALID_ARGUMENT, None, w, [])"
| "rclc_executor_spin_some mw (Some executor) timeout_ns w =
     (if \<not> rcl_context_is_valid mw (e_context executor) w
      then Some (RCL_RET_ERROR, Some executor, w, [])
      else
        (let e1 = the (snd (rclc_executor_prepare mw (Some executor)));
             (rc_clear, ws2) = rcl_wait_set_clear mw (e_wait_set e1);
             e2 = e1\<lparr> e_wait_set := ws2 \<rparr>
         in if rc_clear \<noteq> RCL_RET_OK then Some (rc_clear, Some e2, w, [])
            else spin_some_add_handles mw timeout_ns e2 w rc_clear))"

section \<open>Initialisation, registration and removal\<close>

definition rclc_executor_init ::
  "('ws, 'x) rcl \<Rightarrow> 'ws rclc_executor_t option \<Rightarrow> ptr \<Rightarrow> nat \<Rightarrow> ptr
     \<Rightarrow> rcl_ret_t \<times> 'ws rclc_executor_t option" where
  "rclc_executor_init mw executor context' number_of_handles allocator =
     (if executor = None then (RCL_RET_INVALID_ARGUMENT, None)
      else if context' = NULL then (RCL_RET_INVALID_ARGUMENT, executor)
      else if \<not> rcutils_allocator_is_valid mw allocator
        then (RCL_RET_INVALID_ARGUMENT, executor)
      else if number_of_handles = 0 then (RCL_RET_INVALID_ARGUMENT, executor)
      else
        (let e1 = (rclc_executor_get_zero_initialized_executor
                     (rcl_get_zero_initialized_wait_set mw))
                    \<lparr> e_context := context', e_max_handles := number_of_handles, e_index := 0,
                      e_wait_set := rcl_get_zero_initialized_wait_set mw,
                      e_allocator := allocator, e_timeout_ns := 1000000000 \<rparr>
         in case allocate_handles mw allocator number_of_handles of
              None \<Rightarrow> (RCL_RET_BAD_ALLOC, Some e1)
            | Some fresh \<Rightarrow>
                (let e2 = e1\<lparr> e_handles :=
                               Some (map (\<lambda>i. rclc_executor_handle_init (fresh i) number_of_handles)
                                       [0..<number_of_handles]),
                             e_info := rclc_executor_handle_counters_zero_init \<rparr>;
                     e3 = snd (rclc_executor_set_trigger (Some e2) (Some TRIGGER_ANY) NULL);
                     e4 = snd (rclc_executor_set_semantics e3 RCLCPP_EXECUTOR)
                 in (RCL_RET_OK, e4))))"

text \<open>
  The block that every registration and removal function repeats:
  \<^verbatim>\<open>if (rcl_wait_set_is_valid(&executor->wait_set)) { ret = rcl_wait_set_fini(...); ... }\<close>.
\<close>

definition invalidate_wait_set :: "('ws, 'x) rcl \<Rightarrow> 'ws \<Rightarrow> rcl_ret_t \<times> 'ws" where
  "invalidate_wait_set mw wait_set =
     (if rcl_wait_set_is_valid mw wait_set then rcl_wait_set_fini mw wait_set
      else (RCL_RET_OK, wait_set))"

text \<open>
  The common tail of the \<^verbatim>\<open>rclc_executor_add_*\<close> functions of the plain kinds, after
  the null checks and the bound check: the fields of \<^verbatim>\<open>handles[index]\<close> have been
  assigned (\<open>handle\<close>), then \<^verbatim>\<open>index++\<close>, the wait set is invalidated (with a return on
  failure), and the counter is incremented (\<open>count\<close>).
\<close>

definition add_handle ::
  "('ws, 'x) rcl \<Rightarrow> 'ws rclc_executor_t \<Rightarrow> rclc_executor_handle_t
     \<Rightarrow> (rclc_executor_handle_counters_t \<Rightarrow> rclc_executor_handle_counters_t)
     \<Rightarrow> rcl_ret_t \<times> 'ws rclc_executor_t option" where
  "add_handle mw executor handle count =
     (let e1 = (set_handle executor (e_index executor) handle)
                 \<lparr> e_index := e_index executor + 1 \<rparr>;
          (ret, ws) = invalidate_wait_set mw (e_wait_set e1);
          e2 = e1\<lparr> e_wait_set := ws \<rparr>
      in if RCL_RET_OK \<noteq> ret then (ret, Some e2)
         else (ret, Some (e2\<lparr> e_info := count (e_info e2) \<rparr>)))"

definition rclc_executor_add_subscription ::
  "('ws, 'x) rcl \<Rightarrow> 'ws rclc_executor_t option \<Rightarrow> ptr \<Rightarrow> ptr \<Rightarrow> ptr
     \<Rightarrow> rclc_executor_handle_invocation_t \<Rightarrow> rcl_ret_t \<times> 'ws rclc_executor_t option" where
  "rclc_executor_add_subscription mw executor subscription msg callback invocation =
     (case executor of
        None \<Rightarrow> (RCL_RET_INVALID_ARGUMENT, None)
      | Some e \<Rightarrow>
          if subscription = NULL \<or> msg = NULL \<or> callback = NULL
          then (RCL_RET_INVALID_ARGUMENT, executor)
          else if e_index e \<ge> e_max_handles e then (RCL_RET_ERROR, executor)
          else add_handle mw e
                 ((handle_at e (e_index e))
                    \<lparr> h_type := RCLC_SUBSCRIPTION, h_entity := subscription, h_data := msg,
                      h_callback := callback, h_invocation := invocation,
                      h_initialized := True, h_callback_context := NULL,
                      h_data_available := False \<rparr>)
                 (number_of_subscriptions_update (\<lambda>n. n + 1)))"

definition rclc_executor_add_subscription_with_context ::
  "('ws, 'x) rcl \<Rightarrow> 'ws rclc_executor_t option \<Rightarrow> ptr \<Rightarrow> ptr \<Rightarrow> ptr \<Rightarrow> ptr
     \<Rightarrow> rclc_executor_handle_invocation_t \<Rightarrow> rcl_ret_t \<times> 'ws rclc_executor_t option" where
  "rclc_executor_add_subscription_with_context mw executor subscription msg callback context'
     invocation =
     (case executor of
        None \<Rightarrow> (RCL_RET_INVALID_ARGUMENT, None)
      | Some e \<Rightarrow>
          if subscription = NULL \<or> msg = NULL \<or> callback = NULL
          then (RCL_RET_INVALID_ARGUMENT, executor)
          else if e_index e \<ge> e_max_handles e then (RCL_RET_ERROR, executor)
          else add_handle mw e
                 ((handle_at e (e_index e))
                    \<lparr> h_type := RCLC_SUBSCRIPTION_WITH_CONTEXT, h_entity := subscription,
                      h_data := msg, h_callback := callback, h_invocation := invocation,
                      h_initialized := True, h_callback_context := context' \<rparr>)
                 (number_of_subscriptions_update (\<lambda>n. n + 1)))"

definition rclc_executor_add_timer ::
  "('ws, 'x) rcl \<Rightarrow> 'ws rclc_executor_t option \<Rightarrow> ptr
     \<Rightarrow> rcl_ret_t \<times> 'ws rclc_executor_t option" where
  "rclc_executor_add_timer mw executor timer =
     (case executor of
        None \<Rightarrow> (RCL_RET_INVALID_ARGUMENT, None)
      | Some e \<Rightarrow>
          if timer = NULL then (RCL_RET_INVALID_ARGUMENT, executor)
          else if e_index e \<ge> e_max_handles e then (RCL_RET_ERROR, executor)
          else add_handle mw e
                 ((handle_at e (e_index e))
                    \<lparr> h_type := RCLC_TIMER, h_entity := timer, h_invocation := ON_NEW_DATA,
                      h_initialized := True, h_callback_context := NULL,
                      h_data_available := False \<rparr>)
                 (number_of_timers_update (\<lambda>n. n + 1)))"

definition rclc_executor_add_client ::
  "('ws, 'x) rcl \<Rightarrow> 'ws rclc_executor_t option \<Rightarrow> ptr \<Rightarrow> ptr \<Rightarrow> ptr
     \<Rightarrow> rcl_ret_t \<times> 'ws rclc_executor_t option" where
  "rclc_executor_add_client mw executor client response_msg callback =
     (case executor of
        None \<Rightarrow> (RCL_RET_INVALID_ARGUMENT, None)
      | Some e \<Rightarrow>
          if client = NULL \<or> response_msg = NULL \<or> callback = NULL
          then (RCL_RET_INVALID_ARGUMENT, executor)
          else if e_index e \<ge> e_max_handles e then (RCL_RET_ERROR, executor)
          else add_handle mw e
                 ((handle_at e (e_index e))
                    \<lparr> h_type := RCLC_CLIENT, h_entity := client, h_data := response_msg,
                      h_callback := callback, h_invocation := ON_NEW_DATA,
                      h_initialized := True, h_callback_context := NULL \<rparr>)
                 (number_of_clients_update (\<lambda>n. n + 1)))"

definition rclc_executor_add_client_with_request_id ::
  "('ws, 'x) rcl \<Rightarrow> 'ws rclc_executor_t option \<Rightarrow> ptr \<Rightarrow> ptr \<Rightarrow> ptr
     \<Rightarrow> rcl_ret_t \<times> 'ws rclc_executor_t option" where
  "rclc_executor_add_client_with_request_id mw executor client response_msg callback =
     (case executor of
        None \<Rightarrow> (RCL_RET_INVALID_ARGUMENT, None)
      | Some e \<Rightarrow>
          if client = NULL \<or> response_msg = NULL \<or> callback = NULL
          then (RCL_RET_INVALID_ARGUMENT, executor)
          else if e_index e \<ge> e_max_handles e then (RCL_RET_ERROR, executor)
          else add_handle mw e
                 ((handle_at e (e_index e))
                    \<lparr> h_type := RCLC_CLIENT_WITH_REQUEST_ID, h_entity := client,
                      h_data := response_msg, h_callback := callback,
                      h_invocation := ON_NEW_DATA, h_initialized := True,
                      h_callback_context := NULL \<rparr>)
                 (number_of_clients_update (\<lambda>n. n + 1)))"

definition rclc_executor_add_service ::
  "('ws, 'x) rcl \<Rightarrow> 'ws rclc_executor_t option \<Rightarrow> ptr \<Rightarrow> ptr \<Rightarrow> ptr \<Rightarrow> ptr
     \<Rightarrow> rcl_ret_t \<times> 'ws rclc_executor_t option" where
  "rclc_executor_add_service mw executor service request_msg response_msg callback =
     (case executor of
        None \<Rightarrow> (RCL_RET_INVALID_ARGUMENT, None)
      | Some e \<Rightarrow>
          if service = NULL \<or> request_msg = NULL \<or> response_msg = NULL \<or> callback = NULL
          then (RCL_RET_INVALID_ARGUMENT, executor)
          else if e_index e \<ge> e_max_handles e then (RCL_RET_ERROR, executor)
          else add_handle mw e
                 ((handle_at e (e_index e))
                    \<lparr> h_type := RCLC_SERVICE, h_entity := service, h_data := request_msg,
                      h_data_response_msg := response_msg, h_callback := callback,
                      h_invocation := ON_NEW_DATA, h_initialized := True,
                      h_callback_context := NULL \<rparr>)
                 (number_of_services_update (\<lambda>n. n + 1)))"

definition rclc_executor_add_service_with_context ::
  "('ws, 'x) rcl \<Rightarrow> 'ws rclc_executor_t option \<Rightarrow> ptr \<Rightarrow> ptr \<Rightarrow> ptr \<Rightarrow> ptr \<Rightarrow> ptr
     \<Rightarrow> rcl_ret_t \<times> 'ws rclc_executor_t option" where
  "rclc_executor_add_service_with_context mw executor service request_msg response_msg callback
     context' =
     (case executor of
        None \<Rightarrow> (RCL_RET_INVALID_ARGUMENT, None)
      | Some e \<Rightarrow>
          if service = NULL \<or> request_msg = NULL \<or> response_msg = NULL \<or> callback = NULL
          then (RCL_RET_INVALID_ARGUMENT, executor)
          else if e_index e \<ge> e_max_handles e then (RCL_RET_ERROR, executor)
          else add_handle mw e
                 ((handle_at e (e_index e))
                    \<lparr> h_type := RCLC_SERVICE_WITH_CONTEXT, h_entity := service,
                      h_data := request_msg, h_data_response_msg := response_msg,
                      h_callback := callback, h_invocation := ON_NEW_DATA,
                      h_initialized := True, h_callback_context := context' \<rparr>)
                 (number_of_services_update (\<lambda>n. n + 1)))"

definition rclc_executor_add_service_with_request_id ::
  "('ws, 'x) rcl \<Rightarrow> 'ws rclc_executor_t option \<Rightarrow> ptr \<Rightarrow> ptr \<Rightarrow> ptr \<Rightarrow> ptr
     \<Rightarrow> rcl_ret_t \<times> 'ws rclc_executor_t option" where
  "rclc_executor_add_service_with_request_id mw executor service request_msg response_msg
     callback =
     (case executor of
        None \<Rightarrow> (RCL_RET_INVALID_ARGUMENT, None)
      | Some e \<Rightarrow>
          if service = NULL \<or> request_msg = NULL \<or> response_msg = NULL \<or> callback = NULL
          then (RCL_RET_INVALID_ARGUMENT, executor)
          else if e_index e \<ge> e_max_handles e then (RCL_RET_ERROR, executor)
          else add_handle mw e
                 ((handle_at e (e_index e))
                    \<lparr> h_type := RCLC_SERVICE_WITH_REQUEST_ID, h_entity := service,
                      h_data := request_msg, h_data_response_msg := response_msg,
                      h_callback := callback, h_invocation := ON_NEW_DATA,
                      h_initialized := True, h_callback_context := NULL \<rparr>)
                 (number_of_services_update (\<lambda>n. n + 1)))"

definition rclc_executor_add_guard_condition ::
  "('ws, 'x) rcl \<Rightarrow> 'ws rclc_executor_t option \<Rightarrow> ptr \<Rightarrow> ptr
     \<Rightarrow> rcl_ret_t \<times> 'ws rclc_executor_t option" where
  "rclc_executor_add_guard_condition mw executor gc callback =
     (case executor of
        None \<Rightarrow> (RCL_RET_INVALID_ARGUMENT, None)
      | Some e \<Rightarrow>
          if gc = NULL \<or> callback = NULL then (RCL_RET_INVALID_ARGUMENT, executor)
          else if e_index e \<ge> e_max_handles e then (RCL_RET_ERROR, executor)
          else add_handle mw e
                 ((handle_at e (e_index e))
                    \<lparr> h_type := RCLC_GUARD_CONDITION, h_entity := gc, h_callback := callback,
                      h_invocation := ON_NEW_DATA, h_initialized := True,
                      h_callback_context := NULL \<rparr>)
                 (number_of_guard_conditions_update (\<lambda>n. n + 1)))"

text \<open>
  Registration of the action endpoints. The statements that allocate and link the
  goal-handle pool are the parameter \<open>rclc_action_goal_memory\<close>; the out-parameters of
  \<^verbatim>\<open>rcl_action_*_wait_set_get_num_entities\<close> start at 0 and are returned by the parameter.
\<close>

definition add_action_counters ::
  "64 word \<times> 64 word \<times> 64 word \<times> 64 word \<times> 64 word
     \<Rightarrow> rclc_executor_handle_counters_t \<Rightarrow> rclc_executor_handle_counters_t" where
  "add_action_counters nums info =
     (case nums of (num_subscriptions, num_guard_conditions, num_timers, num_clients,
                    num_services) \<Rightarrow>
        info\<lparr> number_of_subscriptions := number_of_subscriptions info + num_subscriptions,
              number_of_guard_conditions := number_of_guard_conditions info + num_guard_conditions,
              number_of_timers := number_of_timers info + num_timers,
              number_of_clients := number_of_clients info + num_clients,
              number_of_services := number_of_services info + num_services \<rparr>)"

definition rclc_executor_add_action_client ::
  "('ws, 'x) rcl \<Rightarrow> 'ws rclc_executor_t option \<Rightarrow> ptr \<Rightarrow> nat \<Rightarrow> ptr \<Rightarrow> ptr \<Rightarrow> ptr \<Rightarrow> ptr
     \<Rightarrow> ptr \<Rightarrow> ptr \<Rightarrow> ptr \<Rightarrow> 'x world
     \<Rightarrow> rcl_ret_t \<times> 'ws rclc_executor_t option \<times> 'x world" where
  "rclc_executor_add_action_client mw executor action_client handles_number
     ros_result_response ros_feedback goal_callback feedback_callback result_callback
     cancel_callback context' w =
     (case executor of
        None \<Rightarrow> (RCL_RET_INVALID_ARGUMENT, None, w)
      | Some e \<Rightarrow>
          if action_client = NULL \<or> ros_result_response = NULL \<or> goal_callback = NULL \<or>
             result_callback = NULL
          then (RCL_RET_INVALID_ARGUMENT, executor, w)
          else if NULL \<noteq> feedback_callback \<and> ros_feedback = NULL
          then (RCL_RET_INVALID_ARGUMENT, executor, w)
          else if e_index e \<ge> e_max_handles e then (RCL_RET_ERROR, executor, w)
          else
            (let w1 = w\<lparr> action_clients := (action_clients w)
                          (action_client := (action_clients w action_client)
                             \<lparr> ac_allocator := e_allocator e \<rparr>) \<rparr>
             in case rclc_action_goal_memory mw ACTION_CLIENT action_client handles_number w1 of
                  None \<Rightarrow> (RCL_RET_ERROR, executor, w1)
                | Some w2 \<Rightarrow>
                    (let w3 = w2\<lparr> action_clients := (action_clients w2)
                                  (action_client := (action_clients w2 action_client)
                                     \<lparr> ac_ros_feedback := ros_feedback,
                                       ac_ros_result_response := ros_result_response,
                                       ac_goal_callback := goal_callback,
                                       ac_feedback_callback := feedback_callback,
                                       ac_result_callback := result_callback,
                                       ac_cancel_callback := cancel_callback,
                                       feedback_available := False,
                                       status_available := False,
                                       goal_response_available := False,
                                       result_response_available := False,
                                       cancel_response_available := False \<rparr>) \<rparr>;
                         handle = (handle_at e (e_index e))
                                    \<lparr> h_type := RCLC_ACTION_CLIENT, h_entity := action_client,
                                      h_invocation := ON_NEW_DATA, h_initialized := True,
                                      h_callback_context := context' \<rparr>;
                         e1 = (set_handle e (e_index e) handle)\<lparr> e_index := e_index e + 1 \<rparr>;
                         (ret, ws) = invalidate_wait_set mw (e_wait_set e1);
                         e2 = e1\<lparr> e_wait_set := ws \<rparr>
                     in if RCL_RET_OK \<noteq> ret then (ret, Some e2, w3)
                        else
                          (let (ret', nums) = rcl_action_wait_set_get_num_entities mw
                                                ACTION_CLIENT action_client;
                               info = add_action_counters nums (e_info e2)
                           in (ret',
                               Some (e2\<lparr> e_info := info\<lparr> number_of_action_clients :=
                                                          number_of_action_clients info + 1 \<rparr> \<rparr>),
                               w3)))))"

definition rclc_executor_add_action_server ::
  "('ws, 'x) rcl \<Rightarrow> 'ws rclc_executor_t option \<Rightarrow> ptr \<Rightarrow> nat \<Rightarrow> ptr \<Rightarrow> nat \<Rightarrow> ptr \<Rightarrow> ptr
     \<Rightarrow> ptr \<Rightarrow> 'x world \<Rightarrow> rcl_ret_t \<times> 'ws rclc_executor_t option \<times> 'x world" where
  "rclc_executor_add_action_server mw executor action_server handles_number ros_goal_request
     ros_goal_request_size goal_callback cancel_callback context' w =
     (case executor of
        None \<Rightarrow> (RCL_RET_INVALID_ARGUMENT, None, w)
      | Some e \<Rightarrow>
          if action_server = NULL \<or> ros_goal_request = NULL \<or> goal_callback = NULL \<or>
             cancel_callback = NULL
          then (RCL_RET_INVALID_ARGUMENT, executor, w)
          else if ros_goal_request_size \<le> 0 then (RCL_RET_ERROR, executor, w)
          else
            (let w1 = w\<lparr> action_servers := (action_servers w)
                          (action_server := (action_servers w action_server)
                             \<lparr> as_allocator := e_allocator e \<rparr>) \<rparr>
             in if e_index e \<ge> e_max_handles e then (RCL_RET_ERROR, executor, w1)
                else
                  (case rclc_action_goal_memory mw ACTION_SERVER action_server handles_number
                          w1 of
                     None \<Rightarrow> (RCL_RET_ERROR, executor, w1)
                   | Some w2 \<Rightarrow>
                       (let w3 = w2\<lparr> action_servers := (action_servers w2)
                                     (action_server := (action_servers w2 action_server)
                                        \<lparr> as_goal_callback := goal_callback,
                                          as_cancel_callback := cancel_callback,
                                          goal_ended := False,
                                          goal_request_available := False,
                                          cancel_request_available := False,
                                          result_request_available := False,
                                          goal_expired_available := False \<rparr>) \<rparr>;
                            handle = (handle_at e (e_index e))
                                       \<lparr> h_type := RCLC_ACTION_SERVER, h_entity := action_server,
                                         h_invocation := ON_NEW_DATA, h_initialized := True,
                                         h_callback_context := context' \<rparr>;
                            e1 = (set_handle e (e_index e) handle)
                                   \<lparr> e_index := e_index e + 1 \<rparr>;
                            (ret, ws) = invalidate_wait_set mw (e_wait_set e1);
                            e2 = e1\<lparr> e_wait_set := ws \<rparr>
                        in if RCL_RET_OK \<noteq> ret then (ret, Some e2, w3)
                           else
                             (let (ret', nums) = rcl_action_wait_set_get_num_entities mw
                                                   ACTION_SERVER action_server;
                                  info = add_action_counters nums (e_info e2)
                              in (ret',
                                  Some (e2\<lparr> e_info := info\<lparr> number_of_action_servers :=
                                                             number_of_action_servers info + 1 \<rparr> \<rparr>),
                                  w3))))))"

text \<open>
  \<^verbatim>\<open>_rclc_executor_find_handle\<close>: the scan from \<^verbatim>\<open>executor->handles\<close> up to
  \<^verbatim>\<open>&executor->handles[executor->index]\<close>; the result is the position of the handle
  found, \<open>None\<close> for the null pointer.
\<close>

function find_handle_from :: "'ws rclc_executor_t \<Rightarrow> ptr \<Rightarrow> nat \<Rightarrow> nat option" where
  "find_handle_from executor rcl_handle i =
     (if i < e_index executor then
        (if rcl_handle = rclc_executor_handle_get_ptr (Some (handle_at executor i))
         then Some i
         else find_handle_from executor rcl_handle (i + 1))
      else None)"
  by pat_completeness auto
termination
  by (relation "measure (\<lambda>(executor, rcl_handle, i). e_index executor - i)") auto

definition rclc_executor_find_handle :: "'ws rclc_executor_t \<Rightarrow> ptr \<Rightarrow> nat option" where
  "rclc_executor_find_handle executor rcl_handle = find_handle_from executor rcl_handle 0"

text \<open>
  The loop of \<^verbatim>\<open>_rclc_executor_remove_handle\<close>,
  \<^verbatim>\<open>for (handle_dest = handle; handle_dest < &handles[index]; handle_dest++)
      *handle_dest = *(handle_dest + 1);\<close>
\<close>

function shift_handles ::
  "rclc_executor_handle_t list \<Rightarrow> nat \<Rightarrow> nat \<Rightarrow> rclc_executor_handle_t list" where
  "shift_handles handles dest index =
     (if dest < index then shift_handles (handles[dest := handles ! (dest + 1)]) (dest + 1) index
      else handles)"
  by pat_completeness auto
termination
  by (relation "measure (\<lambda>(handles, dest, index). index - dest)") auto

text \<open>
  \<^verbatim>\<open>_rclc_executor_remove_handle\<close> is called with a non-null executor. A handle
  pointer is the position it points to; by construction it is never below
  \<^verbatim>\<open>executor->handles\<close>.
\<close>

definition rclc_executor_remove_handle ::
  "('ws, 'x) rcl \<Rightarrow> 'ws rclc_executor_t \<Rightarrow> nat option \<Rightarrow> rcl_ret_t \<times> 'ws rclc_executor_t" where
  "rclc_executor_remove_handle mw executor handle =
     (case handle of
        None \<Rightarrow> (RCL_RET_ERROR, executor)
      | Some pos \<Rightarrow>
          if pos \<ge> e_index executor then (RCL_RET_ERROR, executor)
          else if 0 = e_index executor then (RCL_RET_ERROR, executor)
          else
            (let index = e_index executor - 1;
                 handles = shift_handles (the (e_handles executor)) pos index;
                 handles' = handles[index := rclc_executor_handle_init (handles ! index)
                                               (e_max_handles executor)];
                 e1 = executor\<lparr> e_index := index, e_handles := Some handles' \<rparr>;
                 (ret, ws) = invalidate_wait_set mw (e_wait_set e1)
             in (ret, e1\<lparr> e_wait_set := ws \<rparr>)))"

text \<open>
  The common body of the \<^verbatim>\<open>rclc_executor_remove_*\<close> functions: find the handle, remove
  it, return on failure, decrement the counter (\<open>count\<close>).
\<close>

definition remove_entity ::
  "('ws, 'x) rcl \<Rightarrow> 'ws rclc_executor_t option \<Rightarrow> ptr
     \<Rightarrow> (rclc_executor_handle_counters_t \<Rightarrow> rclc_executor_handle_counters_t)
     \<Rightarrow> rcl_ret_t \<times> 'ws rclc_executor_t option" where
  "remove_entity mw executor entity count =
     (case executor of
        None \<Rightarrow> (RCL_RET_INVALID_ARGUMENT, None)
      | Some e \<Rightarrow>
          if entity = NULL then (RCL_RET_INVALID_ARGUMENT, executor)
          else
            (let handle = rclc_executor_find_handle e entity;
                 (ret, e1) = rclc_executor_remove_handle mw e handle
             in if RCL_RET_OK \<noteq> ret then (ret, Some e1)
                else (ret, Some (e1\<lparr> e_info := count (e_info e1) \<rparr>))))"

definition rclc_executor_remove_subscription ::
  "('ws, 'x) rcl \<Rightarrow> 'ws rclc_executor_t option \<Rightarrow> ptr
     \<Rightarrow> rcl_ret_t \<times> 'ws rclc_executor_t option" where
  "rclc_executor_remove_subscription mw executor subscription =
     remove_entity mw executor subscription (number_of_subscriptions_update (\<lambda>n. n - 1))"

definition rclc_executor_remove_timer ::
  "('ws, 'x) rcl \<Rightarrow> 'ws rclc_executor_t option \<Rightarrow> ptr
     \<Rightarrow> rcl_ret_t \<times> 'ws rclc_executor_t option" where
  "rclc_executor_remove_timer mw executor timer =
     remove_entity mw executor timer (number_of_timers_update (\<lambda>n. n - 1))"

definition rclc_executor_remove_client ::
  "('ws, 'x) rcl \<Rightarrow> 'ws rclc_executor_t option \<Rightarrow> ptr
     \<Rightarrow> rcl_ret_t \<times> 'ws rclc_executor_t option" where
  "rclc_executor_remove_client mw executor client =
     remove_entity mw executor client (number_of_clients_update (\<lambda>n. n - 1))"

definition rclc_executor_remove_service ::
  "('ws, 'x) rcl \<Rightarrow> 'ws rclc_executor_t option \<Rightarrow> ptr
     \<Rightarrow> rcl_ret_t \<times> 'ws rclc_executor_t option" where
  "rclc_executor_remove_service mw executor service =
     remove_entity mw executor service (number_of_services_update (\<lambda>n. n - 1))"

definition rclc_executor_remove_guard_condition ::
  "('ws, 'x) rcl \<Rightarrow> 'ws rclc_executor_t option \<Rightarrow> ptr
     \<Rightarrow> rcl_ret_t \<times> 'ws rclc_executor_t option" where
  "rclc_executor_remove_guard_condition mw executor guard_condition =
     remove_entity mw executor guard_condition
       (number_of_guard_conditions_update (\<lambda>n. n - 1))"

section \<open>Notions used in the statements\<close>

text \<open>
  The invariant of the handle table: the handle count is within the capacity and the
  initialized handles are exactly the positions below the handle count.
\<close>

definition table_invariant :: "'ws rclc_executor_t \<Rightarrow> bool" where
  "table_invariant executor =
     (e_index executor \<le> e_max_handles executor \<and>
      (\<forall>i<e_max_handles executor.
         h_initialized (handle_at executor i) = (i < e_index executor)))"

text \<open>
  The position at which a loop over the handles stops when it starts at \<open>i\<close> and no
  iteration returns: the first position that is out of range or not initialized.
\<close>

function initialized_prefix :: "'ws rclc_executor_t \<Rightarrow> nat \<Rightarrow> nat" where
  "initialized_prefix executor i =
     (if i < e_max_handles executor \<and> h_initialized (handle_at executor i)
      then initialized_prefix executor (i + 1) else i)"
  by pat_completeness auto
termination
  by (relation "measure (\<lambda>(executor, i). e_max_handles executor - i)") auto

text \<open>
  What a processing round leaves alone in the executor: the capacity, the trigger, the
  semantics, and of every handle its type, its endpoint and its \<^verbatim>\<open>initialized\<close> flag.
\<close>

definition same_shape :: "'ws rclc_executor_t \<Rightarrow> 'ws rclc_executor_t \<Rightarrow> bool" where
  "same_shape e e' =
     (e_max_handles e' = e_max_handles e \<and>
      e_trigger_function e' = e_trigger_function e \<and>
      e_trigger_object e' = e_trigger_object e \<and>
      e_data_comm_semantics e' = e_data_comm_semantics e \<and>
      (e_handles e' = None) = (e_handles e = None) \<and>
      (\<forall>i. h_type (handle_at e' i) = h_type (handle_at e i) \<and>
           h_entity (handle_at e' i) = h_entity (handle_at e i) \<and>
           h_initialized (handle_at e' i) = h_initialized (handle_at e i)))"

text \<open>
  The trigger is \<^verbatim>\<open>rclc_executor_trigger_one\<close> and its trigger object is not the endpoint
  of any initialized handle.
\<close>

definition unregistered_target :: "'ws rclc_executor_t \<Rightarrow> bool" where
  "unregistered_target e \<longleftrightarrow>
     e_trigger_function e = Some TRIGGER_ONE \<and>
     (\<forall>i<e_max_handles e. h_initialized (handle_at e i) \<longrightarrow>
        rclc_executor_handle_get_ptr (Some (handle_at e i)) \<noteq> e_trigger_object e)"

text \<open>
  The registration and removal functions as operations, with their arguments, and a
  sequence of them in which every call returns \<^verbatim>\<open>RCL_RET_OK\<close>.
\<close>

datatype executor_op =
    ADD_SUBSCRIPTION ptr ptr ptr rclc_executor_handle_invocation_t
  | ADD_SUBSCRIPTION_WITH_CONTEXT ptr ptr ptr ptr rclc_executor_handle_invocation_t
  | ADD_TIMER ptr
  | ADD_CLIENT ptr ptr ptr
  | ADD_CLIENT_WITH_REQUEST_ID ptr ptr ptr
  | ADD_SERVICE ptr ptr ptr ptr
  | ADD_SERVICE_WITH_CONTEXT ptr ptr ptr ptr ptr
  | ADD_SERVICE_WITH_REQUEST_ID ptr ptr ptr ptr
  | ADD_GUARD_CONDITION ptr ptr
  | ADD_ACTION_CLIENT ptr nat ptr ptr ptr ptr ptr ptr ptr
  | ADD_ACTION_SERVER ptr nat ptr nat ptr ptr ptr
  | REMOVE_SUBSCRIPTION ptr
  | REMOVE_TIMER ptr
  | REMOVE_CLIENT ptr
  | REMOVE_SERVICE ptr
  | REMOVE_GUARD_CONDITION ptr

fun apply_op ::
  "('ws, 'x) rcl \<Rightarrow> executor_op \<Rightarrow> 'ws rclc_executor_t option \<Rightarrow> 'x world
     \<Rightarrow> rcl_ret_t \<times> 'ws rclc_executor_t option \<times> 'x world" where
  "apply_op mw (ADD_SUBSCRIPTION p msg cb invocation) e w =
     (case rclc_executor_add_subscription mw e p msg cb invocation of (rc, e') \<Rightarrow> (rc, e', w))"
| "apply_op mw (ADD_SUBSCRIPTION_WITH_CONTEXT p msg cb ctx invocation) e w =
     (case rclc_executor_add_subscription_with_context mw e p msg cb ctx invocation of
        (rc, e') \<Rightarrow> (rc, e', w))"
| "apply_op mw (ADD_TIMER p) e w =
     (case rclc_executor_add_timer mw e p of (rc, e') \<Rightarrow> (rc, e', w))"
| "apply_op mw (ADD_CLIENT p msg cb) e w =
     (case rclc_executor_add_client mw e p msg cb of (rc, e') \<Rightarrow> (rc, e', w))"
| "apply_op mw (ADD_CLIENT_WITH_REQUEST_ID p msg cb) e w =
     (case rclc_executor_add_client_with_request_id mw e p msg cb of (rc, e') \<Rightarrow> (rc, e', w))"
| "apply_op mw (ADD_SERVICE p req res cb) e w =
     (case rclc_executor_add_service mw e p req res cb of (rc, e') \<Rightarrow> (rc, e', w))"
| "apply_op mw (ADD_SERVICE_WITH_CONTEXT p req res cb ctx) e w =
     (case rclc_executor_add_service_with_context mw e p req res cb ctx of
        (rc, e') \<Rightarrow> (rc, e', w))"
| "apply_op mw (ADD_SERVICE_WITH_REQUEST_ID p req res cb) e w =
     (case rclc_executor_add_service_with_request_id mw e p req res cb of
        (rc, e') \<Rightarrow> (rc, e', w))"
| "apply_op mw (ADD_GUARD_CONDITION p cb) e w =
     (case rclc_executor_add_guard_condition mw e p cb of (rc, e') \<Rightarrow> (rc, e', w))"
| "apply_op mw (ADD_ACTION_CLIENT p n res fb goal_cb fb_cb res_cb cancel_cb ctx) e w =
     rclc_executor_add_action_client mw e p n res fb goal_cb fb_cb res_cb cancel_cb ctx w"
| "apply_op mw (ADD_ACTION_SERVER p n req sz goal_cb cancel_cb ctx) e w =
     rclc_executor_add_action_server mw e p n req sz goal_cb cancel_cb ctx w"
| "apply_op mw (REMOVE_SUBSCRIPTION p) e w =
     (case rclc_executor_remove_subscription mw e p of (rc, e') \<Rightarrow> (rc, e', w))"
| "apply_op mw (REMOVE_TIMER p) e w =
     (case rclc_executor_remove_timer mw e p of (rc, e') \<Rightarrow> (rc, e', w))"
| "apply_op mw (REMOVE_CLIENT p) e w =
     (case rclc_executor_remove_client mw e p of (rc, e') \<Rightarrow> (rc, e', w))"
| "apply_op mw (REMOVE_SERVICE p) e w =
     (case rclc_executor_remove_service mw e p of (rc, e') \<Rightarrow> (rc, e', w))"
| "apply_op mw (REMOVE_GUARD_CONDITION p) e w =
     (case rclc_executor_remove_guard_condition mw e p of (rc, e') \<Rightarrow> (rc, e', w))"

fun run_ops ::
  "('ws, 'x) rcl \<Rightarrow> executor_op list \<Rightarrow> 'ws rclc_executor_t option \<Rightarrow> 'x world
     \<Rightarrow> ('ws rclc_executor_t option \<times> 'x world) option" where
  "run_ops mw [] e w = Some (e, w)"
| "run_ops mw (op # ops) e w =
     (case apply_op mw op e w of
        (rc, e', w') \<Rightarrow> if rc = RCL_RET_OK then run_ops mw ops e' w' else None)"

text \<open>
  The endpoint an operation is called with, and the kind that the C type of the
  parameter gives it (\<^verbatim>\<open>rcl_subscription_t *\<close>, \<^verbatim>\<open>rcl_timer_t *\<close>, ...). A sequence of
  operations is well typed for an assignment \<open>kind_of\<close> of kinds to addresses when every
  operation is called with an endpoint of the kind of its parameter; in particular no
  address is used as endpoints of two kinds.
\<close>

fun op_endpoint :: "executor_op \<Rightarrow> ptr \<times> rcl_entity" where
  "op_endpoint (ADD_SUBSCRIPTION p msg cb invocation) = (p, SUBSCRIPTION)"
| "op_endpoint (ADD_SUBSCRIPTION_WITH_CONTEXT p msg cb ctx invocation) = (p, SUBSCRIPTION)"
| "op_endpoint (ADD_TIMER p) = (p, TIMER)"
| "op_endpoint (ADD_CLIENT p msg cb) = (p, CLIENT)"
| "op_endpoint (ADD_CLIENT_WITH_REQUEST_ID p msg cb) = (p, CLIENT)"
| "op_endpoint (ADD_SERVICE p req res cb) = (p, SERVICE)"
| "op_endpoint (ADD_SERVICE_WITH_CONTEXT p req res cb ctx) = (p, SERVICE)"
| "op_endpoint (ADD_SERVICE_WITH_REQUEST_ID p req res cb) = (p, SERVICE)"
| "op_endpoint (ADD_GUARD_CONDITION p cb) = (p, GUARD_CONDITION)"
| "op_endpoint (ADD_ACTION_CLIENT p n res fb goal_cb fb_cb res_cb cancel_cb ctx) =
     (p, ACTION_CLIENT)"
| "op_endpoint (ADD_ACTION_SERVER p n req sz goal_cb cancel_cb ctx) = (p, ACTION_SERVER)"
| "op_endpoint (REMOVE_SUBSCRIPTION p) = (p, SUBSCRIPTION)"
| "op_endpoint (REMOVE_TIMER p) = (p, TIMER)"
| "op_endpoint (REMOVE_CLIENT p) = (p, CLIENT)"
| "op_endpoint (REMOVE_SERVICE p) = (p, SERVICE)"
| "op_endpoint (REMOVE_GUARD_CONDITION p) = (p, GUARD_CONDITION)"

definition well_typed_ops :: "(ptr \<Rightarrow> rcl_entity) \<Rightarrow> executor_op list \<Rightarrow> bool" where
  "well_typed_ops kind_of ops =
     list_all (\<lambda>op. kind_of (fst (op_endpoint op)) = snd (op_endpoint op)) ops"

text \<open>
  What one handle counts for in the counter block: a handle of a plain kind counts one in
  the counter of its kind; an action endpoint counts one in the counter of action clients
  or servers, and in the counters of the plain kinds the numbers of entities that
  \<^verbatim>\<open>rcl_action_client_wait_set_get_num_entities\<close> or
  \<^verbatim>\<open>rcl_action_server_wait_set_get_num_entities\<close> report for it. The counters of a table are
  the sums over its registered handles (the positions below the handle count), in the
  arithmetic of \<^verbatim>\<open>size_t\<close>.
\<close>

definition handle_counters ::
  "('ws, 'x) rcl \<Rightarrow> rclc_executor_handle_t \<Rightarrow> rclc_executor_handle_counters_t" where
  "handle_counters mw handle =
     (let zero = rclc_executor_handle_counters_zero_init
      in case h_type handle of
           RCLC_SUBSCRIPTION \<Rightarrow> zero\<lparr> number_of_subscriptions := 1 \<rparr>
         | RCLC_SUBSCRIPTION_WITH_CONTEXT \<Rightarrow> zero\<lparr> number_of_subscriptions := 1 \<rparr>
         | RCLC_TIMER \<Rightarrow> zero\<lparr> number_of_timers := 1 \<rparr>
         | RCLC_CLIENT \<Rightarrow> zero\<lparr> number_of_clients := 1 \<rparr>
         | RCLC_CLIENT_WITH_REQUEST_ID \<Rightarrow> zero\<lparr> number_of_clients := 1 \<rparr>
         | RCLC_SERVICE \<Rightarrow> zero\<lparr> number_of_services := 1 \<rparr>
         | RCLC_SERVICE_WITH_REQUEST_ID \<Rightarrow> zero\<lparr> number_of_services := 1 \<rparr>
         | RCLC_SERVICE_WITH_CONTEXT \<Rightarrow> zero\<lparr> number_of_services := 1 \<rparr>
         | RCLC_ACTION_CLIENT \<Rightarrow>
             (add_action_counters
                (snd (rcl_action_wait_set_get_num_entities mw ACTION_CLIENT (h_entity handle)))
                zero)\<lparr> number_of_action_clients := 1 \<rparr>
         | RCLC_ACTION_SERVER \<Rightarrow>
             (add_action_counters
                (snd (rcl_action_wait_set_get_num_entities mw ACTION_SERVER (h_entity handle)))
                zero)\<lparr> number_of_action_servers := 1 \<rparr>
         | RCLC_GUARD_CONDITION \<Rightarrow> zero\<lparr> number_of_guard_conditions := 1 \<rparr>
         | RCLC_NONE \<Rightarrow> zero)"

definition table_counters ::
  "('ws, 'x) rcl \<Rightarrow> rclc_executor_handle_t list \<Rightarrow> rclc_executor_handle_counters_t" where
  "table_counters mw handles =
     \<lparr> number_of_subscriptions =
         sum_list (map (\<lambda>h. number_of_subscriptions (handle_counters mw h)) handles),
       number_of_timers =
         sum_list (map (\<lambda>h. number_of_timers (handle_counters mw h)) handles),
       number_of_clients =
         sum_list (map (\<lambda>h. number_of_clients (handle_counters mw h)) handles),
       number_of_services =
         sum_list (map (\<lambda>h. number_of_services (handle_counters mw h)) handles),
       number_of_action_clients =
         sum_list (map (\<lambda>h. number_of_action_clients (handle_counters mw h)) handles),
       number_of_action_servers =
         sum_list (map (\<lambda>h. number_of_action_servers (handle_counters mw h)) handles),
       number_of_guard_conditions =
         sum_list (map (\<lambda>h. number_of_guard_conditions (handle_counters mw h)) handles),
       number_of_events =
         sum_list (map (\<lambda>h. number_of_events (handle_counters mw h)) handles) \<rparr>"

definition registered_handles :: "'ws rclc_executor_t \<Rightarrow> rclc_executor_handle_t list" where
  "registered_handles executor = take (e_index executor) (the (e_handles executor))"

definition counters_match :: "('ws, 'x) rcl \<Rightarrow> 'ws rclc_executor_t \<Rightarrow> bool" where
  "counters_match mw executor =
     (e_info executor = table_counters mw (registered_handles executor))"

text \<open>
  The number of registered handles of given types, for the reading of the counters of
  the plain kinds when no action endpoint is registered.
\<close>

definition count_types ::
  "rclc_executor_handle_type_t list \<Rightarrow> rclc_executor_handle_t list \<Rightarrow> nat" where
  "count_types types handles = length (filter (\<lambda>h. h_type h \<in> set types) handles)"

text \<open>
  What a sequence of successful operations on well-typed endpoints keeps: the table has
  the length of the capacity, the handle count is within it, every registered handle has
  a type that belongs to the kind of its endpoint, and the counters match.
\<close>

definition typed_handle :: "(ptr \<Rightarrow> rcl_entity) \<Rightarrow> rclc_executor_handle_t \<Rightarrow> bool" where
  "typed_handle kind_of handle =
     (wait_set_add_kind (h_type handle) = Some (kind_of (h_entity handle)))"

definition counters_invariant ::
  "(ptr \<Rightarrow> rcl_entity) \<Rightarrow> ('ws, 'x) rcl \<Rightarrow> 'ws rclc_executor_t \<Rightarrow> bool" where
  "counters_invariant kind_of mw executor =
     (e_handles executor \<noteq> None \<and>
      length (the (e_handles executor)) = e_max_handles executor \<and>
      e_index executor \<le> e_max_handles executor \<and>
      list_all (typed_handle kind_of) (registered_handles executor) \<and>
      counters_match mw executor)"

text \<open>
  The states of a round under LET: the state that step 0 (the check of every handle)
  leaves, then the state after the takes of the positions \<open>0, ..., k - 1\<close>, then the
  state after the executes of the positions \<open>0, ..., k - 1\<close>.
\<close>

definition checked_state ::
  "('ws, 'x) rcl \<Rightarrow> ('ws, 'x) round_state \<Rightarrow> ('ws, 'x) round_state" where
  "checked_state mw s =
     snd (snd (for_each_handle (check_body mw) (e_max_handles (rs_executor s)) 0 RCL_RET_OK s))"

definition takes_upto ::
  "('ws, 'x) rcl \<Rightarrow> nat \<Rightarrow> ('ws, 'x) round_state \<Rightarrow> ('ws, 'x) round_state" where
  "takes_upto mw k s = foldl (\<lambda>t i. snd (take_step mw i t)) s [0..<k]"

definition executes_upto ::
  "('ws, 'x) rcl \<Rightarrow> nat \<Rightarrow> ('ws, 'x) round_state \<Rightarrow> ('ws, 'x) round_state" where
  "executes_upto mw k s = foldl (\<lambda>t i. snd (execute_step mw i t)) s [0..<k]"

text \<open>
  The middleware writes a taken message only into the buffer it is given. For a way
  \<open>mem\<close> of reading the content of an address from the memory outside the executor and
  an address \<open>b\<close>: a take of a message, a request or a response into another buffer
  leaves the content of \<open>b\<close> as it is, and so do the takes of the action protocol, which
  write into the memory of the action endpoint.
\<close>

definition take_frame :: "('ws, 'x) rcl \<Rightarrow> ('x \<Rightarrow> ptr \<Rightarrow> 'v) \<Rightarrow> ptr \<Rightarrow> bool" where
  "take_frame mw mem b =
     ((\<forall>p d w. d \<noteq> b \<longrightarrow> mem (w_rest (snd (rcl_take mw p d w))) b = mem (w_rest w) b) \<and>
      (\<forall>p r d w. d \<noteq> b \<longrightarrow>
         mem (w_rest (snd (snd (rcl_take_request mw p r d w)))) b = mem (w_rest w) b) \<and>
      (\<forall>p r d w. d \<noteq> b \<longrightarrow>
         mem (w_rest (snd (snd (rcl_take_response mw p r d w)))) b = mem (w_rest w) b) \<and>
      (\<forall>step p w. mem (w_rest (snd (rcl_action_take mw step p w))) b = mem (w_rest w) b) \<and>
      (\<forall>step p w. mem (w_rest (rclc_action_bookkeeping mw step p w)) b = mem (w_rest w) b) \<and>
      (\<forall>p w. mem (w_rest (snd (rclc_action_take_goal_handle mw p w))) b = mem (w_rest w) b))"

text \<open>
  The callbacks and the middleware functions that \<^verbatim>\<open>_rclc_execute\<close> calls leave the content
  of the address \<open>b\<close> as it is.
\<close>

definition execute_frame :: "('ws, 'x) rcl \<Rightarrow> ('x \<Rightarrow> ptr \<Rightarrow> 'v) \<Rightarrow> ptr \<Rightarrow> bool" where
  "execute_frame mw mem b =
     ((\<forall>f args w. mem (w_rest (call mw f args w)) b = mem (w_rest w) b) \<and>
      (\<forall>p w. mem (w_rest (snd (rcl_timer_call mw p w))) b = mem (w_rest w) b) \<and>
      (\<forall>p r d w. mem (w_rest (snd (rcl_send_response mw p r d w))) b = mem (w_rest w) b) \<and>
      (\<forall>step p ctx w. mem (w_rest (rclc_action_execute mw step p ctx w)) b = mem (w_rest w) b))"

text \<open>
  The equations of the loops are unfolded one iteration at a time, where a proof asks for
  it, and not by the simplifier on its own.
\<close>

declare trigger_all_from.simps [simp del]
declare trigger_any_from.simps [simp del]
declare trigger_one_from.simps [simp del]
declare for_each_handle.simps [simp del]
declare find_handle_from.simps [simp del]
declare shift_handles.simps [simp del]
declare initialized_prefix.simps [simp del]

section \<open>Concrete instances\<close>

text \<open>
  A small middleware for evaluating the functions: a wait set is its validity flag,
  nothing is ever ready, \<^verbatim>\<open>rcl_wait\<close> runs into its timeout, every other call succeeds and
  leaves the world as it is. The world beyond the action objects is a unit.
\<close>

definition blank_handle :: rclc_executor_handle_t where
  "blank_handle =
     \<lparr> h_type = RCLC_NONE, h_invocation = ON_NEW_DATA, h_entity = NULL, h_data = NULL,
       h_req_id = 0, h_data_response_msg = NULL, h_callback_context = NULL,
       h_callback = NULL, h_index = 0, h_initialized = False, h_data_available = False \<rparr>"

definition blank_action_client :: rclc_action_client_t where
  "blank_action_client =
     \<lparr> ac_allocator = NULL, ac_goal_callback = NULL, ac_feedback_callback = NULL,
       ac_result_callback = NULL, ac_cancel_callback = NULL, ac_ros_feedback = NULL,
       ac_ros_result_response = NULL, feedback_available = False, status_available = False,
       goal_response_available = False, cancel_response_available = False,
       result_response_available = False \<rparr>"

definition blank_action_server :: rclc_action_server_t where
  "blank_action_server =
     \<lparr> as_allocator = NULL, as_goal_callback = NULL, as_cancel_callback = NULL,
       goal_request_available = False, cancel_request_available = False,
       result_request_available = False, goal_expired_available = False,
       goal_ended = False \<rparr>"

definition idle_world :: "unit world" where
  "idle_world =
     \<lparr> action_clients = (\<lambda>p. blank_action_client),
       action_servers = (\<lambda>p. blank_action_server), w_rest = () \<rparr>"

definition idle_rcl :: "(bool, unit) rcl" where
  "idle_rcl =
     \<lparr> rcutils_allocator_is_valid = (\<lambda>a. a \<noteq> NULL),
       allocate_handles = (\<lambda>a n. Some (\<lambda>i. blank_handle)),
       rcl_context_is_valid = (\<lambda>c w. c \<noteq> NULL),
       rcl_get_zero_initialized_wait_set = False,
       rcl_wait_set_is_valid = (\<lambda>ws. ws),
       rcl_wait_set_fini = (\<lambda>ws. (RCL_RET_OK, False)),
       rcl_wait_set_init = (\<lambda>ws info c a. (RCL_RET_OK, True)),
       rcl_wait_set_clear = (\<lambda>ws. (RCL_RET_OK, ws)),
       rcl_wait_set_add = (\<lambda>k ws p i. (RCL_RET_OK, ws, 0)),
       rcl_wait = (\<lambda>ws t w. (RCL_RET_TIMEOUT, ws, w)),
       wait_set_entry = (\<lambda>k ws i. NULL),
       rcl_action_wait_set_get_entities_ready = (\<lambda>k ws p w. (RCL_RET_OK, w)),
       rcl_action_wait_set_get_num_entities = (\<lambda>k p. (RCL_RET_OK, (2, 0, 1, 3, 0))),
       rcl_take = (\<lambda>p d w. (RCL_RET_OK, w)),
       rcl_take_request = (\<lambda>p r d w. (RCL_RET_OK, r, w)),
       rcl_take_response = (\<lambda>p r d w. (RCL_RET_OK, r, w)),
       rcl_timer_call = (\<lambda>p w. (RCL_RET_OK, w)),
       rcl_send_response = (\<lambda>p r d w. (RCL_RET_OK, w)),
       call = (\<lambda>f args w. w),
       user_trigger = (\<lambda>f w hs sz obj. True),
       rcl_action_take = (\<lambda>step p w. (RCL_RET_OK, w)),
       rclc_action_goal_memory = (\<lambda>k p n w. Some w),
       rclc_action_take_goal_handle = (\<lambda>p w. (True, w)),
       rclc_action_bookkeeping = (\<lambda>step p w. w),
       rclc_action_execute = (\<lambda>step p ctx w. w) \<rparr>"

text \<open>
  A zero-initialized executor, and the executor that \<^verbatim>\<open>rclc_executor_init\<close> makes of it
  for context 7, two handles and allocator 9.
\<close>

definition zero_executor :: "bool rclc_executor_t" where
  "zero_executor = rclc_executor_get_zero_initialized_executor False"

definition fresh_executor :: "bool rclc_executor_t option" where
  "fresh_executor = snd (rclc_executor_init idle_rcl (Some zero_executor) 7 2 9)"

text \<open>
  The scenario of the specification: capacity 1, one timer registered, the table full.
\<close>

definition one_timer_executor :: "bool rclc_executor_t option" where
  "one_timer_executor =
     snd (rclc_executor_add_timer idle_rcl
            (snd (rclc_executor_init idle_rcl (Some zero_executor) 7 1 9)) 11)"

text \<open>
  A table of capacity 4 holding a timer, a subscription and a guard condition, in this
  order of registration.
\<close>

definition busy_executor :: "bool rclc_executor_t option" where
  "busy_executor =
     snd (rclc_executor_add_guard_condition idle_rcl
       (snd (rclc_executor_add_subscription idle_rcl
         (snd (rclc_executor_add_timer idle_rcl
           (snd (rclc_executor_init idle_rcl (Some zero_executor) 7 4 9)) 11))
         12 22 32 ON_NEW_DATA))
       13 33)"

text \<open>
  The table that removal of position \<open>k\<close> leaves, in the words of the specification: the
  handles before \<open>k\<close>, the registered handles after \<open>k\<close> moved one to the left, the
  vacated slot (the last registered position) reset by \<^verbatim>\<open>rclc_executor_handle_init\<close>, the
  unused slots as they were.
\<close>

definition table_without ::
  "rclc_executor_handle_t list \<Rightarrow> nat \<Rightarrow> nat \<Rightarrow> nat \<Rightarrow> rclc_executor_handle_t list" where
  "table_without handles k index max_handles =
     take k handles @ drop (Suc k) (take index handles) @
     [rclc_executor_handle_init (handles ! (index - 1)) max_handles] @ drop index handles"

text \<open>
  A middleware in which the wait succeeds and reports every entity ready, and taking a
  service request fails with \<^verbatim>\<open>RCL_RET_SERVICE_TAKE_FAILED\<close>; an executor of capacity 2
  with a service and then a subscription, under either semantics.
\<close>

definition flaky_rcl :: "(bool, unit) rcl" where
  "flaky_rcl =
     idle_rcl\<lparr> rcl_wait := (\<lambda>ws t w. (RCL_RET_OK, ws, w)),
               wait_set_entry := (\<lambda>k ws i. 1),
               rcl_take_request := (\<lambda>p r d w. (RCL_RET_SERVICE_TAKE_FAILED, r, w)) \<rparr>"

definition service_executor :: "bool rclc_executor_t option" where
  "service_executor =
     snd (rclc_executor_add_subscription idle_rcl
       (snd (rclc_executor_add_service idle_rcl
         (snd (rclc_executor_init idle_rcl (Some zero_executor) 7 2 9)) 15 25 35 45))
       12 22 32 ON_NEW_DATA)"

definition service_executor_let :: "bool rclc_executor_t option" where
  "service_executor_let = snd (rclc_executor_set_semantics service_executor LET)"

text \<open>
  The same middleware with a successful take of the service request.
\<close>

definition ready_rcl :: "(bool, unit) rcl" where
  "ready_rcl = flaky_rcl\<lparr> rcl_take_request := (\<lambda>p r d w. (RCL_RET_OK, r, w)) \<rparr>"

text \<open>
  A sequence of operations on the executor of capacity two: a timer is registered, then
  an action client, then the timer is removed; and the kinds of the two addresses.
\<close>

definition sample_ops :: "executor_op list" where
  "sample_ops = [ADD_TIMER 11, ADD_ACTION_CLIENT 14 1 24 34 44 54 64 74 84, REMOVE_TIMER 11]"

definition sample_kind_of :: "ptr \<Rightarrow> rcl_entity" where
  "sample_kind_of p = (if p = 11 then TIMER else ACTION_CLIENT)"

text \<open>
  The executor \<open>busy_executor\<close> after \<^verbatim>\<open>rclc_executor_prepare\<close>, with a valid wait set, and
  a middleware whose \<^verbatim>\<open>rcl_wait_set_fini\<close> fails and leaves the wait set as it is.
\<close>

definition prepared_executor :: "bool rclc_executor_t option" where
  "prepared_executor = snd (rclc_executor_prepare idle_rcl busy_executor)"

definition stuck_rcl :: "(bool, unit) rcl" where
  "stuck_rcl = idle_rcl\<lparr> rcl_wait_set_fini := (\<lambda>ws. (RCL_RET_ERROR, ws)) \<rparr>"

text \<open>
  A middleware in which the wait succeeds, every entity is ready, and
  \<^verbatim>\<open>rcl_action_client_wait_set_get_entities_ready\<close> reports a goal response; an executor
  of capacity 2 on which an action client and then the subscription 12 are registered,
  with the trigger \<^verbatim>\<open>rclc_executor_trigger_one\<close> on the subscription 12, and the executor
  with the two registered in the other order; each with the memory that the registration
  of the action client leaves.
\<close>

definition action_ready_rcl :: "(bool, unit) rcl" where
  "action_ready_rcl =
     ready_rcl\<lparr> rcl_action_wait_set_get_entities_ready :=
       (\<lambda>k ws p w. (RCL_RET_OK,
          w\<lparr> action_clients := (action_clients w)
                (p := (action_clients w p)\<lparr> goal_response_available := True \<rparr>) \<rparr>)) \<rparr>"

definition action_first_setup :: "bool rclc_executor_t option \<times> unit world" where
  "action_first_setup =
     (case rclc_executor_add_action_client idle_rcl
             (snd (rclc_executor_init idle_rcl (Some zero_executor) 7 2 9))
             20 1 24 34 44 54 64 74 84 idle_world of
        (rc, e1, w1) \<Rightarrow>
          (snd (rclc_executor_set_trigger
             (snd (rclc_executor_add_subscription idle_rcl e1 12 22 32 ON_NEW_DATA))
             (Some TRIGGER_ONE) 12), w1))"

definition subscription_first_setup :: "bool rclc_executor_t option \<times> unit world" where
  "subscription_first_setup =
     (case rclc_executor_add_action_client idle_rcl
             (snd (rclc_executor_add_subscription idle_rcl
                (snd (rclc_executor_init idle_rcl (Some zero_executor) 7 2 9))
                12 22 32 ON_NEW_DATA))
             20 1 24 34 44 54 64 74 84 idle_world of
        (rc, e1, w1) \<Rightarrow>
          (snd (rclc_executor_set_trigger e1 (Some TRIGGER_ONE) 12), w1))"

text \<open>
  A memory of message buffers and a record of the callbacks run, each with the contents
  of the addresses it was handed when it was called; and a middleware over it in which
  the wait succeeds, every entity is ready, a take from the endpoint \<open>p\<close> writes the
  message \<open>p\<close> (the messages are told apart by the endpoint they come from) into the
  buffer it is given, and a callback adds its entry to the record.
\<close>

record message_memory =
  buffers :: "ptr \<Rightarrow> ptr"
  seen :: "(ptr \<times> ptr list) list"

definition memory_world :: "message_memory world" where
  "memory_world =
     \<lparr> action_clients = (\<lambda>p. blank_action_client),
       action_servers = (\<lambda>p. blank_action_server),
       w_rest = \<lparr> buffers = (\<lambda>b. NULL), seen = [] \<rparr> \<rparr>"

definition write_buffer :: "ptr \<Rightarrow> ptr \<Rightarrow> message_memory world \<Rightarrow> message_memory world" where
  "write_buffer d m w = w\<lparr> w_rest := (w_rest w)\<lparr> buffers := (buffers (w_rest w))(d := m) \<rparr> \<rparr>"

definition memory_rcl :: "(bool, message_memory) rcl" where
  "memory_rcl =
     \<lparr> rcutils_allocator_is_valid = (\<lambda>a. a \<noteq> NULL),
       allocate_handles = (\<lambda>a n. Some (\<lambda>i. blank_handle)),
       rcl_context_is_valid = (\<lambda>c w. c \<noteq> NULL),
       rcl_get_zero_initialized_wait_set = False,
       rcl_wait_set_is_valid = (\<lambda>ws. ws),
       rcl_wait_set_fini = (\<lambda>ws. (RCL_RET_OK, False)),
       rcl_wait_set_init = (\<lambda>ws info c a. (RCL_RET_OK, True)),
       rcl_wait_set_clear = (\<lambda>ws. (RCL_RET_OK, ws)),
       rcl_wait_set_add = (\<lambda>k ws p i. (RCL_RET_OK, ws, 0)),
       rcl_wait = (\<lambda>ws t w. (RCL_RET_OK, ws, w)),
       wait_set_entry = (\<lambda>k ws i. 1),
       rcl_action_wait_set_get_entities_ready = (\<lambda>k ws p w. (RCL_RET_OK, w)),
       rcl_action_wait_set_get_num_entities = (\<lambda>k p. (RCL_RET_OK, (2, 0, 1, 3, 0))),
       rcl_take = (\<lambda>p d w. (RCL_RET_OK, write_buffer d p w)),
       rcl_take_request = (\<lambda>p r d w. (RCL_RET_OK, r, write_buffer d p w)),
       rcl_take_response = (\<lambda>p r d w. (RCL_RET_OK, r, write_buffer d p w)),
       rcl_timer_call = (\<lambda>p w. (RCL_RET_OK, w)),
       rcl_send_response = (\<lambda>p r d w. (RCL_RET_OK, w)),
       call = (\<lambda>f args w.
                 w\<lparr> w_rest := (w_rest w)
                       \<lparr> seen := seen (w_rest w) @ [(f, map (buffers (w_rest w)) args)] \<rparr> \<rparr>),
       user_trigger = (\<lambda>f w hs sz obj. True),
       rcl_action_take = (\<lambda>step p w. (RCL_RET_OK, w)),
       rclc_action_goal_memory = (\<lambda>k p n w. Some w),
       rclc_action_take_goal_handle = (\<lambda>p w. (True, w)),
       rclc_action_bookkeeping = (\<lambda>step p w. w),
       rclc_action_execute = (\<lambda>step p ctx w. w) \<rparr>"

text \<open>
  Two executors of capacity 2 with LET semantics, each with the subscriptions 12
  (callback 31) and 13 (callback 32) registered in this order: in the first both are
  registered with the message buffer 22, in the second with the buffers 22 and 23. Then
  the state in which a round on the second starts, and the reading of the record of
  callbacks from the result of \<^verbatim>\<open>rclc_executor_spin_some\<close>.
\<close>

definition shared_buffer_executor :: "bool rclc_executor_t option" where
  "shared_buffer_executor =
     snd (rclc_executor_set_semantics
       (snd (rclc_executor_add_subscription idle_rcl
         (snd (rclc_executor_add_subscription idle_rcl
           (snd (rclc_executor_init idle_rcl (Some zero_executor) 7 2 9))
           12 22 31 ON_NEW_DATA))
         13 22 32 ON_NEW_DATA))
       LET)"

definition distinct_buffer_executor :: "bool rclc_executor_t option" where
  "distinct_buffer_executor =
     snd (rclc_executor_set_semantics
       (snd (rclc_executor_add_subscription idle_rcl
         (snd (rclc_executor_add_subscription idle_rcl
           (snd (rclc_executor_init idle_rcl (Some zero_executor) 7 2 9))
           12 22 31 ON_NEW_DATA))
         13 23 32 ON_NEW_DATA))
       LET)"

definition distinct_round_start :: "(bool, message_memory) round_state" where
  "distinct_round_start =
     \<lparr> rs_executor = the distinct_buffer_executor, rs_world = memory_world, rs_trace = [] \<rparr>"

definition callbacks_seen ::
  "(rcl_ret_t \<times> bool rclc_executor_t option \<times> message_memory world \<times> event list) option
     \<Rightarrow> (ptr \<times> ptr list) list" where
  "callbacks_seen result = (case result of None \<Rightarrow> [] | Some (rc, e, w, tr) \<Rightarrow> seen (w_rest w))"

definition round_log ::
  "(rcl_ret_t \<times> bool rclc_executor_t option \<times> message_memory world \<times> event list) option
     \<Rightarrow> event list" where
  "round_log result = (case result of None \<Rightarrow> [] | Some (rc, e, w, tr) \<Rightarrow> tr)"

section \<open>Properties: configuration\<close>

lemma fresh_executor_eq:
  "fresh_executor = Some \<lparr> e_context = 7,
     e_handles = Some [rclc_executor_handle_init blank_handle 2,
                       rclc_executor_handle_init blank_handle 2],
     e_max_handles = 2, e_index = 0, e_allocator = 9, e_wait_set = False,
     e_info = rclc_executor_handle_counters_zero_init, e_timeout_ns = 1000000000,
     e_invocation_time = 0, e_trigger_function = Some TRIGGER_ANY, e_trigger_object = NULL,
     e_data_comm_semantics = RCLCPP_EXECUTOR \<rparr>"
  by (simp add: fresh_executor_def rclc_executor_init_def idle_rcl_def zero_executor_def
      rclc_executor_get_zero_initialized_executor_def upt_rec)

text \<open>
  Claim C7, as amended. An executor is initialized when \<^verbatim>\<open>_rclc_executor_is_valid\<close> holds
  of it. On a non-null executor that is not initialized, \<^verbatim>\<open>rclc_executor_set_timeout\<close> and
  \<^verbatim>\<open>rclc_executor_set_semantics\<close> return \<^verbatim>\<open>RCL_RET_ERROR\<close> (not
  \<^verbatim>\<open>RCL_RET_INVALID_ARGUMENT\<close>, which they keep for the null pointer) and leave the
  executor as it is; on an initialized executor they store the value in the field and
  return \<^verbatim>\<open>RCL_RET_OK\<close>.
\<close>

theorem set_timeout_set_semantics_by_validity:
  "(\<not> rclc_executor_is_valid (Some executor) \<longrightarrow>
      rclc_executor_set_timeout (Some executor) timeout_ns = (RCL_RET_ERROR, Some executor) \<and>
      rclc_executor_set_semantics (Some executor) semantics = (RCL_RET_ERROR, Some executor)) \<and>
   (rclc_executor_is_valid (Some executor) \<longrightarrow>
      rclc_executor_set_timeout (Some executor) timeout_ns =
        (RCL_RET_OK, Some (executor\<lparr> e_timeout_ns := timeout_ns \<rparr>)) \<and>
      rclc_executor_set_semantics (Some executor) semantics =
        (RCL_RET_OK, Some (executor\<lparr> e_data_comm_semantics := semantics \<rparr>)))"
  by simp

text \<open>
  The theorem at the zero-initialized executor, which is not initialized, and at the
  executor made by \<^verbatim>\<open>rclc_executor_init\<close>, which is.
\<close>

theorem set_timeout_set_semantics_by_validity_witness:
  "\<not> rclc_executor_is_valid (Some zero_executor) \<and>
   rclc_executor_set_timeout (Some zero_executor) 5 = (RCL_RET_ERROR, Some zero_executor) \<and>
   rclc_executor_set_semantics (Some zero_executor) LET = (RCL_RET_ERROR, Some zero_executor) \<and>
   rclc_executor_is_valid fresh_executor \<and>
   rclc_executor_set_timeout fresh_executor 5 =
     (RCL_RET_OK, Some ((the fresh_executor)\<lparr> e_timeout_ns := 5 \<rparr>)) \<and>
   rclc_executor_set_semantics fresh_executor LET =
     (RCL_RET_OK, Some ((the fresh_executor)\<lparr> e_data_comm_semantics := LET \<rparr>))"
proof -
  have z: "\<not> rclc_executor_is_valid (Some zero_executor)"
    by (simp add: zero_executor_def rclc_executor_get_zero_initialized_executor_def)
  have f: "rclc_executor_is_valid (Some (the fresh_executor))"
    by (simp add: fresh_executor_eq)
  have s: "Some (the fresh_executor) = fresh_executor"
    by (simp add: fresh_executor_eq)
  show ?thesis
    using z f set_timeout_set_semantics_by_validity [of zero_executor 5 LET]
      set_timeout_set_semantics_by_validity [of "the fresh_executor" 5 LET]
    unfolding s by blast
qed

text \<open>
  Claim C7 as stated fails: on the zero-initialized executor neither function returns
  \<^verbatim>\<open>RCL_RET_INVALID_ARGUMENT\<close>.
\<close>

theorem set_timeout_uninitialized_counterexample:
  "\<not> rclc_executor_is_valid (Some zero_executor) \<and>
   fst (rclc_executor_set_timeout (Some zero_executor) 5) \<noteq> RCL_RET_INVALID_ARGUMENT \<and>
   fst (rclc_executor_set_semantics (Some zero_executor) LET) \<noteq> RCL_RET_INVALID_ARGUMENT"
  by (simp add: zero_executor_def rclc_executor_get_zero_initialized_executor_def)

text \<open>
  Claim C10. On every non-null executor \<^verbatim>\<open>rclc_executor_set_trigger\<close> stores the trigger
  function and the trigger object and returns \<^verbatim>\<open>RCL_RET_OK\<close>; it looks neither at the
  state of the executor nor at the function pointer, which may be null.
\<close>

theorem set_trigger_stores_unchecked:
  "rclc_executor_set_trigger (Some executor) trigger_function trigger_object =
     (RCL_RET_OK, Some (executor\<lparr> e_trigger_function := trigger_function,
                                  e_trigger_object := trigger_object \<rparr>))"
  by simp

text \<open>The theorem at the zero-initialized executor with a null trigger function.\<close>

theorem set_trigger_stores_unchecked_witness:
  "\<not> rclc_executor_is_valid (Some zero_executor) \<and>
   rclc_executor_set_trigger (Some zero_executor) None 3 =
     (RCL_RET_OK, Some (zero_executor\<lparr> e_trigger_function := None, e_trigger_object := 3 \<rparr>))"
  using set_trigger_stores_unchecked [of zero_executor None 3]
  by (simp add: zero_executor_def rclc_executor_get_zero_initialized_executor_def)

section \<open>Properties: registration and removal\<close>

text \<open>
  Claim C6. On an executor whose handle count \<^verbatim>\<open>index\<close> equals its capacity
  \<^verbatim>\<open>max_handles\<close>, every \<^verbatim>\<open>rclc_executor_add_*\<close> function, called with the arguments it
  requires to be non-null (and a positive goal-request size), returns the overflow error,
  which in \<^verbatim>\<open>rcl_ret_t\<close> is the code \<^verbatim>\<open>RCL_RET_ERROR\<close> of the branch ``Buffer overflow of
  'executor->handles'''; the executor (handle table, handle count, counters and all other
  fields) is unchanged.
\<close>

theorem add_on_full_table:
  assumes full: "e_index e = e_max_handles e"
    and args: "a \<noteq> NULL" "b \<noteq> NULL" "c \<noteq> NULL" "d \<noteq> NULL"
    and fb: "feedback_callback \<noteq> NULL \<longrightarrow> ros_feedback \<noteq> NULL"
    and sz: "0 < ros_goal_request_size"
  shows
    "rclc_executor_add_subscription mw (Some e) a b c invocation = (RCL_RET_ERROR, Some e) \<and>
     rclc_executor_add_subscription_with_context mw (Some e) a b c ctx invocation =
       (RCL_RET_ERROR, Some e) \<and>
     rclc_executor_add_timer mw (Some e) a = (RCL_RET_ERROR, Some e) \<and>
     rclc_executor_add_client mw (Some e) a b c = (RCL_RET_ERROR, Some e) \<and>
     rclc_executor_add_client_with_request_id mw (Some e) a b c = (RCL_RET_ERROR, Some e) \<and>
     rclc_executor_add_service mw (Some e) a b c d = (RCL_RET_ERROR, Some e) \<and>
     rclc_executor_add_service_with_context mw (Some e) a b c d ctx = (RCL_RET_ERROR, Some e) \<and>
     rclc_executor_add_service_with_request_id mw (Some e) a b c d = (RCL_RET_ERROR, Some e) \<and>
     rclc_executor_add_guard_condition mw (Some e) a b = (RCL_RET_ERROR, Some e) \<and>
     rclc_executor_add_action_client mw (Some e) a handles_number b ros_feedback c
         feedback_callback d cancel_callback ctx w = (RCL_RET_ERROR, Some e, w) \<and>
     fst (rclc_executor_add_action_server mw (Some e) a handles_number b ros_goal_request_size
         c d ctx w) = RCL_RET_ERROR \<and>
     fst (snd (rclc_executor_add_action_server mw (Some e) a handles_number b
         ros_goal_request_size c d ctx w)) = Some e"
  using assms
  by (auto simp add: rclc_executor_add_subscription_def
      rclc_executor_add_subscription_with_context_def rclc_executor_add_timer_def
      rclc_executor_add_client_def rclc_executor_add_client_with_request_id_def
      rclc_executor_add_service_def rclc_executor_add_service_with_context_def
      rclc_executor_add_service_with_request_id_def rclc_executor_add_guard_condition_def
      rclc_executor_add_action_client_def rclc_executor_add_action_server_def Let_def)

lemma shift_handles_length [simp]: "length (shift_handles hs d n) = length hs"
proof (induction hs d n rule: shift_handles.induct)
  case (1 handles dest index)
  then show ?case by (subst shift_handles.simps) simp
qed

lemma shift_handles_nth:
  "n < length hs \<Longrightarrow> i < length hs \<Longrightarrow>
   shift_handles hs d n ! i = (if d \<le> i \<and> i < n then hs ! (i + 1) else hs ! i)"
proof (induction hs d n arbitrary: i rule: shift_handles.induct)
  case (1 handles dest index)
  show ?case
  proof (cases "dest < index")
    case True
    let ?hs = "handles[dest := handles ! (dest + 1)]"
    have "shift_handles handles dest index ! i = shift_handles ?hs (dest + 1) index ! i"
      using True by (subst shift_handles.simps) simp
    also have "\<dots> = (if dest + 1 \<le> i \<and> i < index then ?hs ! (i + 1) else ?hs ! i)"
      using "1.IH" [OF True, of i] "1.prems" by simp
    also have "\<dots> = (if dest \<le> i \<and> i < index then handles ! (i + 1) else handles ! i)"
      using True "1.prems" by (auto simp: nth_list_update)
    finally show ?thesis .
  next
    case False
    then show ?thesis by (subst shift_handles.simps) auto
  qed
qed

lemma find_handle_from_first:
  "i \<le> k \<Longrightarrow> k < e_index e \<Longrightarrow> rclc_executor_handle_get_ptr (Some (handle_at e k)) = p \<Longrightarrow>
   (\<forall>j. i \<le> j \<and> j < k \<longrightarrow> rclc_executor_handle_get_ptr (Some (handle_at e j)) \<noteq> p) \<Longrightarrow>
   find_handle_from e p i = Some k"
proof (induction e p i rule: find_handle_from.induct)
  case (1 executor rcl_handle i)
  have lt: "i < e_index executor" using "1.prems" by simp
  show ?case
  proof (cases "i = k")
    case True
    then show ?thesis using lt "1.prems"(3)
      by (subst find_handle_from.simps) (simp del: rclc_executor_handle_get_ptr.simps)
  next
    case False
    then have ik: "i < k" using "1.prems"(1) by simp
    then have ne: "rcl_handle \<noteq> rclc_executor_handle_get_ptr (Some (handle_at executor i))"
      using "1.prems"(4) by auto
    have "find_handle_from executor rcl_handle (i + 1) = Some k"
      using "1.IH" [OF lt ne] ik "1.prems" by auto
    then show ?thesis using lt ne
      by (subst find_handle_from.simps) (simp del: rclc_executor_handle_get_ptr.simps)
  qed
qed

lemma table_without_eq:
  assumes "k < index" "index \<le> length hs"
  shows "(shift_handles hs k (index - 1))
           [index - 1 := rclc_executor_handle_init (shift_handles hs k (index - 1) ! (index - 1)) m]
         = table_without hs k index m"
proof (rule nth_equalityI)
  show "length ((shift_handles hs k (index - 1))
           [index - 1 := rclc_executor_handle_init (shift_handles hs k (index - 1) ! (index - 1)) m])
        = length (table_without hs k index m)"
    using assms by (simp add: table_without_def)
next
  fix i
  assume "i < length ((shift_handles hs k (index - 1))
           [index - 1 := rclc_executor_handle_init (shift_handles hs k (index - 1) ! (index - 1)) m])"
  then have i: "i < length hs" by simp
  have n: "index - 1 < length hs" using assms by simp
  show "(shift_handles hs k (index - 1))
           [index - 1 := rclc_executor_handle_init (shift_handles hs k (index - 1) ! (index - 1)) m] ! i
        = table_without hs k index m ! i"
    using assms i n
    by (auto simp: table_without_def nth_append nth_list_update shift_handles_nth min_def)
qed


lemma find_handle_from_None:
  "(\<forall>j. i \<le> j \<and> j < e_index e \<longrightarrow> rclc_executor_handle_get_ptr (Some (handle_at e j)) \<noteq> p)
   \<Longrightarrow> find_handle_from e p i = None"
proof (induction e p i rule: find_handle_from.induct)
  case (1 executor rcl_handle i)
  show ?case
  proof (cases "i < e_index executor")
    case True
    have ne: "rcl_handle \<noteq> rclc_executor_handle_get_ptr (Some (handle_at executor i))"
      using "1.prems" True by auto
    have "find_handle_from executor rcl_handle (i + 1) = None"
      using "1.IH" [OF True ne] "1.prems" by auto
    then show ?thesis using True ne
      by (subst find_handle_from.simps) (simp del: rclc_executor_handle_get_ptr.simps)
  next
    case False
    then show ?thesis by (subst find_handle_from.simps) simp
  qed
qed

lemma remove_entity_registered:
  assumes hs: "e_handles e = Some hs" and len: "e_index e \<le> length hs"
    and k: "k < e_index e"
    and pk: "rclc_executor_handle_get_ptr (Some (hs ! k)) = p"
    and first: "\<forall>j<k. rclc_executor_handle_get_ptr (Some (hs ! j)) \<noteq> p"
    and nn: "p \<noteq> NULL"
    and fini: "fst (invalidate_wait_set mw (e_wait_set e)) = RCL_RET_OK"
  shows "remove_entity mw (Some e) p count =
           (RCL_RET_OK,
            Some (e\<lparr> e_index := e_index e - 1,
                     e_handles := Some (table_without hs k (e_index e) (e_max_handles e)),
                     e_wait_set := snd (invalidate_wait_set mw (e_wait_set e)),
                     e_info := count (e_info e) \<rparr>))"
proof -
  have f: "rclc_executor_find_handle e p = Some k"
    unfolding rclc_executor_find_handle_def
    by (rule find_handle_from_first) (use k pk first hs in \<open>auto simp: handle_at_def\<close>)
  have t: "(shift_handles hs k (e_index e - 1))
             [e_index e - 1 := rclc_executor_handle_init
                (shift_handles hs k (e_index e - 1) ! (e_index e - 1)) (e_max_handles e)]
           = table_without hs k (e_index e) (e_max_handles e)"
    by (rule table_without_eq) (use k len in auto)
  obtain ret ws where iv: "invalidate_wait_set mw (e_wait_set e) = (ret, ws)"
    by (cases "invalidate_wait_set mw (e_wait_set e)")
  have ret: "ret = RCL_RET_OK" using fini iv by simp
  have r: "rclc_executor_remove_handle mw e (Some k) =
             (RCL_RET_OK, e\<lparr> e_index := e_index e - 1,
                     e_handles := Some (table_without hs k (e_index e) (e_max_handles e)),
                     e_wait_set := ws \<rparr>)"
    using k hs t iv ret by (simp add: rclc_executor_remove_handle_def Let_def)
  show ?thesis
    using nn f r iv by (simp add: remove_entity_def)
qed

text \<open>
Claim C5, as amended. Let the endpoint \<open>p\<close> be registered, position \<open>k\<close> being the
  first whose handle yields \<open>p\<close>, and let the middleware finalise the wait set without
  error, leaving it invalid (when it is valid at all). Then each \<^verbatim>\<open>rclc_executor_remove_*\<close> function
  returns \<^verbatim>\<open>RCL_RET_OK\<close>; the table is \<open>table_without\<close>: the registered handles other than
  position \<open>k\<close> in their order, then the vacated slot with type \<^verbatim>\<open>RCLC_NONE\<close>,
  \<^verbatim>\<open>initialized\<close> false and \<^verbatim>\<open>index\<close> equal to the capacity, then the unused slots as
  before; the handle count and the counter of the function called are decremented; the
  wait set is invalid.
\<close>

theorem remove_registered:
  assumes hs: "e_handles e = Some hs" and len: "e_index e \<le> length hs"
    and k: "k < e_index e"
    and pk: "rclc_executor_handle_get_ptr (Some (hs ! k)) = p"
    and first: "\<forall>j<k. rclc_executor_handle_get_ptr (Some (hs ! j)) \<noteq> p"
    and nn: "p \<noteq> NULL"
    and fini: "rcl_wait_set_is_valid mw (e_wait_set e) \<longrightarrow>
                 fst (rcl_wait_set_fini mw (e_wait_set e)) = RCL_RET_OK \<and>
                 \<not> rcl_wait_set_is_valid mw (snd (rcl_wait_set_fini mw (e_wait_set e)))"
  shows
    "(let table = table_without hs k (e_index e) (e_max_handles e);
          e' = e\<lparr> e_index := e_index e - 1, e_handles := Some table,
                  e_wait_set := snd (invalidate_wait_set mw (e_wait_set e)) \<rparr>;
          info = e_info e
      in rclc_executor_remove_subscription mw (Some e) p =
           (RCL_RET_OK, Some (e'\<lparr> e_info := info\<lparr> number_of_subscriptions :=
                                                   number_of_subscriptions info - 1 \<rparr> \<rparr>)) \<and>
         rclc_executor_remove_timer mw (Some e) p =
           (RCL_RET_OK, Some (e'\<lparr> e_info := info\<lparr> number_of_timers :=
                                                   number_of_timers info - 1 \<rparr> \<rparr>)) \<and>
         rclc_executor_remove_client mw (Some e) p =
           (RCL_RET_OK, Some (e'\<lparr> e_info := info\<lparr> number_of_clients :=
                                                   number_of_clients info - 1 \<rparr> \<rparr>)) \<and>
         rclc_executor_remove_service mw (Some e) p =
           (RCL_RET_OK, Some (e'\<lparr> e_info := info\<lparr> number_of_services :=
                                                   number_of_services info - 1 \<rparr> \<rparr>)) \<and>
         rclc_executor_remove_guard_condition mw (Some e) p =
           (RCL_RET_OK, Some (e'\<lparr> e_info := info\<lparr> number_of_guard_conditions :=
                                                   number_of_guard_conditions info - 1 \<rparr> \<rparr>)) \<and>
         \<not> rcl_wait_set_is_valid mw (e_wait_set e') \<and>
         take (e_index e') table = take k hs @ drop (Suc k) (take (e_index e) hs) \<and>
         h_type (table ! e_index e') = RCLC_NONE \<and>
         \<not> h_initialized (table ! e_index e') \<and>
         h_index (table ! e_index e') = e_max_handles e \<and>
         drop (e_index e) table = drop (e_index e) hs)"
proof -
  have ok: "fst (invalidate_wait_set mw (e_wait_set e)) = RCL_RET_OK"
    using fini by (simp add: invalidate_wait_set_def)
  have inv: "\<not> rcl_wait_set_is_valid mw (snd (invalidate_wait_set mw (e_wait_set e)))"
    using fini by (simp add: invalidate_wait_set_def)
  note r = remove_entity_registered [OF hs len k pk first nn ok]
  have l1: "length (take k hs @ drop (Suc k) (take (e_index e) hs)) = e_index e - 1"
    using k len by simp
  have tk: "take (e_index e - 1) (table_without hs k (e_index e) (e_max_handles e)) =
              take k hs @ drop (Suc k) (take (e_index e) hs)"
    unfolding table_without_def using l1
    by (metis append.assoc append_eq_conv_conj)
  have slot: "table_without hs k (e_index e) (e_max_handles e) ! (e_index e - 1) =
                rclc_executor_handle_init (hs ! (e_index e - 1)) (e_max_handles e)"
    unfolding table_without_def using l1
    by (metis append.assoc nth_append_length append_Cons)
  have l2: "length (take k hs @ drop (Suc k) (take (e_index e) hs) @
              [rclc_executor_handle_init (hs ! (e_index e - 1)) (e_max_handles e)]) = e_index e"
    using k len by simp
  have dr: "drop (e_index e) (table_without hs k (e_index e) (e_max_handles e)) =
              drop (e_index e) hs"
    unfolding table_without_def using l2
    by (metis append.assoc append_eq_conv_conj)
  show ?thesis
    unfolding Let_def
    using r inv tk slot dr
    by (simp add: rclc_executor_remove_subscription_def rclc_executor_remove_timer_def
        rclc_executor_remove_client_def rclc_executor_remove_service_def
        rclc_executor_remove_guard_condition_def rclc_executor_handle_init_def)
qed


lemma one_timer_executor_eq:
  "one_timer_executor = Some \<lparr> e_context = 7,
     e_handles = Some [\<lparr> h_type = RCLC_TIMER, h_invocation = ON_NEW_DATA, h_entity = 11,
                         h_data = 0, h_req_id = 0, h_data_response_msg = 0,
                         h_callback_context = 0, h_callback = 0, h_index = 1,
                         h_initialized = True, h_data_available = False \<rparr>],
     e_max_handles = 1, e_index = 1, e_allocator = 9, e_wait_set = False,
     e_info = \<lparr> number_of_subscriptions = 0, number_of_timers = 1, number_of_clients = 0,
                number_of_services = 0, number_of_action_clients = 0,
                number_of_action_servers = 0, number_of_guard_conditions = 0,
                number_of_events = 0 \<rparr>,
     e_timeout_ns = 1000000000,
     e_invocation_time = 0, e_trigger_function = Some TRIGGER_ANY, e_trigger_object = NULL,
     e_data_comm_semantics = RCLCPP_EXECUTOR \<rparr>"
  by (simp add: one_timer_executor_def rclc_executor_add_timer_def add_handle_def
      invalidate_wait_set_def set_handle_def handle_at_def
      rclc_executor_init_def idle_rcl_def zero_executor_def
      rclc_executor_get_zero_initialized_executor_def rclc_executor_handle_init_def
      rclc_executor_handle_counters_zero_init_def blank_handle_def)

lemma busy_executor_eq:
  "busy_executor = Some \<lparr> e_context = 7,
     e_handles = Some
       [\<lparr> h_type = RCLC_TIMER, h_invocation = ON_NEW_DATA, h_entity = 11, h_data = 0,
           h_req_id = 0, h_data_response_msg = 0, h_callback_context = 0, h_callback = 0,
           h_index = 4, h_initialized = True, h_data_available = False \<rparr>,
        \<lparr> h_type = RCLC_SUBSCRIPTION, h_invocation = ON_NEW_DATA, h_entity = 12, h_data = 22,
           h_req_id = 0, h_data_response_msg = 0, h_callback_context = 0, h_callback = 32,
           h_index = 4, h_initialized = True, h_data_available = False \<rparr>,
        \<lparr> h_type = RCLC_GUARD_CONDITION, h_invocation = ON_NEW_DATA, h_entity = 13,
           h_data = 0, h_req_id = 0, h_data_response_msg = 0, h_callback_context = 0,
           h_callback = 33, h_index = 4, h_initialized = True, h_data_available = False \<rparr>,
        \<lparr> h_type = RCLC_NONE, h_invocation = ON_NEW_DATA, h_entity = 0, h_data = 0,
           h_req_id = 0, h_data_response_msg = 0, h_callback_context = 0, h_callback = 0,
           h_index = 4, h_initialized = False, h_data_available = False \<rparr>],
     e_max_handles = 4, e_index = 3, e_allocator = 9, e_wait_set = False,
     e_info = \<lparr> number_of_subscriptions = 1, number_of_timers = 1, number_of_clients = 0,
                number_of_services = 0, number_of_action_clients = 0,
                number_of_action_servers = 0, number_of_guard_conditions = 1,
                number_of_events = 0 \<rparr>,
     e_timeout_ns = 1000000000,
     e_invocation_time = 0, e_trigger_function = Some TRIGGER_ANY, e_trigger_object = NULL,
     e_data_comm_semantics = RCLCPP_EXECUTOR \<rparr>"
  by (simp add: busy_executor_def rclc_executor_add_timer_def rclc_executor_add_subscription_def
      rclc_executor_add_guard_condition_def add_handle_def
      invalidate_wait_set_def set_handle_def handle_at_def
      rclc_executor_init_def idle_rcl_def zero_executor_def
      rclc_executor_get_zero_initialized_executor_def rclc_executor_handle_init_def
      rclc_executor_handle_counters_zero_init_def blank_handle_def upt_rec)

text \<open>
The scenario of the specification: capacity 1, a timer registered; the second
  \<^verbatim>\<open>rclc_executor_add_timer\<close> returns the overflow error and the timer counter stays 1.
\<close>

theorem add_on_full_table_witness:
  "rclc_executor_is_valid one_timer_executor \<and>
   e_index (the one_timer_executor) = e_max_handles (the one_timer_executor) \<and>
   e_max_handles (the one_timer_executor) = 1 \<and>
   rclc_executor_add_timer idle_rcl one_timer_executor 12 = (RCL_RET_ERROR, one_timer_executor) \<and>
   number_of_timers (e_info (the one_timer_executor)) = 1"
proof -
  have s: "Some (the one_timer_executor) = one_timer_executor"
    by (simp add: one_timer_executor_eq)
  have full: "e_index (the one_timer_executor) = e_max_handles (the one_timer_executor)"
    by (simp add: one_timer_executor_eq)
  have "rclc_executor_add_timer idle_rcl (Some (the one_timer_executor)) 12 =
          (RCL_RET_ERROR, Some (the one_timer_executor))"
    using add_on_full_table [OF full, of 12 12 12 12 NULL NULL 1 idle_rcl] by simp
  then show ?thesis
    unfolding s by (simp add: one_timer_executor_eq)
qed

text \<open>
Claim C9. When no registered handle (position below \<^verbatim>\<open>index\<close>) yields the endpoint
  pointer \<open>p\<close> through \<^verbatim>\<open>rclc_executor_handle_get_ptr\<close>, in particular when the executor
  has no handles, every \<^verbatim>\<open>rclc_executor_remove_*\<close> function returns an error
  (\<^verbatim>\<open>RCL_RET_ERROR\<close>, or \<^verbatim>\<open>RCL_RET_INVALID_ARGUMENT\<close> for a null endpoint) and leaves
  the executor exactly as it was.
\<close>

theorem remove_unregistered_unchanged:
  assumes "\<forall>i<e_index e. rclc_executor_handle_get_ptr (Some (handle_at e i)) \<noteq> p"
  shows
    "rclc_executor_remove_subscription mw (Some e) p =
       (if p = NULL then RCL_RET_INVALID_ARGUMENT else RCL_RET_ERROR, Some e) \<and>
     rclc_executor_remove_timer mw (Some e) p =
       (if p = NULL then RCL_RET_INVALID_ARGUMENT else RCL_RET_ERROR, Some e) \<and>
     rclc_executor_remove_client mw (Some e) p =
       (if p = NULL then RCL_RET_INVALID_ARGUMENT else RCL_RET_ERROR, Some e) \<and>
     rclc_executor_remove_service mw (Some e) p =
       (if p = NULL then RCL_RET_INVALID_ARGUMENT else RCL_RET_ERROR, Some e) \<and>
     rclc_executor_remove_guard_condition mw (Some e) p =
       (if p = NULL then RCL_RET_INVALID_ARGUMENT else RCL_RET_ERROR, Some e)"
proof -
  have "rclc_executor_find_handle e p = None"
    unfolding rclc_executor_find_handle_def
    by (rule find_handle_from_None) (use assms in auto)
  then have "remove_entity mw (Some e) p count =
               (if p = NULL then RCL_RET_INVALID_ARGUMENT else RCL_RET_ERROR, Some e)" for count
    by (simp add: remove_entity_def rclc_executor_remove_handle_def)
  then show ?thesis
    by (simp add: rclc_executor_remove_subscription_def rclc_executor_remove_timer_def
        rclc_executor_remove_client_def rclc_executor_remove_service_def
        rclc_executor_remove_guard_condition_def)
qed

text \<open>
The theorem at a table of three handles for an endpoint that is not among them, and
  at an executor without handles.
\<close>

theorem remove_unregistered_unchanged_witness:
  "rclc_executor_find_handle (the busy_executor) 14 = None \<and>
   rclc_executor_remove_timer idle_rcl busy_executor 14 = (RCL_RET_ERROR, busy_executor) \<and>
   e_index (the fresh_executor) = 0 \<and>
   rclc_executor_remove_subscription idle_rcl fresh_executor 11 = (RCL_RET_ERROR, fresh_executor)"
proof -
  have s: "Some (the busy_executor) = busy_executor"
    by (simp add: busy_executor_eq)
  have s2: "Some (the fresh_executor) = fresh_executor"
    by (simp add: fresh_executor_eq)
  have h: "\<forall>i<e_index (the busy_executor).
      rclc_executor_handle_get_ptr (Some (handle_at (the busy_executor) i)) \<noteq> 14"
    by (simp add: busy_executor_eq handle_at_def less_Suc_eq numeral_3_eq_3)
  have h2: "\<forall>i<e_index (the fresh_executor).
      rclc_executor_handle_get_ptr (Some (handle_at (the fresh_executor) i)) \<noteq> 11"
    by (simp add: fresh_executor_eq)
  have i0: "e_index (the fresh_executor) = 0"
    by (simp add: fresh_executor_eq)
  have f: "rclc_executor_find_handle (the busy_executor) 14 = None"
    unfolding rclc_executor_find_handle_def
    by (rule find_handle_from_None) (use h in auto)
  show ?thesis
    using f i0 remove_unregistered_unchanged [OF h, of idle_rcl]
      remove_unregistered_unchanged [OF h2, of idle_rcl]
    unfolding s s2 by simp
qed

lemma prepared_executor_eq:
  "prepared_executor = Some ((the busy_executor)\<lparr> e_wait_set := True \<rparr>)"
  by (simp add: prepared_executor_def busy_executor_eq idle_rcl_def Let_def)

text \<open>
The theorem at the table timer 11, subscription 12, guard condition 13 of capacity 4, with
  a valid wait set that the middleware finalises: removing subscription 12 leaves timer 11
  and guard condition 13, in this order, the handle count 2, no subscription counted, and
  the wait set invalid.
\<close>

theorem remove_registered_witness:
  "rcl_wait_set_is_valid idle_rcl (e_wait_set (the prepared_executor)) \<and>
   rclc_executor_handle_get_ptr (Some (the (e_handles (the prepared_executor)) ! 1)) = 12 \<and>
   fst (rclc_executor_remove_subscription idle_rcl prepared_executor 12) = RCL_RET_OK \<and>
   map h_entity (the (e_handles (the (snd
     (rclc_executor_remove_subscription idle_rcl prepared_executor 12))))) = [11, 13, 0, 0] \<and>
   map h_initialized (the (e_handles (the (snd
     (rclc_executor_remove_subscription idle_rcl prepared_executor 12))))) =
     [True, True, False, False] \<and>
   e_index (the (snd (rclc_executor_remove_subscription idle_rcl prepared_executor 12))) = 2 \<and>
   number_of_subscriptions (e_info (the (snd
     (rclc_executor_remove_subscription idle_rcl prepared_executor 12)))) = 0 \<and>
   \<not> rcl_wait_set_is_valid idle_rcl (e_wait_set (the (snd
     (rclc_executor_remove_subscription idle_rcl prepared_executor 12))))"
proof -
  let ?e = "the prepared_executor"
  let ?hs = "the (e_handles ?e)"
  have s: "Some ?e = prepared_executor" by (simp add: prepared_executor_eq)
  have v: "rcl_wait_set_is_valid idle_rcl (e_wait_set ?e)"
    by (simp add: prepared_executor_eq idle_rcl_def)
  have hs: "e_handles ?e = Some ?hs" by (simp add: prepared_executor_eq busy_executor_eq)
  have len: "e_index ?e \<le> length ?hs" by (simp add: prepared_executor_eq busy_executor_eq)
  have k: "1 < e_index ?e" by (simp add: prepared_executor_eq busy_executor_eq)
  have pk: "rclc_executor_handle_get_ptr (Some (?hs ! 1)) = 12"
    by (simp add: prepared_executor_eq busy_executor_eq)
  have first: "\<forall>j<1. rclc_executor_handle_get_ptr (Some (?hs ! j)) \<noteq> 12"
    by (simp add: prepared_executor_eq busy_executor_eq)
  have nn: "(12::nat) \<noteq> NULL" by simp
  have fini: "rcl_wait_set_is_valid idle_rcl (e_wait_set ?e) \<longrightarrow>
                 fst (rcl_wait_set_fini idle_rcl (e_wait_set ?e)) = RCL_RET_OK \<and>
                 \<not> rcl_wait_set_is_valid idle_rcl (snd (rcl_wait_set_fini idle_rcl (e_wait_set ?e)))"
    by (simp add: idle_rcl_def)
  show ?thesis
    using v pk remove_registered [OF hs len k pk first nn fini]
    unfolding s Let_def
    by (simp add: prepared_executor_eq busy_executor_eq table_without_def
        rclc_executor_handle_init_def)
qed

text \<open>
Claim C5 as stated fails: the same executor, with the subscription 12 registered and a
  valid wait set, on a middleware whose \<^verbatim>\<open>rcl_wait_set_fini\<close> fails.
  \<^verbatim>\<open>rclc_executor_remove_subscription\<close> returns the error of the middleware after the
  table has been shifted and the handle count decremented; the counter of subscriptions
  is not decremented and the wait set is still valid.
\<close>

theorem remove_registered_fini_fails_counterexample:
  "rcl_wait_set_is_valid stuck_rcl (e_wait_set (the prepared_executor)) \<and>
   rclc_executor_handle_get_ptr (Some (the (e_handles (the prepared_executor)) ! 1)) = 12 \<and>
   number_of_subscriptions (e_info (the prepared_executor)) = 1 \<and>
   fst (rclc_executor_remove_subscription stuck_rcl prepared_executor 12) = RCL_RET_ERROR \<and>
   map h_entity (the (e_handles (the (snd
     (rclc_executor_remove_subscription stuck_rcl prepared_executor 12))))) = [11, 13, 0, 0] \<and>
   e_index (the (snd (rclc_executor_remove_subscription stuck_rcl prepared_executor 12))) = 2 \<and>
   number_of_subscriptions (e_info (the (snd
     (rclc_executor_remove_subscription stuck_rcl prepared_executor 12)))) = 1 \<and>
   rcl_wait_set_is_valid stuck_rcl (e_wait_set (the (snd
     (rclc_executor_remove_subscription stuck_rcl prepared_executor 12))))"
  by (simp add: prepared_executor_eq busy_executor_eq stuck_rcl_def idle_rcl_def
      rclc_executor_remove_subscription_def remove_entity_def rclc_executor_find_handle_def
      find_handle_from.simps rclc_executor_remove_handle_def shift_handles.simps
      invalidate_wait_set_def handle_at_def rclc_executor_handle_init_def Let_def)

section \<open>Properties: the trigger and the processing round\<close>

lemma trigger_one_from_iff:
  "trigger_one_from w hs sz obj i \<longleftrightarrow>
     (\<exists>k. i \<le> k \<and> k < sz \<and> (\<forall>j. i \<le> j \<and> j \<le> k \<longrightarrow> h_initialized (hs ! j)) \<and>
          rclc_check_handle_data_available w (Some (hs ! k)) \<and>
          rclc_executor_handle_get_ptr (Some (hs ! k)) = obj \<and> obj \<noteq> NULL \<and>
          (\<forall>j. i \<le> j \<and> j < k \<longrightarrow> rclc_check_handle_data_available w (Some (hs ! j)) \<longrightarrow>
               rclc_executor_handle_get_ptr (Some (hs ! j)) \<noteq> NULL))"
  (is "?L w hs sz obj i \<longleftrightarrow> ?R i")
proof (induction w hs sz obj i rule: trigger_one_from.induct)
  case (1 w handles sz obj i)
  define A where "A j = rclc_check_handle_data_available w (Some (handles ! j))" for j
  define G where "G j = rclc_executor_handle_get_ptr (Some (handles ! j))" for j
  define R where "R i \<longleftrightarrow> (\<exists>k. i \<le> k \<and> k < sz \<and> (\<forall>j. i \<le> j \<and> j \<le> k \<longrightarrow> h_initialized (handles ! j)) \<and>
          A k \<and> G k = obj \<and> obj \<noteq> NULL \<and> (\<forall>j. i \<le> j \<and> j < k \<longrightarrow> A j \<longrightarrow> G j \<noteq> NULL))" for i
  have step: "R i \<longleftrightarrow> (A i \<and> G i = obj \<and> obj \<noteq> NULL) \<or> ((A i \<longrightarrow> G i \<noteq> NULL) \<and> R (Suc i))"
    if "i < sz" "h_initialized (handles ! i)"
  proof
    assume "R i"
    then obtain k where k: "i \<le> k" "k < sz" "\<forall>j. i \<le> j \<and> j \<le> k \<longrightarrow> h_initialized (handles ! j)"
      "A k" "G k = obj" "obj \<noteq> NULL" "\<forall>j. i \<le> j \<and> j < k \<longrightarrow> A j \<longrightarrow> G j \<noteq> NULL"
      unfolding R_def by blast
    show "(A i \<and> G i = obj \<and> obj \<noteq> NULL) \<or> ((A i \<longrightarrow> G i \<noteq> NULL) \<and> R (Suc i))"
    proof (cases "k = i")
      case True
      then show ?thesis using k by simp
    next
      case False
      then have "Suc i \<le> k" using k(1) by simp
      moreover have "A i \<longrightarrow> G i \<noteq> NULL" using k(7) False k(1) by simp
      ultimately have "(A i \<longrightarrow> G i \<noteq> NULL) \<and> R (Suc i)"
        unfolding R_def using k by (intro conjI exI [of _ k]) auto
      then show ?thesis ..
    qed
  next
    assume "(A i \<and> G i = obj \<and> obj \<noteq> NULL) \<or> ((A i \<longrightarrow> G i \<noteq> NULL) \<and> R (Suc i))"
    then show "R i"
    proof
      assume "A i \<and> G i = obj \<and> obj \<noteq> NULL"
      then show "R i" unfolding R_def using that by (intro exI [of _ i]) auto
    next
      assume a: "(A i \<longrightarrow> G i \<noteq> NULL) \<and> R (Suc i)"
      then obtain k where k: "Suc i \<le> k" "k < sz"
        "\<forall>j. Suc i \<le> j \<and> j \<le> k \<longrightarrow> h_initialized (handles ! j)"
        "A k" "G k = obj" "obj \<noteq> NULL" "\<forall>j. Suc i \<le> j \<and> j < k \<longrightarrow> A j \<longrightarrow> G j \<noteq> NULL"
        unfolding R_def by blast
      have 1: "\<forall>j. i \<le> j \<and> j \<le> k \<longrightarrow> h_initialized (handles ! j)"
        using k(3) that(2) by (metis Suc_leI le_neq_implies_less)
      have 2: "\<forall>j. i \<le> j \<and> j < k \<longrightarrow> A j \<longrightarrow> G j \<noteq> NULL"
        using k(7) a by (metis Suc_leI le_neq_implies_less)
      show "R i" unfolding R_def using k 1 2 by (intro exI [of _ k]) auto
    qed
  qed
  have stop: "\<not> R i" if "\<not> (i < sz \<and> h_initialized (handles ! i))"
    unfolding R_def using that by (metis le_less_trans le_refl)
  show ?case
  proof (cases "i < sz \<and> h_initialized (handles ! i)")
    case False
    have "\<not> trigger_one_from w handles sz obj i"
      using False by (subst trigger_one_from.simps) auto
    then show ?thesis using stop [OF False] unfolding R_def A_def G_def by blast
  next
    case True
    then have t: "i < sz" "h_initialized (handles ! i)" by auto
    have ih: "trigger_one_from w handles sz obj (i + 1) = R (Suc i)"
      if "\<not> (A i \<and> (G i = NULL \<or> obj = G i))"
    proof (cases "A i")
      case True
      with that have "NULL \<noteq> G i" "obj \<noteq> G i" by auto
      then show ?thesis
        using "1.IH"(1) [OF t(1) t(2) _ refl] True unfolding A_def G_def R_def by simp
    next
      case False
      then show ?thesis
        using "1.IH"(2) [OF t(1) t(2)] unfolding A_def G_def R_def by simp
    qed
    have "trigger_one_from w handles sz obj i =
            (if A i then (if NULL = G i then False else if obj = G i then True
                          else trigger_one_from w handles sz obj (i + 1))
             else trigger_one_from w handles sz obj (i + 1))"
      using t unfolding A_def G_def
      by (subst trigger_one_from.simps) (simp add: Let_def del: rclc_executor_handle_get_ptr.simps rclc_check_handle_data_available.simps)
    also have "\<dots> = R i"
      using step [OF t] ih by auto
    finally show ?thesis unfolding R_def A_def G_def .
  qed
qed


lemma same_shape_refl [simp]: "same_shape e e"
  by (simp add: same_shape_def)

lemma same_shape_trans: "same_shape e e' \<Longrightarrow> same_shape e' e'' \<Longrightarrow> same_shape e e''"
  by (simp add: same_shape_def)

lemma handle_at_set_handle:
  "handle_at (set_handle e i h) j =
     (if j = i \<and> e_handles e \<noteq> None \<and> i < length (the (e_handles e)) then h
      else handle_at e j)"
  by (cases "e_handles e") (auto simp: handle_at_def set_handle_def nth_list_update list_update_beyond)

lemma same_shape_set_handle:
  assumes "h_type h = h_type (handle_at e i)" "h_entity h = h_entity (handle_at e i)"
    "h_initialized h = h_initialized (handle_at e i)"
  shows "same_shape e (set_handle e i h)"
  unfolding same_shape_def using assms
  by (auto simp: handle_at_set_handle) (auto simp: set_handle_def)

lemma same_shape_wait_set [simp]: "same_shape e (e\<lparr> e_wait_set := ws \<rparr>)"
  by (simp add: same_shape_def handle_at_def)

lemma check_for_new_data_shape:
  assumes "rclc_check_for_new_data mw h ws w = (rc, h', w')"
  shows "h_type h' = h_type h \<and> h_entity h' = h_entity h \<and> h_initialized h' = h_initialized h"
  using assms
  by (cases "h_type h")
     (auto simp: rclc_check_for_new_data_def set_data_available_def split: prod.splits)

lemma check_body_shape:
  assumes "check_body mw i s = (r, rc, s')"
  shows "same_shape (rs_executor s) (rs_executor s') \<and> rs_trace s' = rs_trace s"
proof -
  obtain rc1 h w where c: "rclc_check_for_new_data mw (handle_at (rs_executor s) i)
      (e_wait_set (rs_executor s)) (rs_world s) = (rc1, h, w)"
    by (metis prod_cases3)
  have s': "s' = s\<lparr> rs_executor := set_handle (rs_executor s) i h, rs_world := w \<rparr>"
    using assms c by (simp add: check_body_def Let_def)
  show ?thesis
    using check_for_new_data_shape [OF c] by (simp add: s' same_shape_set_handle)
qed

lemma wait_set_add_body_shape:
  assumes "wait_set_add_body mw i s = (r, rc, s')"
  shows "same_shape (rs_executor s) (rs_executor s') \<and> rs_trace s' = rs_trace s"
proof (cases "wait_set_add_kind (h_type (handle_at (rs_executor s) i))")
  case None
  then show ?thesis using assms by (simp add: wait_set_add_body_def Let_def)
next
  case (Some k)
  obtain rc1 ws idx where a: "rcl_wait_set_add mw k (e_wait_set (rs_executor s))
      (h_entity (handle_at (rs_executor s) i)) (h_index (handle_at (rs_executor s) i)) = (rc1, ws, idx)"
    by (metis prod_cases3)
  have s': "s' = s\<lparr> rs_executor := (set_handle (rs_executor s) i
                      ((handle_at (rs_executor s) i)\<lparr> h_index := idx \<rparr>))\<lparr> e_wait_set := ws \<rparr> \<rparr>"
    using assms Some a by (simp add: wait_set_add_body_def Let_def)
  have "same_shape (rs_executor s) (set_handle (rs_executor s) i
                      ((handle_at (rs_executor s) i)\<lparr> h_index := idx \<rparr>))"
    by (rule same_shape_set_handle) simp_all
  then show ?thesis
    unfolding s' by (auto intro: same_shape_trans)
qed

lemma for_each_handle_inv:
  "(\<forall>i s r rc s'. P s \<longrightarrow> body i s = (r, rc, s') \<longrightarrow> P s') \<Longrightarrow> P s \<Longrightarrow>
   for_each_handle body m i rc0 s = (r, rc, s') \<Longrightarrow> P s'"
proof (induction body m i rc0 s rule: for_each_handle.induct)
  case (1 body max_handles i rc0 s)
  show ?case
  proof (cases "i < max_handles \<and> h_initialized (handle_at (rs_executor s) i)")
    case False
    then have "for_each_handle body max_handles i rc0 s = (False, rc0, s)"
      by (subst for_each_handle.simps) auto
    then show ?thesis using "1.prems" by simp
  next
    case True
    obtain r1 rc1 s1 where b: "body i s = (r1, rc1, s1)" by (metis prod_cases3)
    have P1: "P s1" using "1.prems"(1,2) b by blast
    show ?thesis
    proof (cases r1)
      case True
      have "for_each_handle body max_handles i rc0 s = (True, rc1, s1)"
        using \<open>i < max_handles \<and> h_initialized (handle_at (rs_executor s) i)\<close> b True
        by (subst for_each_handle.simps) simp
      then show ?thesis using "1.prems"(3) P1 by simp
    next
      case False
      have "for_each_handle body max_handles i rc0 s =
              for_each_handle body max_handles (i + 1) rc1 s1"
        using \<open>i < max_handles \<and> h_initialized (handle_at (rs_executor s) i)\<close> b False
        by (subst for_each_handle.simps) simp
      then have "for_each_handle body max_handles (i + 1) rc1 s1 = (r, rc, s')"
        using "1.prems"(3) by simp
      then show ?thesis
        using "1.IH" [OF True refl b [symmetric] refl False "1.prems"(1) P1] by simp
    qed
  qed
qed


lemma get_ptr_same_shape:
  "same_shape e e' \<Longrightarrow>
   rclc_executor_handle_get_ptr (Some (handle_at e' i)) =
   rclc_executor_handle_get_ptr (Some (handle_at e i))"
  by (cases "h_type (handle_at e i)") (simp_all add: same_shape_def)

lemma check_loop_shape:
  assumes "for_each_handle (check_body mw) m i rc0 s = (r, rc, s')"
  shows "same_shape (rs_executor s) (rs_executor s') \<and> rs_trace s' = rs_trace s"
proof -
  let ?P = "\<lambda>t. same_shape (rs_executor s) (rs_executor t) \<and> rs_trace t = rs_trace s"
  have "\<forall>i t r rc t'. ?P t \<longrightarrow> check_body mw i t = (r, rc, t') \<longrightarrow> ?P t'"
    using check_body_shape same_shape_trans by metis
  from for_each_handle_inv [where P = ?P, OF this _ assms] show ?thesis by simp
qed

lemma wait_set_add_loop_shape:
  assumes "for_each_handle (wait_set_add_body mw) m i rc0 s = (r, rc, s')"
  shows "same_shape (rs_executor s) (rs_executor s') \<and> rs_trace s' = rs_trace s"
proof -
  let ?P = "\<lambda>t. same_shape (rs_executor s) (rs_executor t) \<and> rs_trace t = rs_trace s"
  have "\<forall>i t r rc t'. ?P t \<longrightarrow> wait_set_add_body mw i t = (r, rc, t') \<longrightarrow> ?P t'"
    using wait_set_add_body_shape same_shape_trans by metis
  from for_each_handle_inv [where P = ?P, OF this _ assms] show ?thesis by simp
qed

lemma unregistered_target_same_shape:
  "same_shape e e' \<Longrightarrow> unregistered_target e \<Longrightarrow> unregistered_target e'"
  unfolding unregistered_target_def
  using get_ptr_same_shape [of e e'] by (simp add: same_shape_def)

lemma trigger_one_unregistered:
  assumes "unregistered_target e"
  shows "call_trigger_function mw e w = Some False"
proof (cases "e_handles e")
  case None
  then show ?thesis using assms
    by (simp add: call_trigger_function_def unregistered_target_def)
next
  case (Some hs)
  have le: "e_max_handles e mod 2 ^ 32 \<le> e_max_handles e" by simp
  have "\<not> trigger_one_from w hs (e_max_handles e mod 2 ^ 32) (e_trigger_object e) 0"
  proof
    assume "trigger_one_from w hs (e_max_handles e mod 2 ^ 32) (e_trigger_object e) 0"
    then obtain k where k: "k < e_max_handles e mod 2 ^ 32" "h_initialized (hs ! k)"
      "rclc_executor_handle_get_ptr (Some (hs ! k)) = e_trigger_object e"
      unfolding trigger_one_from_iff by blast
    have "k < e_max_handles e" using k(1) le by linarith
    then show False
      using assms k Some by (simp add: unregistered_target_def handle_at_def)
  qed
  then show ?thesis using assms Some
    by (simp add: call_trigger_function_def unregistered_target_def)
qed

lemma default_scheduling_not_fired:
  assumes "unregistered_target (rs_executor s)"
  shows "\<exists>rc s'. rclc_default_scheduling mw s = Some (rc, s') \<and> rs_trace s' = rs_trace s"
proof -
  obtain r rc s1 where c: "for_each_handle (check_body mw) (e_max_handles (rs_executor s)) 0
      RCL_RET_OK s = (r, rc, s1)"
    by (metis prod_cases3)
  note sh = check_loop_shape [OF c]
  have "call_trigger_function mw (rs_executor s1) (rs_world s1) = Some False"
    using trigger_one_unregistered unregistered_target_same_shape sh assms by blast
  then have "rclc_default_scheduling mw s = Some (rc, s1)"
    using c by (simp add: rclc_default_scheduling_def Let_def)
  then show ?thesis using sh by simp
qed

lemma let_scheduling_not_fired:
  assumes "unregistered_target (rs_executor s)"
  shows "\<exists>rc s'. rclc_let_scheduling mw s = Some (rc, s') \<and> rs_trace s' = rs_trace s"
proof -
  obtain r rc s1 where c: "for_each_handle (check_body mw) (e_max_handles (rs_executor s)) 0
      RCL_RET_OK s = (r, rc, s1)"
    by (metis prod_cases3)
  note sh = check_loop_shape [OF c]
  have "call_trigger_function mw (rs_executor s1) (rs_world s1) = Some False"
    using trigger_one_unregistered unregistered_target_same_shape sh assms by blast
  then have "rclc_let_scheduling mw s = Some (rc, s1)"
    using c by (simp add: rclc_let_scheduling_def Let_def)
  then show ?thesis using sh by simp
qed

lemma prepare_shape:
  "same_shape e (the (snd (rclc_executor_prepare mw (Some e))))"
  by (simp add: Let_def split: prod.splits)

lemma spin_some_schedule_not_fired:
  assumes u: "unregistered_target (rs_executor s)"
  shows "\<exists>rc e' w'. spin_some_schedule mw s = Some (rc, e', w', rs_trace s)"
proof (cases "e_data_comm_semantics (rs_executor s)")
  case RCLCPP_EXECUTOR
  obtain rc s' where "rclc_default_scheduling mw s = Some (rc, s')" "rs_trace s' = rs_trace s"
    using default_scheduling_not_fired [OF u] by blast
  then show ?thesis using RCLCPP_EXECUTOR by (simp add: spin_some_schedule_def)
next
  case LET
  obtain rc s' where "rclc_let_scheduling mw s = Some (rc, s')" "rs_trace s' = rs_trace s"
    using let_scheduling_not_fired [OF u] by blast
  then show ?thesis using LET by (simp add: spin_some_schedule_def)
qed

lemma spin_some_wait_not_fired:
  assumes u: "unregistered_target (rs_executor s)"
  shows "\<exists>rc e' w'. spin_some_wait mw timeout_ns s = Some (rc, e', w', rs_trace s)"
proof -
  obtain rc_wait ws w where wt:
    "rcl_wait mw (e_wait_set (rs_executor s)) timeout_ns (rs_world s) = (rc_wait, ws, w)"
    by (metis prod_cases3)
  let ?s = "s\<lparr> rs_executor := (rs_executor s)\<lparr> e_wait_set := ws \<rparr>, rs_world := w \<rparr>"
  have "same_shape (rs_executor s) (rs_executor ?s)" by simp
  then have "unregistered_target (rs_executor ?s)"
    using u unregistered_target_same_shape by blast
  from spin_some_schedule_not_fired [OF this, of mw]
  show ?thesis using wt by (simp add: spin_some_wait_def)
qed

lemma spin_some_add_handles_not_fired:
  assumes u: "unregistered_target e"
  shows "\<exists>rc' e' w'. spin_some_add_handles mw timeout_ns e w rc = Some (rc', e', w', [])"
proof -
  obtain r rc_add s where a: "for_each_handle (wait_set_add_body mw) (e_max_handles e) 0
      rc \<lparr> rs_executor = e, rs_world = w, rs_trace = [] \<rparr> = (r, rc_add, s)"
    by (metis prod_cases3)
  have sh: "same_shape e (rs_executor s)" and tr: "rs_trace s = []"
    using wait_set_add_loop_shape [OF a] by simp_all
  have us: "unregistered_target (rs_executor s)"
    using unregistered_target_same_shape [OF sh u] .
  show ?thesis
  proof (cases r)
    case True
    then show ?thesis using a tr by (simp add: spin_some_add_handles_def)
  next
    case False
    then show ?thesis
      using a tr spin_some_wait_not_fired [OF us, of mw timeout_ns]
      by (simp add: spin_some_add_handles_def)
  qed
qed

lemma spin_some_not_fired:
  assumes u: "unregistered_target e"
  shows "\<exists>rc e' w'. rclc_executor_spin_some mw (Some e) timeout_ns w = Some (rc, e', w', [])"
proof (cases "rcl_context_is_valid mw (e_context e) w")
  case False
  then have "rclc_executor_spin_some mw (Some e) timeout_ns w =
               Some (RCL_RET_ERROR, Some e, w, [])"
    by (simp only: rclc_executor_spin_some.simps simp_thms if_True)
  then show ?thesis by blast
next
  case True
  define e1 where "e1 = the (snd (rclc_executor_prepare mw (Some e)))"
  obtain rc_clear ws2 where cl: "rcl_wait_set_clear mw (e_wait_set e1) = (rc_clear, ws2)"
    by (cases "rcl_wait_set_clear mw (e_wait_set e1)")
  define e2 where "e2 = e1\<lparr> e_wait_set := ws2 \<rparr>"
  have "same_shape e e1" unfolding e1_def by (rule prepare_shape)
  moreover have "same_shape e1 e2" unfolding e2_def by simp
  ultimately have sh2: "same_shape e e2" using same_shape_trans by blast
  have u2: "unregistered_target e2" using unregistered_target_same_shape [OF sh2 u] .
  have eq: "rclc_executor_spin_some mw (Some e) timeout_ns w =
              (if rc_clear \<noteq> RCL_RET_OK then Some (rc_clear, Some e2, w, [])
               else spin_some_add_handles mw timeout_ns e2 w rc_clear)"
    using True cl unfolding e1_def e2_def
    by (simp only: rclc_executor_spin_some.simps simp_thms if_False Let_def prod.case)
  show ?thesis
    unfolding eq using spin_some_add_handles_not_fired [OF u2, of mw timeout_ns w rc_clear]
    by (cases "rc_clear = RCL_RET_OK") auto
qed


section \<open>Properties: the order of a round and the results of take and wait\<close>

lemma service_executor_eq:
  "service_executor = Some \<lparr> e_context = 7,
     e_handles = Some
       [\<lparr> h_type = RCLC_SERVICE, h_invocation = ON_NEW_DATA, h_entity = 15, h_data = 25,
           h_req_id = 0, h_data_response_msg = 35, h_callback_context = 0, h_callback = 45,
           h_index = 2, h_initialized = True, h_data_available = False \<rparr>,
        \<lparr> h_type = RCLC_SUBSCRIPTION, h_invocation = ON_NEW_DATA, h_entity = 12, h_data = 22,
           h_req_id = 0, h_data_response_msg = 0, h_callback_context = 0, h_callback = 32,
           h_index = 2, h_initialized = True, h_data_available = False \<rparr>],
     e_max_handles = 2, e_index = 2, e_allocator = 9, e_wait_set = False,
     e_info = \<lparr> number_of_subscriptions = 1, number_of_timers = 0, number_of_clients = 0,
                number_of_services = 1, number_of_action_clients = 0,
                number_of_action_servers = 0, number_of_guard_conditions = 0,
                number_of_events = 0 \<rparr>,
     e_timeout_ns = 1000000000,
     e_invocation_time = 0, e_trigger_function = Some TRIGGER_ANY, e_trigger_object = NULL,
     e_data_comm_semantics = RCLCPP_EXECUTOR \<rparr>"
  by (simp add: service_executor_def rclc_executor_add_service_def
      rclc_executor_add_subscription_def add_handle_def
      invalidate_wait_set_def set_handle_def handle_at_def
      rclc_executor_init_def idle_rcl_def zero_executor_def
      rclc_executor_get_zero_initialized_executor_def rclc_executor_handle_init_def
      rclc_executor_handle_counters_zero_init_def blank_handle_def upt_rec)

lemmas round_defs =
  spin_some_add_handles_def spin_some_wait_def spin_some_schedule_def
  rclc_let_scheduling_def rclc_default_scheduling_def
  wait_set_add_body_def check_body_def let_take_body_def let_execute_body_def default_body_def
  take_step_def execute_step_def handle_at_def set_handle_def
  rclc_check_for_new_data_def set_data_available_def rclc_take_new_data_def
  take_new_data_subscription_def take_new_data_service_def rclc_execute_def
  execute_service_def call_trigger_function_def
  for_each_handle.simps trigger_any_from.simps

text \<open>
Claim C3. A round on an executor with a service at position 0 and a subscription at
  position 1, both ready in the wait set, where \<^verbatim>\<open>rcl_take_request\<close> returns
  \<^verbatim>\<open>RCL_RET_SERVICE_TAKE_FAILED\<close>. \<^verbatim>\<open>_rclc_take_new_data\<close> clears the service's
  \<^verbatim>\<open>data_available\<close> flag under both semantics. With LET semantics the round ends
  there: \<^verbatim>\<open>rclc_executor_spin_some\<close> returns \<^verbatim>\<open>RCL_RET_SERVICE_TAKE_FAILED\<close>, the
  subscription is not taken and no callback is executed, because the take loop of
  \<^verbatim>\<open>_rclc_let_scheduling\<close> lets only \<^verbatim>\<open>RCL_RET_SUBSCRIPTION_TAKE_FAILED\<close> pass. With the
  default semantics the same round goes on to the subscription and returns
  \<^verbatim>\<open>RCL_RET_OK\<close>.
\<close>

theorem let_service_take_failed_evaluation:
  "map_option (\<lambda>(rc, e, w, tr). (rc, map h_data_available (the (e_handles (the e))), tr))
     (rclc_executor_spin_some flaky_rcl service_executor_let 0 idle_world) =
     Some (RCL_RET_SERVICE_TAKE_FAILED, [False, True], [EV_TAKE 0]) \<and>
   map_option (\<lambda>(rc, e, w, tr). (rc, map h_data_available (the (e_handles (the e))), tr))
     (rclc_executor_spin_some flaky_rcl service_executor 0 idle_world) =
     Some (RCL_RET_OK, [False, True], [EV_TAKE 0, EV_EXECUTE 0, EV_TAKE 1, EV_EXECUTE 1])"
  by (simp add: service_executor_let_def service_executor_eq flaky_rcl_def idle_rcl_def
      round_defs Let_def)

text \<open>
Claim C2. An initialized executor with four handles and a valid context, and a
  middleware whose \<^verbatim>\<open>rcl_wait\<close> returns \<^verbatim>\<open>RCL_RET_TIMEOUT\<close> with no entity ready:
  \<^verbatim>\<open>rclc_executor_spin_some\<close> with timeout 0 returns \<^verbatim>\<open>RCL_RET_OK\<close>, after a round in
  which nothing is taken or executed. The value of \<^verbatim>\<open>rcl_wait\<close> is dropped
  (\<^verbatim>\<open>RCLC_UNUSED(rc)\<close>) and replaced by the scheduler's.
\<close>

theorem spin_some_idle_wait_evaluation:
  "fst (rcl_wait idle_rcl (e_wait_set (the busy_executor)) 0 idle_world) = RCL_RET_TIMEOUT \<and>
   map_option (\<lambda>(rc, e, w, tr). (rc, map h_data_available (the (e_handles (the e))), tr))
     (rclc_executor_spin_some idle_rcl busy_executor 0 idle_world) =
     Some (RCL_RET_OK, [False, False, False, False], [])"
  by (simp add: busy_executor_eq idle_rcl_def round_defs Let_def)

text \<open>
  The two executors with the trigger \<^verbatim>\<open>rclc_executor_trigger_one\<close> on the subscription
  12, and the memory the registration of the action client leaves.
\<close>

lemma action_first_setup_executor:
  "fst action_first_setup = Some \<lparr> e_context = 7,
     e_handles = Some
       [\<lparr> h_type = RCLC_ACTION_CLIENT, h_invocation = ON_NEW_DATA, h_entity = 20, h_data = 0,
           h_req_id = 0, h_data_response_msg = 0, h_callback_context = 84, h_callback = 0,
           h_index = 2, h_initialized = True, h_data_available = False \<rparr>,
        \<lparr> h_type = RCLC_SUBSCRIPTION, h_invocation = ON_NEW_DATA, h_entity = 12, h_data = 22,
           h_req_id = 0, h_data_response_msg = 0, h_callback_context = 0, h_callback = 32,
           h_index = 2, h_initialized = True, h_data_available = False \<rparr>],
     e_max_handles = 2, e_index = 2, e_allocator = 9, e_wait_set = False,
     e_info = \<lparr> number_of_subscriptions = 3, number_of_timers = 1, number_of_clients = 3,
                number_of_services = 0, number_of_action_clients = 1,
                number_of_action_servers = 0, number_of_guard_conditions = 0,
                number_of_events = 0 \<rparr>,
     e_timeout_ns = 1000000000,
     e_invocation_time = 0, e_trigger_function = Some TRIGGER_ONE, e_trigger_object = 12,
     e_data_comm_semantics = RCLCPP_EXECUTOR \<rparr>"
  unfolding action_first_setup_def fresh_executor_eq [unfolded fresh_executor_def]
  by (simp add: idle_rcl_def idle_world_def
      rclc_executor_add_action_client_def rclc_executor_add_subscription_def
      add_handle_def invalidate_wait_set_def set_handle_def handle_at_def
      add_action_counters_def rclc_executor_handle_init_def blank_handle_def
      rclc_executor_handle_counters_zero_init_def Let_def)

lemma subscription_first_setup_executor:
  "fst subscription_first_setup = Some \<lparr> e_context = 7,
     e_handles = Some
       [\<lparr> h_type = RCLC_SUBSCRIPTION, h_invocation = ON_NEW_DATA, h_entity = 12, h_data = 22,
           h_req_id = 0, h_data_response_msg = 0, h_callback_context = 0, h_callback = 32,
           h_index = 2, h_initialized = True, h_data_available = False \<rparr>,
        \<lparr> h_type = RCLC_ACTION_CLIENT, h_invocation = ON_NEW_DATA, h_entity = 20, h_data = 0,
           h_req_id = 0, h_data_response_msg = 0, h_callback_context = 84, h_callback = 0,
           h_index = 2, h_initialized = True, h_data_available = False \<rparr>],
     e_max_handles = 2, e_index = 2, e_allocator = 9, e_wait_set = False,
     e_info = \<lparr> number_of_subscriptions = 3, number_of_timers = 1, number_of_clients = 3,
                number_of_services = 0, number_of_action_clients = 1,
                number_of_action_servers = 0, number_of_guard_conditions = 0,
                number_of_events = 0 \<rparr>,
     e_timeout_ns = 1000000000,
     e_invocation_time = 0, e_trigger_function = Some TRIGGER_ONE, e_trigger_object = 12,
     e_data_comm_semantics = RCLCPP_EXECUTOR \<rparr>"
  unfolding subscription_first_setup_def fresh_executor_eq [unfolded fresh_executor_def]
  by (simp add: idle_rcl_def idle_world_def
      rclc_executor_add_action_client_def rclc_executor_add_subscription_def
      add_handle_def invalidate_wait_set_def set_handle_def handle_at_def
      add_action_counters_def rclc_executor_handle_init_def blank_handle_def
      rclc_executor_handle_counters_zero_init_def Let_def)

lemma setup_world:
  "snd action_first_setup =
     idle_world\<lparr> action_clients := (action_clients idle_world)
       (20 := blank_action_client\<lparr> ac_allocator := 9, ac_ros_feedback := 34,
              ac_ros_result_response := 24, ac_goal_callback := 44,
              ac_feedback_callback := 54, ac_result_callback := 64,
              ac_cancel_callback := 74 \<rparr>) \<rparr> \<and>
   snd subscription_first_setup = snd action_first_setup"
  unfolding action_first_setup_def subscription_first_setup_def
    fresh_executor_eq [unfolded fresh_executor_def]
  by (simp add: idle_rcl_def idle_world_def blank_action_client_def
      rclc_executor_add_action_client_def rclc_executor_add_subscription_def
      add_handle_def invalidate_wait_set_def set_handle_def handle_at_def
      add_action_counters_def rclc_executor_handle_init_def blank_handle_def
      rclc_executor_handle_counters_zero_init_def Let_def)

text \<open>
Claim C8. An executor of capacity 2 made by \<^verbatim>\<open>rclc_executor_init\<close>,
  \<^verbatim>\<open>rclc_executor_add_action_client\<close>, \<^verbatim>\<open>rclc_executor_add_subscription\<close> and
  \<^verbatim>\<open>rclc_executor_set_trigger\<close> with \<^verbatim>\<open>rclc_executor_trigger_one\<close> on the subscription
  12, in a round in which the wait reports every entity ready. The subscription 12 is
  initialized and has data available (its flag is set in the result), yet nothing is taken
  or executed: the scan of \<^verbatim>\<open>rclc_executor_trigger_one\<close> returns false at the action
  client, the first handle with data available, for which
  \<^verbatim>\<open>rclc_executor_handle_get_ptr\<close> gives the null pointer. With the same two endpoints
  registered in the other order the trigger fires and both handles are processed.
\<close>

theorem trigger_one_behind_action_client_evaluation:
  "map_option (\<lambda>(rc, e, w, tr). (rc, map h_data_available (the (e_handles (the e))), tr))
     (rclc_executor_spin_some action_ready_rcl (fst action_first_setup) 0
        (snd action_first_setup)) =
     Some (RCL_RET_OK, [False, True], []) \<and>
   map_option (\<lambda>(rc, e, w, tr). (rc, map h_data_available (the (e_handles (the e))), tr))
     (rclc_executor_spin_some action_ready_rcl (fst subscription_first_setup) 0
        (snd subscription_first_setup)) =
     Some (RCL_RET_OK, [True, False], [EV_TAKE 0, EV_EXECUTE 0, EV_TAKE 1, EV_EXECUTE 1])"
  unfolding action_first_setup_executor subscription_first_setup_executor
  by (simp add: setup_world action_ready_rcl_def ready_rcl_def flaky_rcl_def idle_rcl_def
      idle_world_def blank_action_client_def round_defs trigger_one_from.simps
      take_new_data_action_client_def action_take_step_def execute_action_client_def Let_def)

section \<open>Properties: the counter block\<close>

text \<open>
  Sums over a table from which one position is taken out, and the counters of a table
  with one more handle or one handle less.
\<close>

lemma sum_list_map_remove_nth:
  fixes f :: "'a \<Rightarrow> 'b::ab_group_add"
  assumes "k < length xs"
  shows "sum_list (map f (take k xs @ drop (Suc k) xs)) = sum_list (map f xs) - f (xs ! k)"
proof -
  have "sum_list (map f xs) = sum_list (map f (take k xs @ xs ! k # drop (Suc k) xs))"
    using id_take_nth_drop [OF assms] by simp
  then show ?thesis by (simp add: algebra_simps)
qed

lemma table_counters_Nil:
  "table_counters mw [] = rclc_executor_handle_counters_zero_init"
  by (simp add: table_counters_def rclc_executor_handle_counters_zero_init_def)

lemma table_counters_snoc:
  "table_counters mw (hs @ [h]) =
     \<lparr> number_of_subscriptions = number_of_subscriptions (table_counters mw hs) +
         number_of_subscriptions (handle_counters mw h),
       number_of_timers = number_of_timers (table_counters mw hs) +
         number_of_timers (handle_counters mw h),
       number_of_clients = number_of_clients (table_counters mw hs) +
         number_of_clients (handle_counters mw h),
       number_of_services = number_of_services (table_counters mw hs) +
         number_of_services (handle_counters mw h),
       number_of_action_clients = number_of_action_clients (table_counters mw hs) +
         number_of_action_clients (handle_counters mw h),
       number_of_action_servers = number_of_action_servers (table_counters mw hs) +
         number_of_action_servers (handle_counters mw h),
       number_of_guard_conditions = number_of_guard_conditions (table_counters mw hs) +
         number_of_guard_conditions (handle_counters mw h),
       number_of_events = number_of_events (table_counters mw hs) +
         number_of_events (handle_counters mw h) \<rparr>"
  by (simp add: table_counters_def)

lemma table_counters_remove:
  assumes "k < length hs"
  shows "table_counters mw (take k hs @ drop (Suc k) hs) =
     \<lparr> number_of_subscriptions = number_of_subscriptions (table_counters mw hs) -
         number_of_subscriptions (handle_counters mw (hs ! k)),
       number_of_timers = number_of_timers (table_counters mw hs) -
         number_of_timers (handle_counters mw (hs ! k)),
       number_of_clients = number_of_clients (table_counters mw hs) -
         number_of_clients (handle_counters mw (hs ! k)),
       number_of_services = number_of_services (table_counters mw hs) -
         number_of_services (handle_counters mw (hs ! k)),
       number_of_action_clients = number_of_action_clients (table_counters mw hs) -
         number_of_action_clients (handle_counters mw (hs ! k)),
       number_of_action_servers = number_of_action_servers (table_counters mw hs) -
         number_of_action_servers (handle_counters mw (hs ! k)),
       number_of_guard_conditions = number_of_guard_conditions (table_counters mw hs) -
         number_of_guard_conditions (handle_counters mw (hs ! k)),
       number_of_events = number_of_events (table_counters mw hs) -
         number_of_events (handle_counters mw (hs ! k)) \<rparr>"
  unfolding table_counters_def
  by (simp only: sum_list_map_remove_nth [OF assms] rclc_executor_handle_counters_t.simps)

lemma registered_after_add:
  assumes "e_handles e = Some hs" "e_index e < length hs"
  shows "registered_handles ((set_handle e (e_index e) h)\<lparr> e_index := e_index e + 1 \<rparr>) =
         registered_handles e @ [h]"
  using assms
  by (simp add: registered_handles_def set_handle_def take_Suc_conv_app_nth)

lemma registered_after_remove:
  assumes "k < index" "index \<le> length hs"
  shows "take (index - 1) (table_without hs k index m) =
         take k (take index hs) @ drop (Suc k) (take index hs)"
proof -
  have k: "take k (take index hs) = take k hs" using assms by (simp add: min_def)
  have "length (take k hs @ drop (Suc k) (take index hs)) = index - 1"
    using assms by simp
  then have "take (index - 1) ((take k hs @ drop (Suc k) (take index hs)) @
      ([rclc_executor_handle_init (hs ! (index - 1)) m] @ drop index hs)) =
      take k hs @ drop (Suc k) (take index hs)"
    by (metis append_eq_conv_conj)
  then show ?thesis unfolding table_without_def k by (simp only: append_assoc)
qed

lemmas counters_simps =
  table_counters_snoc handle_counters_def rclc_executor_handle_counters_zero_init_def
  add_action_counters_def Let_def

text \<open>
The statements that adjust the counter block in the registration and removal
  functions, against the counters of the table.
\<close>

lemma count_subscription:
  "h_type h = RCLC_SUBSCRIPTION \<or> h_type h = RCLC_SUBSCRIPTION_WITH_CONTEXT \<Longrightarrow>
   number_of_subscriptions_update (\<lambda>n. n + 1) (table_counters mw hs) =
   table_counters mw (hs @ [h])"
  by (rule rclc_executor_handle_counters_t.equality) (auto simp: counters_simps)

lemma count_timer:
  "h_type h = RCLC_TIMER \<Longrightarrow>
   number_of_timers_update (\<lambda>n. n + 1) (table_counters mw hs) = table_counters mw (hs @ [h])"
  by (rule rclc_executor_handle_counters_t.equality) (auto simp: counters_simps)

lemma count_client:
  "h_type h = RCLC_CLIENT \<or> h_type h = RCLC_CLIENT_WITH_REQUEST_ID \<Longrightarrow>
   number_of_clients_update (\<lambda>n. n + 1) (table_counters mw hs) = table_counters mw (hs @ [h])"
  by (rule rclc_executor_handle_counters_t.equality) (auto simp: counters_simps)

lemma count_service:
  "h_type h = RCLC_SERVICE \<or> h_type h = RCLC_SERVICE_WITH_REQUEST_ID \<or>
   h_type h = RCLC_SERVICE_WITH_CONTEXT \<Longrightarrow>
   number_of_services_update (\<lambda>n. n + 1) (table_counters mw hs) = table_counters mw (hs @ [h])"
  by (rule rclc_executor_handle_counters_t.equality) (auto simp: counters_simps)

lemma count_guard_condition:
  "h_type h = RCLC_GUARD_CONDITION \<Longrightarrow>
   number_of_guard_conditions_update (\<lambda>n. n + 1) (table_counters mw hs) =
   table_counters mw (hs @ [h])"
  by (rule rclc_executor_handle_counters_t.equality) (auto simp: counters_simps)

lemma count_action_client:
  assumes "h_type h = RCLC_ACTION_CLIENT"
    and "nums = snd (rcl_action_wait_set_get_num_entities mw ACTION_CLIENT (h_entity h))"
  shows "(add_action_counters nums (table_counters mw hs))
           \<lparr> number_of_action_clients :=
               number_of_action_clients (add_action_counters nums (table_counters mw hs)) + 1 \<rparr> =
         table_counters mw (hs @ [h])"
  using assms
  by (intro rclc_executor_handle_counters_t.equality)
     (auto simp: counters_simps split: prod.splits)

lemma count_action_server:
  assumes "h_type h = RCLC_ACTION_SERVER"
    and "nums = snd (rcl_action_wait_set_get_num_entities mw ACTION_SERVER (h_entity h))"
  shows "(add_action_counters nums (table_counters mw hs))
           \<lparr> number_of_action_servers :=
               number_of_action_servers (add_action_counters nums (table_counters mw hs)) + 1 \<rparr> =
         table_counters mw (hs @ [h])"
  using assms
  by (intro rclc_executor_handle_counters_t.equality)
     (auto simp: counters_simps split: prod.splits)

lemmas uncounters_simps =
  table_counters_remove handle_counters_def rclc_executor_handle_counters_zero_init_def Let_def

lemma uncount_subscription:
  "k < length hs \<Longrightarrow> wait_set_add_kind (h_type (hs ! k)) = Some SUBSCRIPTION \<Longrightarrow>
   number_of_subscriptions_update (\<lambda>n. n - 1) (table_counters mw hs) =
   table_counters mw (take k hs @ drop (Suc k) hs)"
  by (rule rclc_executor_handle_counters_t.equality; cases "h_type (hs ! k)")
     (simp_all add: uncounters_simps)

lemma uncount_timer:
  "k < length hs \<Longrightarrow> wait_set_add_kind (h_type (hs ! k)) = Some TIMER \<Longrightarrow>
   number_of_timers_update (\<lambda>n. n - 1) (table_counters mw hs) =
   table_counters mw (take k hs @ drop (Suc k) hs)"
  by (rule rclc_executor_handle_counters_t.equality; cases "h_type (hs ! k)")
     (simp_all add: uncounters_simps)

lemma uncount_client:
  "k < length hs \<Longrightarrow> wait_set_add_kind (h_type (hs ! k)) = Some CLIENT \<Longrightarrow>
   number_of_clients_update (\<lambda>n. n - 1) (table_counters mw hs) =
   table_counters mw (take k hs @ drop (Suc k) hs)"
  by (rule rclc_executor_handle_counters_t.equality; cases "h_type (hs ! k)")
     (simp_all add: uncounters_simps)

lemma uncount_service:
  "k < length hs \<Longrightarrow> wait_set_add_kind (h_type (hs ! k)) = Some SERVICE \<Longrightarrow>
   number_of_services_update (\<lambda>n. n - 1) (table_counters mw hs) =
   table_counters mw (take k hs @ drop (Suc k) hs)"
  by (rule rclc_executor_handle_counters_t.equality; cases "h_type (hs ! k)")
     (simp_all add: uncounters_simps)

lemma uncount_guard_condition:
  "k < length hs \<Longrightarrow> wait_set_add_kind (h_type (hs ! k)) = Some GUARD_CONDITION \<Longrightarrow>
   number_of_guard_conditions_update (\<lambda>n. n - 1) (table_counters mw hs) =
   table_counters mw (take k hs @ drop (Suc k) hs)"
  by (rule rclc_executor_handle_counters_t.equality; cases "h_type (hs ! k)")
     (simp_all add: uncounters_simps)

text \<open>
Every successful operation keeps \<open>counters_invariant\<close>: the registration functions
  through their common tail, the removal functions through \<^verbatim>\<open>_rclc_executor_find_handle\<close>
  and \<^verbatim>\<open>_rclc_executor_remove_handle\<close>. A removal function finds the first registered
  handle whose endpoint is the given address, whatever the type of the handle; the kind
  of the address makes it a handle of the kind that the function counts down.
\<close>

lemma add_handle_invariant:
  assumes inv: "counters_invariant kind_of mw e"
    and room: "e_index e < e_max_handles e"
    and ok: "add_handle mw e h count = (RCL_RET_OK, e')"
    and ty: "typed_handle kind_of h"
    and cnt: "\<And>hs. count (table_counters mw hs) = table_counters mw (hs @ [h])"
  shows "\<exists>e''. e' = Some e'' \<and> counters_invariant kind_of mw e''"
proof -
  obtain hs where hs: "e_handles e = Some hs" and len: "length hs = e_max_handles e"
    using inv by (auto simp: counters_invariant_def)
  let ?e1 = "(set_handle e (e_index e) h)\<lparr> e_index := e_index e + 1 \<rparr>"
  obtain ret ws where iv: "invalidate_wait_set mw (e_wait_set ?e1) = (ret, ws)"
    by (cases "invalidate_wait_set mw (e_wait_set ?e1)")
  let ?e2 = "?e1\<lparr> e_wait_set := ws \<rparr>"
  let ?e3 = "?e2\<lparr> e_info := count (e_info ?e2) \<rparr>"
  have e': "e' = Some ?e3"
    using ok iv by (auto simp: add_handle_def Let_def split: if_splits)
  have reg1: "registered_handles ?e1 = registered_handles e @ [h]"
    using registered_after_add [OF hs] room len by simp
  have reg: "registered_handles ?e3 = registered_handles e @ [h]"
    using reg1 by (simp add: registered_handles_def)
  have info: "e_info ?e2 = e_info e" by (simp add: set_handle_def)
  have m: "e_info e = table_counters mw (registered_handles e)"
    using inv by (simp add: counters_invariant_def counters_match_def)
  have "counters_match mw ?e3"
    unfolding counters_match_def reg using cnt [of "registered_handles e"] m info by simp
  moreover have "list_all (typed_handle kind_of) (registered_handles ?e3)"
    unfolding reg using inv ty by (simp add: counters_invariant_def)
  moreover have "e_handles ?e3 \<noteq> None \<and> length (the (e_handles ?e3)) = e_max_handles ?e3 \<and>
      e_index ?e3 \<le> e_max_handles ?e3"
    using hs len room by (simp add: set_handle_def)
  ultimately have "counters_invariant kind_of mw ?e3"
    unfolding counters_invariant_def by blast
  then show ?thesis using e' by blast
qed

lemma find_handle_from_Some:
  "find_handle_from e p i = Some k \<Longrightarrow>
   i \<le> k \<and> k < e_index e \<and> rclc_executor_handle_get_ptr (Some (handle_at e k)) = p"
proof (induction e p i rule: find_handle_from.induct)
  case (1 executor rcl_handle i)
  show ?case
  proof (cases "i < e_index executor")
    case False
    then have "find_handle_from executor rcl_handle i = None"
      by (subst find_handle_from.simps) simp
    then show ?thesis using "1.prems" by simp
  next
    case True
    show ?thesis
    proof (cases "rcl_handle = rclc_executor_handle_get_ptr (Some (handle_at executor i))")
      case eq: True
      then have "find_handle_from executor rcl_handle i = Some i"
        using True by (subst find_handle_from.simps) (simp del: rclc_executor_handle_get_ptr.simps)
      then show ?thesis using "1.prems" True eq by simp
    next
      case ne: False
      then have "find_handle_from executor rcl_handle i =
          find_handle_from executor rcl_handle (i + 1)"
        using True by (subst find_handle_from.simps) (simp del: rclc_executor_handle_get_ptr.simps)
      then have "find_handle_from executor rcl_handle (i + 1) = Some k"
        using "1.prems" by simp
      from "1.IH" [OF True ne this] show ?thesis by simp
    qed
  qed
qed

lemma remove_entity_ok:
  assumes ok: "remove_entity mw (Some e) p count = (RCL_RET_OK, e')"
    and hs: "e_handles e = Some hs" and len: "e_index e \<le> length hs"
  shows "\<exists>k ws. k < e_index e \<and> rclc_executor_handle_get_ptr (Some (hs ! k)) = p \<and>
           p \<noteq> NULL \<and>
           e' = Some (e\<lparr> e_index := e_index e - 1,
                     e_handles := Some (table_without hs k (e_index e) (e_max_handles e)),
                     e_wait_set := ws, e_info := count (e_info e) \<rparr>)"
proof -
  have nn: "p \<noteq> NULL" using ok by (auto simp: remove_entity_def split: if_splits)
  obtain ret e1 where r: "rclc_executor_remove_handle mw e (rclc_executor_find_handle e p) =
      (ret, e1)"
    by (cases "rclc_executor_remove_handle mw e (rclc_executor_find_handle e p)")
  have ret: "ret = RCL_RET_OK" and e': "e' = Some (e1\<lparr> e_info := count (e_info e1) \<rparr>)"
    using ok nn r by (auto simp: remove_entity_def Let_def split: if_splits)
  obtain k where f: "rclc_executor_find_handle e p = Some k"
    using r ret by (cases "rclc_executor_find_handle e p")
      (auto simp: rclc_executor_remove_handle_def)
  have k: "k < e_index e" and pk: "rclc_executor_handle_get_ptr (Some (hs ! k)) = p"
    using find_handle_from_Some [of e p 0 k] f hs
    by (simp_all add: rclc_executor_find_handle_def handle_at_def)
  have t: "(shift_handles hs k (e_index e - 1))
             [e_index e - 1 := rclc_executor_handle_init
                (shift_handles hs k (e_index e - 1) ! (e_index e - 1)) (e_max_handles e)]
           = table_without hs k (e_index e) (e_max_handles e)"
    by (rule table_without_eq) (use k len in auto)
  let ?e0 = "e\<lparr> e_index := e_index e - 1,
               e_handles := Some (table_without hs k (e_index e) (e_max_handles e)) \<rparr>"
  obtain ret2 ws where iv: "invalidate_wait_set mw (e_wait_set e) = (ret2, ws)"
    by (cases "invalidate_wait_set mw (e_wait_set e)")
  have "e1 = ?e0\<lparr> e_wait_set := ws \<rparr>"
    using r f k hs t iv by (simp add: rclc_executor_remove_handle_def Let_def)
  then have "e' = Some (e\<lparr> e_index := e_index e - 1,
                     e_handles := Some (table_without hs k (e_index e) (e_max_handles e)),
                     e_wait_set := ws, e_info := count (e_info e) \<rparr>)"
    using e' by simp
  then show ?thesis using k pk nn by blast
qed

lemma typed_handle_ptr:
  assumes "typed_handle kind_of h" "rclc_executor_handle_get_ptr (Some h) = p" "p \<noteq> NULL"
  shows "wait_set_add_kind (h_type h) = Some (kind_of p)"
  using assms by (cases "h_type h") (simp_all add: typed_handle_def)

lemma remove_entity_invariant:
  assumes inv: "counters_invariant kind_of mw e"
    and ok: "remove_entity mw (Some e) p count = (RCL_RET_OK, e')"
    and cnt: "\<And>hs k. k < length hs \<Longrightarrow> wait_set_add_kind (h_type (hs ! k)) = Some (kind_of p)
                \<Longrightarrow> count (table_counters mw hs) =
                    table_counters mw (take k hs @ drop (Suc k) hs)"
  shows "\<exists>e''. e' = Some e'' \<and> counters_invariant kind_of mw e''"
proof -
  obtain hs where hs: "e_handles e = Some hs" and len: "length hs = e_max_handles e"
    and idx: "e_index e \<le> length hs"
    using inv by (auto simp: counters_invariant_def)
  let ?R = "registered_handles e"
  have R: "?R = take (e_index e) hs" using hs by (simp add: registered_handles_def)
  from remove_entity_ok [OF ok hs idx] obtain k ws where
    k: "k < e_index e" and pk: "rclc_executor_handle_get_ptr (Some (hs ! k)) = p"
    and nn: "p \<noteq> NULL"
    and e': "e' = Some (e\<lparr> e_index := e_index e - 1,
                     e_handles := Some (table_without hs k (e_index e) (e_max_handles e)),
                     e_wait_set := ws, e_info := count (e_info e) \<rparr>)"
    by blast
  let ?e3 = "e\<lparr> e_index := e_index e - 1,
                     e_handles := Some (table_without hs k (e_index e) (e_max_handles e)),
                     e_wait_set := ws, e_info := count (e_info e) \<rparr>"
  have kR: "k < length ?R" and Rk: "?R ! k = hs ! k" using k idx R by simp_all
  have all: "list_all (typed_handle kind_of) ?R"
    using inv by (simp add: counters_invariant_def)
  then have "typed_handle kind_of (?R ! k)" using kR by (simp add: list_all_length)
  then have kind: "wait_set_add_kind (h_type (?R ! k)) = Some (kind_of p)"
    using typed_handle_ptr pk nn Rk by metis
  have reg: "registered_handles ?e3 = take k ?R @ drop (Suc k) ?R"
    using registered_after_remove [OF k idx] R by (simp add: registered_handles_def)
  have m: "e_info e = table_counters mw ?R"
    using inv by (simp add: counters_invariant_def counters_match_def)
  have "counters_match mw ?e3"
    unfolding counters_match_def reg using cnt [OF kR kind] m by simp
  moreover have "list_all (typed_handle kind_of) (registered_handles ?e3)"
    unfolding reg using all
    by (auto simp: list_all_iff dest: in_set_takeD in_set_dropD)
  moreover have "e_handles ?e3 \<noteq> None \<and> length (the (e_handles ?e3)) = e_max_handles ?e3 \<and>
      e_index ?e3 \<le> e_max_handles ?e3"
    using len idx k by (simp add: table_without_def)
  ultimately have "counters_invariant kind_of mw ?e3"
    unfolding counters_invariant_def by blast
  then show ?thesis using e' by blast
qed

lemma add_action_client_invariant:
  assumes inv: "counters_invariant kind_of mw e"
    and ty: "kind_of p = ACTION_CLIENT"
    and ok: "rclc_executor_add_action_client mw (Some e) p n res fb goal_cb fb_cb res_cb
               cancel_cb ctx w = (RCL_RET_OK, e', w')"
  shows "\<exists>e''. e' = Some e'' \<and> counters_invariant kind_of mw e''"
proof -
  let ?h = "(handle_at e (e_index e))
              \<lparr> h_type := RCLC_ACTION_CLIENT, h_entity := p, h_invocation := ON_NEW_DATA,
                h_initialized := True, h_callback_context := ctx \<rparr>"
  let ?nums = "snd (rcl_action_wait_set_get_num_entities mw ACTION_CLIENT p)"
  let ?count = "\<lambda>info. (add_action_counters ?nums info)
      \<lparr> number_of_action_clients := number_of_action_clients (add_action_counters ?nums info) + 1 \<rparr>"
  have room: "e_index e < e_max_handles e"
    using ok by (auto simp: rclc_executor_add_action_client_def split: if_splits)
  have "add_handle mw e ?h ?count = (RCL_RET_OK, e')"
    using ok
    by (auto simp: rclc_executor_add_action_client_def add_handle_def Let_def
        split: if_splits option.splits prod.splits)
  moreover have "typed_handle kind_of ?h" using ty by (simp add: typed_handle_def)
  moreover have "\<And>hs. ?count (table_counters mw hs) = table_counters mw (hs @ [?h])"
    by (rule count_action_client) simp_all
  ultimately show ?thesis using add_handle_invariant [OF inv room] by blast
qed

lemma add_action_server_invariant:
  assumes inv: "counters_invariant kind_of mw e"
    and ty: "kind_of p = ACTION_SERVER"
    and ok: "rclc_executor_add_action_server mw (Some e) p n req sz goal_cb cancel_cb ctx w =
               (RCL_RET_OK, e', w')"
  shows "\<exists>e''. e' = Some e'' \<and> counters_invariant kind_of mw e''"
proof -
  let ?h = "(handle_at e (e_index e))
              \<lparr> h_type := RCLC_ACTION_SERVER, h_entity := p, h_invocation := ON_NEW_DATA,
                h_initialized := True, h_callback_context := ctx \<rparr>"
  let ?nums = "snd (rcl_action_wait_set_get_num_entities mw ACTION_SERVER p)"
  let ?count = "\<lambda>info. (add_action_counters ?nums info)
      \<lparr> number_of_action_servers := number_of_action_servers (add_action_counters ?nums info) + 1 \<rparr>"
  have room: "e_index e < e_max_handles e"
    using ok by (auto simp: rclc_executor_add_action_server_def Let_def split: if_splits)
  have "add_handle mw e ?h ?count = (RCL_RET_OK, e')"
    using ok
    by (auto simp: rclc_executor_add_action_server_def add_handle_def Let_def
        split: if_splits option.splits prod.splits)
  moreover have "typed_handle kind_of ?h" using ty by (simp add: typed_handle_def)
  moreover have "\<And>hs. ?count (table_counters mw hs) = table_counters mw (hs @ [?h])"
    by (rule count_action_server) simp_all
  ultimately show ?thesis using add_handle_invariant [OF inv room] by blast
qed

lemma apply_op_invariant:
  assumes inv: "counters_invariant kind_of mw e"
    and ty: "kind_of (fst (op_endpoint op)) = snd (op_endpoint op)"
    and ok: "apply_op mw op (Some e) w = (RCL_RET_OK, e', w')"
  shows "\<exists>e''. e' = Some e'' \<and> counters_invariant kind_of mw e''"
proof (cases op)
  case (ADD_SUBSCRIPTION p msg cb invocation)
  then show ?thesis
    using ok ty
    by (auto simp: rclc_executor_add_subscription_def typed_handle_def
        split: if_splits prod.splits
        intro!: add_handle_invariant [OF inv] count_subscription)
next
  case (ADD_SUBSCRIPTION_WITH_CONTEXT p msg cb ctx invocation)
  then show ?thesis
    using ok ty
    by (auto simp: rclc_executor_add_subscription_with_context_def typed_handle_def
        split: if_splits prod.splits
        intro!: add_handle_invariant [OF inv] count_subscription)
next
  case (ADD_TIMER p)
  then show ?thesis
    using ok ty
    by (auto simp: rclc_executor_add_timer_def typed_handle_def
        split: if_splits prod.splits
        intro!: add_handle_invariant [OF inv] count_timer)
next
  case (ADD_CLIENT p msg cb)
  then show ?thesis
    using ok ty
    by (auto simp: rclc_executor_add_client_def typed_handle_def
        split: if_splits prod.splits
        intro!: add_handle_invariant [OF inv] count_client)
next
  case (ADD_CLIENT_WITH_REQUEST_ID p msg cb)
  then show ?thesis
    using ok ty
    by (auto simp: rclc_executor_add_client_with_request_id_def typed_handle_def
        split: if_splits prod.splits
        intro!: add_handle_invariant [OF inv] count_client)
next
  case (ADD_SERVICE p req res cb)
  then show ?thesis
    using ok ty
    by (auto simp: rclc_executor_add_service_def typed_handle_def
        split: if_splits prod.splits
        intro!: add_handle_invariant [OF inv] count_service)
next
  case (ADD_SERVICE_WITH_CONTEXT p req res cb ctx)
  then show ?thesis
    using ok ty
    by (auto simp: rclc_executor_add_service_with_context_def typed_handle_def
        split: if_splits prod.splits
        intro!: add_handle_invariant [OF inv] count_service)
next
  case (ADD_SERVICE_WITH_REQUEST_ID p req res cb)
  then show ?thesis
    using ok ty
    by (auto simp: rclc_executor_add_service_with_request_id_def typed_handle_def
        split: if_splits prod.splits
        intro!: add_handle_invariant [OF inv] count_service)
next
  case (ADD_GUARD_CONDITION p cb)
  then show ?thesis
    using ok ty
    by (auto simp: rclc_executor_add_guard_condition_def typed_handle_def
        split: if_splits prod.splits
        intro!: add_handle_invariant [OF inv] count_guard_condition)
next
  case (REMOVE_SUBSCRIPTION p)
  then show ?thesis
    using ok ty
    by (auto simp: rclc_executor_remove_subscription_def split: prod.splits
        intro!: remove_entity_invariant [OF inv] uncount_subscription)
next
  case (REMOVE_TIMER p)
  then show ?thesis
    using ok ty
    by (auto simp: rclc_executor_remove_timer_def split: prod.splits
        intro!: remove_entity_invariant [OF inv] uncount_timer)
next
  case (REMOVE_CLIENT p)
  then show ?thesis
    using ok ty
    by (auto simp: rclc_executor_remove_client_def split: prod.splits
        intro!: remove_entity_invariant [OF inv] uncount_client)
next
  case (REMOVE_SERVICE p)
  then show ?thesis
    using ok ty
    by (auto simp: rclc_executor_remove_service_def split: prod.splits
        intro!: remove_entity_invariant [OF inv] uncount_service)
next
  case (REMOVE_GUARD_CONDITION p)
  then show ?thesis
    using ok ty
    by (auto simp: rclc_executor_remove_guard_condition_def split: prod.splits
        intro!: remove_entity_invariant [OF inv] uncount_guard_condition)
next
  case (ADD_ACTION_CLIENT p n res fb goal_cb fb_cb res_cb cancel_cb ctx)
  then show ?thesis
    using ok ty add_action_client_invariant [OF inv] by simp
next
  case (ADD_ACTION_SERVER p n req sz goal_cb cancel_cb ctx)
  then show ?thesis
    using ok ty add_action_server_invariant [OF inv] by simp
qed

lemma run_ops_invariant:
  "counters_invariant kind_of mw e \<Longrightarrow> well_typed_ops kind_of ops \<Longrightarrow>
   run_ops mw ops (Some e) w = Some (e', w') \<Longrightarrow>
   \<exists>e''. e' = Some e'' \<and> counters_invariant kind_of mw e''"
proof (induction ops arbitrary: e w)
  case Nil
  then show ?case by auto
next
  case (Cons op ops)
  obtain rc e1 w1 where a: "apply_op mw op (Some e) w = (rc, e1, w1)"
    by (metis prod_cases3)
  have rc: "rc = RCL_RET_OK" and rest: "run_ops mw ops e1 w1 = Some (e', w')"
    using Cons.prems(3) a by (auto split: if_splits)
  have ty: "kind_of (fst (op_endpoint op)) = snd (op_endpoint op)"
    and tys: "well_typed_ops kind_of ops"
    using Cons.prems(2) by (simp_all add: well_typed_ops_def)
  from apply_op_invariant [OF Cons.prems(1) ty] a rc
  obtain e2 where e2: "e1 = Some e2" "counters_invariant kind_of mw e2" by blast
  from Cons.IH [OF e2(2) tys] rest e2(1) show ?case by simp
qed

lemma init_invariant:
  assumes "rclc_executor_init mw (Some e0) context' number_of_handles allocator =
             (RCL_RET_OK, e)"
  shows "\<exists>e1. e = Some e1 \<and> counters_invariant kind_of mw e1"
  using assms
  by (auto simp: rclc_executor_init_def Let_def counters_invariant_def counters_match_def
      registered_handles_def table_counters_Nil rclc_executor_get_zero_initialized_executor_def
      split: if_splits option.splits)

text \<open>
How \<open>table_counters\<close> reads: the counters of action clients and servers are the numbers
  of handles of these types, the counter of events is 0, and in a table without action
  endpoints the counter of every plain kind is the number of handles of the types of
  that kind.
\<close>

lemma table_counters_count_types:
  "number_of_action_clients (table_counters mw hs) = of_nat (count_types [RCLC_ACTION_CLIENT] hs) \<and>
   number_of_action_servers (table_counters mw hs) = of_nat (count_types [RCLC_ACTION_SERVER] hs) \<and>
   number_of_events (table_counters mw hs) = 0 \<and>
   (list_all (\<lambda>h. h_type h \<noteq> RCLC_ACTION_CLIENT \<and> h_type h \<noteq> RCLC_ACTION_SERVER) hs \<longrightarrow>
      number_of_subscriptions (table_counters mw hs) =
        of_nat (count_types [RCLC_SUBSCRIPTION, RCLC_SUBSCRIPTION_WITH_CONTEXT] hs) \<and>
      number_of_timers (table_counters mw hs) = of_nat (count_types [RCLC_TIMER] hs) \<and>
      number_of_clients (table_counters mw hs) =
        of_nat (count_types [RCLC_CLIENT, RCLC_CLIENT_WITH_REQUEST_ID] hs) \<and>
      number_of_services (table_counters mw hs) =
        of_nat (count_types [RCLC_SERVICE, RCLC_SERVICE_WITH_REQUEST_ID,
                             RCLC_SERVICE_WITH_CONTEXT] hs) \<and>
      number_of_guard_conditions (table_counters mw hs) =
        of_nat (count_types [RCLC_GUARD_CONDITION] hs))"
proof (induction hs)
  case Nil
  then show ?case by (simp add: table_counters_def count_types_def)
next
  case (Cons h hs)
  have c: "\<And>ts. count_types ts (h # hs) =
      (if h_type h \<in> set ts then Suc (count_types ts hs) else count_types ts hs)"
    by (simp add: count_types_def)
  have t: "\<And>f. sum_list (map f (h # hs)) = f h + sum_list (map f hs)" by simp
  show ?case
    using Cons.IH
    by (cases "h_type h")
       (simp_all add: table_counters_def c handle_counters_def
          rclc_executor_handle_counters_zero_init_def add_action_counters_def Let_def
          split: prod.splits)
qed

text \<open>
Claim C4. Let \<^verbatim>\<open>rclc_executor_init\<close> return \<^verbatim>\<open>RCL_RET_OK\<close>, and let a sequence of
  \<^verbatim>\<open>rclc_executor_add_*\<close> and \<^verbatim>\<open>rclc_executor_remove_*\<close> calls run on the executor it
  made, each call returning \<^verbatim>\<open>RCL_RET_OK\<close> and each called with an endpoint of the kind
  of its parameter. Then the counter block of the resulting executor is the sum, over the
  registered handles, of what each handle counts for: one in the counter of its kind,
  and for an action endpoint one in the counter of action clients or servers plus its
  sub-entities in the counters of the plain kinds.
\<close>

theorem counters_match_after_ops:
  assumes init: "rclc_executor_init mw (Some e0) context' number_of_handles allocator =
                   (RCL_RET_OK, e)"
    and typed: "well_typed_ops kind_of ops"
    and run: "run_ops mw ops e w = Some (e', w')"
  shows "\<exists>e''. e' = Some e'' \<and> counters_match mw e''"
proof -
  from init_invariant [OF init] obtain e1 where
    e1: "e = Some e1" "counters_invariant kind_of mw e1"
    by blast
  have "run_ops mw ops (Some e1) w = Some (e', w')" using run e1(1) by simp
  from run_ops_invariant [OF e1(2) typed this] obtain e'' where
    "e' = Some e''" "counters_invariant kind_of mw e''"
    by blast
  then show ?thesis by (simp add: counters_invariant_def)
qed

lemma sample_run_eq:
  "map_option fst (run_ops idle_rcl sample_ops fresh_executor idle_world) =
   Some (Some \<lparr> e_context = 7,
     e_handles = Some
       [\<lparr> h_type = RCLC_ACTION_CLIENT, h_invocation = ON_NEW_DATA, h_entity = 14, h_data = 0,
           h_req_id = 0, h_data_response_msg = 0, h_callback_context = 84, h_callback = 0,
           h_index = 2, h_initialized = True, h_data_available = False \<rparr>,
        \<lparr> h_type = RCLC_NONE, h_invocation = ON_NEW_DATA, h_entity = 0, h_data = 0,
           h_req_id = 0, h_data_response_msg = 0, h_callback_context = 0, h_callback = 0,
           h_index = 2, h_initialized = False, h_data_available = False \<rparr>],
     e_max_handles = 2, e_index = 1, e_allocator = 9, e_wait_set = False,
     e_info = \<lparr> number_of_subscriptions = 2, number_of_timers = 1, number_of_clients = 3,
                number_of_services = 0, number_of_action_clients = 1,
                number_of_action_servers = 0, number_of_guard_conditions = 0,
                number_of_events = 0 \<rparr>,
     e_timeout_ns = 1000000000,
     e_invocation_time = 0, e_trigger_function = Some TRIGGER_ANY, e_trigger_object = NULL,
     e_data_comm_semantics = RCLCPP_EXECUTOR \<rparr>)"
  by (simp add: sample_ops_def fresh_executor_eq idle_rcl_def idle_world_def
      rclc_executor_add_timer_def rclc_executor_add_action_client_def
      rclc_executor_remove_timer_def remove_entity_def rclc_executor_find_handle_def
      find_handle_from.simps rclc_executor_remove_handle_def shift_handles.simps
      add_handle_def invalidate_wait_set_def set_handle_def handle_at_def
      add_action_counters_def rclc_executor_handle_init_def blank_handle_def
      rclc_executor_handle_counters_zero_init_def Let_def)

theorem counters_match_after_ops_witness:
  "rclc_executor_init idle_rcl (Some zero_executor) 7 2 9 = (RCL_RET_OK, fresh_executor) \<and>
   well_typed_ops sample_kind_of sample_ops \<and>
   (\<exists>e' w'. run_ops idle_rcl sample_ops fresh_executor idle_world = Some (Some e', w') \<and>
      counters_match idle_rcl e' \<and>
      map h_type (registered_handles e') = [RCLC_ACTION_CLIENT] \<and>
      e_info e' = \<lparr> number_of_subscriptions = 2, number_of_timers = 1, number_of_clients = 3,
                number_of_services = 0, number_of_action_clients = 1,
                number_of_action_servers = 0, number_of_guard_conditions = 0,
                number_of_events = 0 \<rparr>)"
proof -
  have init: "rclc_executor_init idle_rcl (Some zero_executor) 7 2 9 =
      (RCL_RET_OK, fresh_executor)"
    by (simp add: fresh_executor_def rclc_executor_init_def idle_rcl_def Let_def)
  have typed: "well_typed_ops sample_kind_of sample_ops"
    by (simp add: well_typed_ops_def sample_ops_def sample_kind_of_def)
  obtain e' w' where run: "run_ops idle_rcl sample_ops fresh_executor idle_world = Some (e', w')"
    using sample_run_eq by (cases "run_ops idle_rcl sample_ops fresh_executor idle_world") auto
  from counters_match_after_ops [OF init typed run] obtain e'' where
    e'': "e' = Some e''" "counters_match idle_rcl e''"
    by blast
  have "map h_type (registered_handles e'') = [RCLC_ACTION_CLIENT] \<and>
      e_info e'' = \<lparr> number_of_subscriptions = 2, number_of_timers = 1, number_of_clients = 3,
                number_of_services = 0, number_of_action_clients = 1,
                number_of_action_servers = 0, number_of_guard_conditions = 0,
                number_of_events = 0 \<rparr>"
    using sample_run_eq run e''(1) by (auto simp: registered_handles_def)
  then have "run_ops idle_rcl sample_ops fresh_executor idle_world = Some (Some e'', w') \<and>
      counters_match idle_rcl e'' \<and>
      map h_type (registered_handles e'') = [RCLC_ACTION_CLIENT] \<and>
      e_info e'' = \<lparr> number_of_subscriptions = 2, number_of_timers = 1, number_of_clients = 3,
                number_of_services = 0, number_of_action_clients = 1,
                number_of_action_servers = 0, number_of_guard_conditions = 0,
                number_of_events = 0 \<rparr>"
    using run e'' by simp
  then have "\<exists>e' w'. run_ops idle_rcl sample_ops fresh_executor idle_world = Some (Some e', w') \<and>
      counters_match idle_rcl e' \<and>
      map h_type (registered_handles e') = [RCLC_ACTION_CLIENT] \<and>
      e_info e' = \<lparr> number_of_subscriptions = 2, number_of_timers = 1, number_of_clients = 3,
                number_of_services = 0, number_of_action_clients = 1,
                number_of_action_servers = 0, number_of_guard_conditions = 0,
                number_of_events = 0 \<rparr>"
    by (intro exI)
  then show ?thesis using init typed by (intro conjI)
qed

section \<open>Properties: a round under LET\<close>

text \<open>
  The loops of the LET scheduler, the log they write and the state they reach. A take and
  an execute leave the shape of the table as it is and append one event; a loop that
  starts at position \<open>i\<close> runs its steps for the positions \<open>i, ..., n - 1\<close> in this
  order, where \<open>n\<close> is at most the end of the initialized prefix and is that end when no
  iteration returns.
\<close>

lemma take_new_data_shape:
  assumes "rclc_take_new_data mw h ws w = (rc, h', w')"
  shows "h_type h' = h_type h \<and> h_entity h' = h_entity h \<and> h_initialized h' = h_initialized h"
  using assms
  by (cases "h_type h")
     (auto simp: rclc_take_new_data_def take_new_data_subscription_def
        take_new_data_service_def take_new_data_client_def take_new_data_action_client_def
        take_new_data_action_server_def Let_def split: prod.splits if_splits)

lemma take_step_shape:
  assumes "take_step mw i s = (rc, s')"
  shows "same_shape (rs_executor s) (rs_executor s') \<and> rs_trace s' = rs_trace s @ [EV_TAKE i]"
proof -
  obtain rc1 h w where c: "rclc_take_new_data mw (handle_at (rs_executor s) i)
      (e_wait_set (rs_executor s)) (rs_world s) = (rc1, h, w)"
    by (metis prod_cases3)
  have s': "s' = s\<lparr> rs_executor := set_handle (rs_executor s) i h, rs_world := w,
                     rs_trace := rs_trace s @ [EV_TAKE i] \<rparr>"
    using assms c by (simp add: take_step_def Let_def)
  show ?thesis
    using take_new_data_shape [OF c] by (simp add: s' same_shape_set_handle)
qed

lemma execute_step_shape:
  assumes "execute_step mw i s = (rc, s')"
  shows "same_shape (rs_executor s) (rs_executor s') \<and>
         rs_trace s' = rs_trace s @ [EV_EXECUTE i]"
  using assms by (auto simp: execute_step_def split: prod.splits)

lemma let_take_body_shape:
  assumes "let_take_body mw i s = (r, rc, s')"
  shows "same_shape (rs_executor s) (rs_executor s') \<and> rs_trace s' = rs_trace s @ [EV_TAKE i]"
  using assms take_step_shape [of mw i s]
  by (auto simp: let_take_body_def split: prod.splits)

lemma let_execute_body_shape:
  assumes "let_execute_body mw i s = (r, rc, s')"
  shows "same_shape (rs_executor s) (rs_executor s') \<and>
         rs_trace s' = rs_trace s @ [EV_EXECUTE i]"
  using assms execute_step_shape [of mw i s]
  by (auto simp: let_execute_body_def split: prod.splits)

lemma initialized_prefix_step:
  "i < e_max_handles e \<Longrightarrow> h_initialized (handle_at e i) \<Longrightarrow>
   initialized_prefix e i = initialized_prefix e (Suc i)"
  by (subst initialized_prefix.simps) simp

lemma initialized_prefix_stop:
  "\<not> (i < e_max_handles e \<and> h_initialized (handle_at e i)) \<Longrightarrow> initialized_prefix e i = i"
  by (subst initialized_prefix.simps) auto

lemma initialized_prefix_same_shape:
  "same_shape e e' \<Longrightarrow> initialized_prefix e' i = initialized_prefix e i"
proof (induction e i rule: initialized_prefix.induct)
  case (1 executor i)
  have c: "(i < e_max_handles e' \<and> h_initialized (handle_at e' i)) =
           (i < e_max_handles executor \<and> h_initialized (handle_at executor i))"
    using "1.prems" by (simp add: same_shape_def)
  show ?case
  proof (cases "i < e_max_handles executor \<and> h_initialized (handle_at executor i)")
    case True
    then show ?thesis
      using "1.IH" [OF True "1.prems"] c
      by (simp add: initialized_prefix_step)
  next
    case False
    then show ?thesis
      using c initialized_prefix_stop [of i executor] initialized_prefix_stop [of i e']
      by simp
  qed
qed

lemma initialized_prefix_ge: "i \<le> initialized_prefix e i"
proof (induction e i rule: initialized_prefix.induct)
  case (1 executor i)
  show ?case
  proof (cases "i < e_max_handles executor \<and> h_initialized (handle_at executor i)")
    case True
    then show ?thesis using "1.IH" [OF True] by (simp add: initialized_prefix_step)
  next
    case False
    then show ?thesis using initialized_prefix_stop [of i executor] by simp
  qed
qed

lemma initialized_prefix_table_invariant:
  "table_invariant e \<Longrightarrow> i \<le> e_index e \<Longrightarrow> initialized_prefix e i = e_index e"
proof (induction e i rule: initialized_prefix.induct)
  case (1 executor i)
  show ?case
  proof (cases "i < e_max_handles executor \<and> h_initialized (handle_at executor i)")
    case True
    then have "i < e_index executor" using "1.prems" by (auto simp: table_invariant_def)
    then show ?thesis
      using "1.IH" [OF True "1.prems"(1)] True by (simp add: initialized_prefix_step)
  next
    case False
    then have "i = e_index executor"
      using "1.prems" unfolding table_invariant_def
      by (metis le_neq_implies_less less_le_trans)
    then show ?thesis using False initialized_prefix_stop [of i executor] by simp
  qed
qed

lemma for_each_handle_trace:
  "(\<forall>i s r rc s'. body i s = (r, rc, s') \<longrightarrow>
      s' = stepf i s \<and> same_shape (rs_executor s) (rs_executor s') \<and>
      rs_trace s' = rs_trace s @ [ev i]) \<Longrightarrow>
   for_each_handle body m i rc0 s = (r, rc, s') \<Longrightarrow> m = e_max_handles (rs_executor s) \<Longrightarrow>
   same_shape (rs_executor s) (rs_executor s') \<and>
   (\<exists>n. i \<le> n \<and> n \<le> initialized_prefix (rs_executor s) i \<and>
        rs_trace s' = rs_trace s @ map ev [i..<n] \<and>
        s' = foldl (\<lambda>t k. stepf k t) s [i..<n] \<and>
        (\<not> r \<longrightarrow> n = initialized_prefix (rs_executor s) i))"
proof (induction body m i rc0 s rule: for_each_handle.induct)
  case (1 body max_handles i rc0 s)
  let ?e = "rs_executor s"
  show ?case
  proof (cases "i < max_handles \<and> h_initialized (handle_at ?e i)")
    case False
    then have "for_each_handle body max_handles i rc0 s = (False, rc0, s)"
      by (subst for_each_handle.simps) auto
    then have eq: "r = False" "s' = s" using "1.prems"(2) by simp_all
    have "initialized_prefix ?e i = i"
      using False "1.prems"(3) initialized_prefix_stop [of i ?e] by simp
    then show ?thesis using eq by (simp add: same_shape_refl)
  next
    case True
    obtain r1 rc1 s1 where b: "body i s = (r1, rc1, s1)" by (metis prod_cases3)
    have sh1: "same_shape ?e (rs_executor s1)" and tr1: "rs_trace s1 = rs_trace s @ [ev i]"
      and st1: "s1 = stepf i s"
      using "1.prems"(1) b by blast+
    have pre: "initialized_prefix ?e i = initialized_prefix ?e (Suc i)"
      using True "1.prems"(3) by (simp add: initialized_prefix_step)
    show ?thesis
    proof (cases r1)
      case True
      have "for_each_handle body max_handles i rc0 s = (True, rc1, s1)"
        using \<open>i < max_handles \<and> h_initialized (handle_at ?e i)\<close> b True
        by (subst for_each_handle.simps) simp
      then have eq: "r = True" "s' = s1" using "1.prems"(2) by simp_all
      have "Suc i \<le> initialized_prefix ?e i"
        using pre initialized_prefix_ge [of "Suc i" ?e] by simp
      then have "i \<le> Suc i \<and> Suc i \<le> initialized_prefix ?e i \<and>
          rs_trace s' = rs_trace s @ map ev [i..<Suc i] \<and>
          s' = foldl (\<lambda>t k. stepf k t) s [i..<Suc i] \<and>
          (\<not> r \<longrightarrow> Suc i = initialized_prefix ?e i)"
        using eq tr1 st1 by simp
      then show ?thesis using sh1 eq by blast
    next
      case False
      have "for_each_handle body max_handles i rc0 s =
              for_each_handle body max_handles (i + 1) rc1 s1"
        using \<open>i < max_handles \<and> h_initialized (handle_at ?e i)\<close> b False
        by (subst for_each_handle.simps) simp
      then have run: "for_each_handle body max_handles (i + 1) rc1 s1 = (r, rc, s')"
        using "1.prems"(2) by simp
      have m1: "max_handles = e_max_handles (rs_executor s1)"
        using "1.prems"(3) sh1 by (simp add: same_shape_def)
      from "1.IH" [OF True refl b [symmetric] refl False "1.prems"(1) run m1]
      obtain n where sh2: "same_shape (rs_executor s1) (rs_executor s')"
        and n: "i + 1 \<le> n" "n \<le> initialized_prefix (rs_executor s1) (i + 1)"
          "rs_trace s' = rs_trace s1 @ map ev [i + 1..<n]"
          "s' = foldl (\<lambda>t k. stepf k t) s1 [i + 1..<n]"
          "\<not> r \<longrightarrow> n = initialized_prefix (rs_executor s1) (i + 1)"
        by blast
      have p1: "initialized_prefix (rs_executor s1) (i + 1) = initialized_prefix ?e i"
        using initialized_prefix_same_shape [OF sh1] pre by simp
      have "i < n" using n(1) by simp
      then have up: "[i..<n] = i # [i + 1..<n]" by (simp add: upt_conv_Cons)
      have "rs_trace s' = rs_trace s @ map ev [i..<n]"
        using n(3) tr1 up by simp
      moreover have "s' = foldl (\<lambda>t k. stepf k t) s [i..<n]"
        using n(4) st1 up by simp
      ultimately have "i \<le> n \<and> n \<le> initialized_prefix ?e i \<and>
          rs_trace s' = rs_trace s @ map ev [i..<n] \<and>
          s' = foldl (\<lambda>t k. stepf k t) s [i..<n] \<and>
          (\<not> r \<longrightarrow> n = initialized_prefix ?e i)"
        using n p1 by simp
      then show ?thesis using same_shape_trans [OF sh1 sh2] by blast
    qed
  qed
qed

lemma let_take_loop_trace:
  assumes "for_each_handle (let_take_body mw) (e_max_handles (rs_executor s)) 0 rc0 s =
             (r, rc, s')"
  shows "same_shape (rs_executor s) (rs_executor s') \<and>
         (\<exists>n. n \<le> initialized_prefix (rs_executor s) 0 \<and>
              rs_trace s' = rs_trace s @ map EV_TAKE [0..<n] \<and>
              s' = takes_upto mw n s \<and>
              (\<not> r \<longrightarrow> n = initialized_prefix (rs_executor s) 0))"
proof -
  have "\<forall>i s r rc s'. let_take_body mw i s = (r, rc, s') \<longrightarrow>
      s' = snd (take_step mw i s) \<and>
      same_shape (rs_executor s) (rs_executor s') \<and> rs_trace s' = rs_trace s @ [EV_TAKE i]"
  proof (intro allI impI)
    fix i s r rc s'
    assume a: "let_take_body mw i s = (r, rc, s')"
    have "s' = snd (take_step mw i s)"
      using a by (auto simp: let_take_body_def split: prod.splits)
    then show "s' = snd (take_step mw i s) \<and>
      same_shape (rs_executor s) (rs_executor s') \<and> rs_trace s' = rs_trace s @ [EV_TAKE i]"
      using let_take_body_shape [OF a] by simp
  qed
  from for_each_handle_trace [OF this assms refl] show ?thesis
    unfolding takes_upto_def by blast
qed

lemma let_execute_loop_trace:
  assumes "for_each_handle (let_execute_body mw) (e_max_handles (rs_executor s)) 0 rc0 s =
             (r, rc, s')"
  shows "same_shape (rs_executor s) (rs_executor s') \<and>
         (\<exists>n. n \<le> initialized_prefix (rs_executor s) 0 \<and>
              rs_trace s' = rs_trace s @ map EV_EXECUTE [0..<n] \<and>
              s' = executes_upto mw n s \<and>
              (\<not> r \<longrightarrow> n = initialized_prefix (rs_executor s) 0))"
proof -
  have "\<forall>i s r rc s'. let_execute_body mw i s = (r, rc, s') \<longrightarrow>
      s' = snd (execute_step mw i s) \<and>
      same_shape (rs_executor s) (rs_executor s') \<and> rs_trace s' = rs_trace s @ [EV_EXECUTE i]"
  proof (intro allI impI)
    fix i s r rc s'
    assume a: "let_execute_body mw i s = (r, rc, s')"
    have "s' = snd (execute_step mw i s)"
      using a by (auto simp: let_execute_body_def split: prod.splits)
    then show "s' = snd (execute_step mw i s) \<and>
      same_shape (rs_executor s) (rs_executor s') \<and> rs_trace s' = rs_trace s @ [EV_EXECUTE i]"
      using let_execute_body_shape [OF a] by simp
  qed
  from for_each_handle_trace [OF this assms refl] show ?thesis
    unfolding executes_upto_def by blast
qed

text \<open>
No step of a round changes the message buffer a handle is registered with.
\<close>

lemma take_new_data_buffer:
  assumes "rclc_take_new_data mw h ws w = (rc, h', w')"
  shows "h_data h' = h_data h"
  using assms
  by (cases "h_type h")
     (auto simp: rclc_take_new_data_def take_new_data_subscription_def
        take_new_data_service_def take_new_data_client_def take_new_data_action_client_def
        take_new_data_action_server_def Let_def split: prod.splits if_splits)

lemma check_for_new_data_buffer:
  assumes "rclc_check_for_new_data mw h ws w = (rc, h', w')"
  shows "h_data h' = h_data h"
  using assms
  by (cases "h_type h")
     (auto simp: rclc_check_for_new_data_def set_data_available_def split: prod.splits)

lemma set_handle_buffer:
  "h_data h = h_data (handle_at e i) \<Longrightarrow>
   h_data (handle_at (set_handle e i h) j) = h_data (handle_at e j)"
  by (simp add: handle_at_set_handle)

lemma check_body_buffer:
  assumes "check_body mw i s = (r, rc, s')"
  shows "h_data (handle_at (rs_executor s') j) = h_data (handle_at (rs_executor s) j)"
proof -
  obtain rc1 h w where c: "rclc_check_for_new_data mw (handle_at (rs_executor s) i)
      (e_wait_set (rs_executor s)) (rs_world s) = (rc1, h, w)"
    by (metis prod_cases3)
  have s': "s' = s\<lparr> rs_executor := set_handle (rs_executor s) i h, rs_world := w \<rparr>"
    using assms c by (simp add: check_body_def Let_def)
  show ?thesis
    using check_for_new_data_buffer [OF c] by (simp add: s' set_handle_buffer)
qed

lemma checked_state_buffer:
  "h_data (handle_at (rs_executor (checked_state mw s)) j) = h_data (handle_at (rs_executor s) j)"
proof -
  obtain r rc s1 where c: "for_each_handle (check_body mw) (e_max_handles (rs_executor s)) 0
      RCL_RET_OK s = (r, rc, s1)"
    by (metis prod_cases3)
  let ?P = "\<lambda>t. \<forall>j. h_data (handle_at (rs_executor t) j) = h_data (handle_at (rs_executor s) j)"
  have "\<forall>i t r rc t'. ?P t \<longrightarrow> check_body mw i t = (r, rc, t') \<longrightarrow> ?P t'"
    using check_body_buffer by metis
  from for_each_handle_inv [where P = ?P, OF this _ c] have "?P s1" by simp
  then show ?thesis using c by (simp add: checked_state_def)
qed

lemma take_step_buffer:
  "h_data (handle_at (rs_executor (snd (take_step mw i s))) j) =
   h_data (handle_at (rs_executor s) j)"
proof -
  obtain rc1 h w where c: "rclc_take_new_data mw (handle_at (rs_executor s) i)
      (e_wait_set (rs_executor s)) (rs_world s) = (rc1, h, w)"
    by (metis prod_cases3)
  show ?thesis
    using take_new_data_buffer [OF c] c by (simp add: take_step_def Let_def set_handle_buffer)
qed

lemma takes_upto_Suc:
  "takes_upto mw (Suc k) s = snd (take_step mw k (takes_upto mw k s))"
  by (simp add: takes_upto_def)

lemma takes_upto_buffer:
  "h_data (handle_at (rs_executor (takes_upto mw k s)) j) = h_data (handle_at (rs_executor s) j)"
proof (induction k)
  case 0
  then show ?case by (simp add: takes_upto_def)
next
  case (Suc k)
  then show ?case by (simp add: takes_upto_Suc take_step_buffer)
qed

text \<open>
A take leaves the content of an address as it is, unless the handle is registered with
  this address as its message buffer.
\<close>

lemma action_take_step_frame:
  assumes "take_frame mw mem b"
  shows "mem (w_rest (snd (snd (action_take_step mw step p w)))) b = mem (w_rest w) b"
  using assms
  by (auto simp: action_take_step_def take_frame_def Let_def split: prod.splits)
     (metis snd_conv)+

lemma action_take_step_frameD:
  "action_take_step mw step p w = (r, rc, w') \<Longrightarrow> take_frame mw mem b \<Longrightarrow>
   mem (w_rest w') b = mem (w_rest w) b"
  using action_take_step_frame [of mw mem b step p w] by simp

lemma guarded_step_frame:
  assumes "(if c then action_take_step mw step p w else (False, rc0, w)) = (r, rc, w')"
    and "take_frame mw mem b"
  shows "mem (w_rest w') b = mem (w_rest w) b"
proof (cases c)
  case True
  then have "action_take_step mw step p w = (r, rc, w')" using assms(1) by simp
  from action_take_step_frameD [OF this assms(2)] show ?thesis .
next
  case False
  then show ?thesis using assms(1) by simp
qed

lemma take_new_data_action_client_frame:
  assumes f: "take_frame mw mem b"
    and t: "take_new_data_action_client mw h w = (rc, h', w')"
  shows "mem (w_rest w') b = mem (w_rest w) b"
proof -
  let ?p = "h_entity h"
  obtain ret1 rc1 w1 where s1: "(if goal_response_available (action_clients w ?p)
             then action_take_step mw GOAL_RESPONSE ?p w else (False, RCL_RET_OK, w)) =
      (ret1, rc1, w1)"
    by (metis prod_cases3)
  note m1 = guarded_step_frame [OF s1 f]
  obtain ret2 rc2 w2 where s2: "(if ac_feedback_callback (action_clients w1 ?p) \<noteq> NULL \<and>
                feedback_available (action_clients w1 ?p)
             then action_take_step mw FEEDBACK ?p w1 else (False, rc1, w1)) = (ret2, rc2, w2)"
    by (metis prod_cases3)
  note m2 = guarded_step_frame [OF s2 f]
  obtain ret3 rc3 w3 where s3: "(if cancel_response_available (action_clients w2 ?p)
             then action_take_step mw CANCEL_RESPONSE ?p w2 else (False, rc2, w2)) =
      (ret3, rc3, w3)"
    by (metis prod_cases3)
  note m3 = guarded_step_frame [OF s3 f]
  obtain ret4 rc4 w4 where s4: "(if result_response_available (action_clients w3 ?p)
             then action_take_step mw RESULT_RESPONSE ?p w3 else (False, rc3, w3)) =
      (ret4, rc4, w4)"
    by (metis prod_cases3)
  note m4 = guarded_step_frame [OF s4 f]
  have "take_new_data_action_client mw h w =
      (if ret1 then (rc1, h, w1) else if ret2 then (rc2, h, w2)
       else if ret3 then (rc3, h, w3) else (rc4, h, w4))"
    unfolding take_new_data_action_client_def Let_def s1 prod.case s2 s3 s4 ..
  then have "w' = w1 \<or> w' = w2 \<or> w' = w3 \<or> w' = w4"
    using t by (cases ret1; cases ret2; cases ret3) simp_all
  then show ?thesis using m1 m2 m3 m4 by (elim disjE) simp_all
qed

lemma goal_request_frame:
  assumes f: "take_frame mw mem b"
    and s: "(case rclc_action_take_goal_handle mw p w of
               (got, wa) \<Rightarrow>
                 if got then
                   (case rcl_action_take mw GOAL_REQUEST p wa of
                      (rc, wb) \<Rightarrow>
                        if rc \<noteq> RCL_RET_OK
                        then (True, rc, rclc_action_bookkeeping mw GOAL_REQUEST_FAILED p wb)
                        else (False, rc, rclc_action_bookkeeping mw GOAL_REQUEST p wb))
                 else (False, RCL_RET_OK, wa)) = (ret1, rc1, w1)"
  shows "mem (w_rest w1) b = mem (w_rest w) b"
proof -
  have g: "\<And>p w. mem (w_rest (snd (rclc_action_take_goal_handle mw p w))) b = mem (w_rest w) b"
    and a: "\<And>step p w. mem (w_rest (snd (rcl_action_take mw step p w))) b = mem (w_rest w) b"
    and k: "\<And>step p w. mem (w_rest (rclc_action_bookkeeping mw step p w)) b = mem (w_rest w) b"
    using f by (simp_all add: take_frame_def)
  obtain got wa where ga: "rclc_action_take_goal_handle mw p w = (got, wa)"
    by (cases "rclc_action_take_goal_handle mw p w")
  have ma: "mem (w_rest wa) b = mem (w_rest w) b" using g [of p w] ga by simp
  obtain rcb wb where gb: "rcl_action_take mw GOAL_REQUEST p wa = (rcb, wb)"
    by (cases "rcl_action_take mw GOAL_REQUEST p wa")
  have mb: "mem (w_rest wb) b = mem (w_rest wa) b"
    using a [of GOAL_REQUEST p wa] gb by simp
  have "w1 = wa \<or> w1 = rclc_action_bookkeeping mw GOAL_REQUEST_FAILED p wb \<or>
        w1 = rclc_action_bookkeeping mw GOAL_REQUEST p wb"
    using s unfolding ga prod.case gb
    by (cases got; cases "rcb \<noteq> RCL_RET_OK") auto
  then show ?thesis using ma mb k by (elim disjE) simp_all
qed

lemma result_request_frame:
  assumes f: "take_frame mw mem b"
    and s: "(case action_take_step mw RESULT_REQUEST p w1 of
               (ret, rc, wa) \<Rightarrow>
                 if ret then (True, rc, wa)
                 else (False, rc,
                       wa\<lparr> action_servers := (action_servers wa)
                             (p := (action_servers wa p)\<lparr> result_request_available := False \<rparr>) \<rparr>))
             = (ret2, rc2, w2)"
  shows "mem (w_rest w2) b = mem (w_rest w1) b"
proof -
  obtain ret rc wa where a: "action_take_step mw RESULT_REQUEST p w1 = (ret, rc, wa)"
    by (metis prod_cases3)
  note ma = action_take_step_frameD [OF a f]
  have "w_rest w2 = w_rest wa"
    using s unfolding a prod.case by (cases ret) auto
  then show ?thesis using ma by simp
qed

lemma take_new_data_action_server_frame:
  assumes f: "take_frame mw mem b"
    and t: "take_new_data_action_server mw h w = (rc, h', w')"
  shows "mem (w_rest w') b = mem (w_rest w) b"
proof -
  let ?p = "h_entity h"
  obtain ret1 rc1 w1 where s1: "(if goal_request_available (action_servers w ?p) then
      (case rclc_action_take_goal_handle mw ?p w of
               (got, wa) \<Rightarrow>
                 if got then
                   (case rcl_action_take mw GOAL_REQUEST ?p wa of
                      (rc, wb) \<Rightarrow>
                        if rc \<noteq> RCL_RET_OK
                        then (True, rc, rclc_action_bookkeeping mw GOAL_REQUEST_FAILED ?p wb)
                        else (False, rc, rclc_action_bookkeeping mw GOAL_REQUEST ?p wb))
                 else (False, RCL_RET_OK, wa))
             else (False, RCL_RET_OK, w)) = (ret1, rc1, w1)"
    by (rule prod_cases3)
  have m1: "mem (w_rest w1) b = mem (w_rest w) b"
  proof (cases "goal_request_available (action_servers w ?p)")
    case False
    then have "(False, RCL_RET_OK, w) = (ret1, rc1, w1)"
      using s1 by (simp only: if_False)
    then show ?thesis by simp
  next
    case True
    from s1 [unfolded eqTrueI [OF True] if_True] goal_request_frame [OF f]
    show ?thesis by blast
  qed
  obtain ret2 rc2 w2 where s2: "(if result_request_available (action_servers w1 ?p) then
      (case action_take_step mw RESULT_REQUEST ?p w1 of
               (ret, rc, wa) \<Rightarrow>
                 if ret then (True, rc, wa)
                 else (False, rc,
                       wa\<lparr> action_servers := (action_servers wa)
                             (?p := (action_servers wa ?p)\<lparr> result_request_available := False \<rparr>) \<rparr>))
             else (False, rc1, w1)) = (ret2, rc2, w2)"
    by (rule prod_cases3)
  have m2: "mem (w_rest w2) b = mem (w_rest w1) b"
  proof (cases "result_request_available (action_servers w1 ?p)")
    case False
    then have "(False, rc1, w1) = (ret2, rc2, w2)"
      using s2 by (simp only: if_False)
    then show ?thesis by simp
  next
    case True
    from s2 [unfolded eqTrueI [OF True] if_True] result_request_frame [OF f]
    show ?thesis by blast
  qed
  obtain ret3 rc3 w3 where s3: "(if cancel_request_available (action_servers w2 ?p)
             then action_take_step mw CANCEL_REQUEST ?p w2 else (False, rc2, w2)) =
      (ret3, rc3, w3)"
    by (rule prod_cases3)
  note m3 = guarded_step_frame [OF s3 f]
  have "take_new_data_action_server mw h w =
      (if ret1 then (rc1, h, w1) else if ret2 then (rc2, h, w2) else (rc3, h, w3))"
    unfolding take_new_data_action_server_def Let_def s1 prod.case s2 s3 ..
  then have "w' = w1 \<or> w' = w2 \<or> w' = w3"
    using t by (cases ret1; cases ret2) simp_all
  then show ?thesis using m1 m2 m3 by (elim disjE) simp_all
qed

lemma take_new_data_frame:
  assumes f: "take_frame mw mem b" and d: "h_data h \<noteq> b"
    and t: "rclc_take_new_data mw h ws w = (rc, h', w')"
  shows "mem (w_rest w') b = mem (w_rest w) b"
proof -
  have sub: "\<And>p w. mem (w_rest (snd (rcl_take mw p (h_data h) w))) b = mem (w_rest w) b"
    and req: "\<And>p r w. mem (w_rest (snd (snd (rcl_take_request mw p r (h_data h) w)))) b =
                 mem (w_rest w) b"
    and res: "\<And>p r w. mem (w_rest (snd (snd (rcl_take_response mw p r (h_data h) w)))) b =
                 mem (w_rest w) b"
    using f d by (simp_all add: take_frame_def)
  have s: "take_new_data_subscription mw h ws w = (rc, h', w') \<Longrightarrow> ?thesis"
    using sub [of "h_entity h" w]
    by (auto simp: take_new_data_subscription_def Let_def split: if_splits prod.splits)
  have v: "take_new_data_service mw h ws w = (rc, h', w') \<Longrightarrow> ?thesis"
    using req [of "h_entity h" "h_req_id h" w]
    by (auto simp: take_new_data_service_def Let_def split: if_splits prod.splits)
  have c: "take_new_data_client mw h ws w = (rc, h', w') \<Longrightarrow> ?thesis"
    using res [of "h_entity h" "h_req_id h" w]
    by (auto simp: take_new_data_client_def Let_def split: if_splits prod.splits)
  show ?thesis
    using t s v c take_new_data_action_client_frame [OF f]
      take_new_data_action_server_frame [OF f]
    by (cases "h_type h") (auto simp: rclc_take_new_data_def)
qed

lemma take_step_frame:
  assumes "take_frame mw mem b" and "h_data (handle_at (rs_executor s) j) \<noteq> b"
  shows "mem (w_rest (rs_world (snd (take_step mw j s)))) b = mem (w_rest (rs_world s)) b"
proof -
  obtain rc1 h w where c: "rclc_take_new_data mw (handle_at (rs_executor s) j)
      (e_wait_set (rs_executor s)) (rs_world s) = (rc1, h, w)"
    by (metis prod_cases3)
  show ?thesis
    using take_new_data_frame [OF assms c] c by (simp add: take_step_def Let_def)
qed

lemma takes_upto_frame:
  assumes f: "take_frame mw mem b"
    and d: "\<forall>j. i < j \<and> j < n \<longrightarrow> h_data (handle_at (rs_executor s) j) \<noteq> b"
    and i: "i < n"
  shows "mem (w_rest (rs_world (takes_upto mw n s))) b =
         mem (w_rest (rs_world (takes_upto mw (Suc i) s))) b"
  using i d
proof (induction n)
  case 0
  then show ?case by simp
next
  case (Suc n)
  show ?case
  proof (cases "i = n")
    case True
    then show ?thesis by simp
  next
    case False
    then have lt: "i < n" using Suc.prems(1) by simp
    have "h_data (handle_at (rs_executor (takes_upto mw n s)) n) \<noteq> b"
      using Suc.prems(2) lt by (simp add: takes_upto_buffer)
    then have "mem (w_rest (rs_world (takes_upto mw (Suc n) s))) b =
        mem (w_rest (rs_world (takes_upto mw n s))) b"
      using take_step_frame [OF f] by (simp add: takes_upto_Suc)
    then show ?thesis using Suc.IH [OF lt] Suc.prems(2) by simp
  qed
qed

text \<open>
The two executors with the subscriptions 12 and 13.
\<close>

lemma shared_buffer_executor_eq:
  "shared_buffer_executor = Some \<lparr> e_context = 7,
     e_handles = Some
       [\<lparr> h_type = RCLC_SUBSCRIPTION, h_invocation = ON_NEW_DATA, h_entity = 12, h_data = 22,
           h_req_id = 0, h_data_response_msg = 0, h_callback_context = 0, h_callback = 31,
           h_index = 2, h_initialized = True, h_data_available = False \<rparr>,
        \<lparr> h_type = RCLC_SUBSCRIPTION, h_invocation = ON_NEW_DATA, h_entity = 13, h_data = 22,
           h_req_id = 0, h_data_response_msg = 0, h_callback_context = 0, h_callback = 32,
           h_index = 2, h_initialized = True, h_data_available = False \<rparr>],
     e_max_handles = 2, e_index = 2, e_allocator = 9, e_wait_set = False,
     e_info = \<lparr> number_of_subscriptions = 2, number_of_timers = 0, number_of_clients = 0,
                number_of_services = 0, number_of_action_clients = 0,
                number_of_action_servers = 0, number_of_guard_conditions = 0,
                number_of_events = 0 \<rparr>,
     e_timeout_ns = 1000000000,
     e_invocation_time = 0, e_trigger_function = Some TRIGGER_ANY, e_trigger_object = NULL,
     e_data_comm_semantics = LET \<rparr>"
  unfolding shared_buffer_executor_def fresh_executor_eq [unfolded fresh_executor_def]
  by (simp add: idle_rcl_def rclc_executor_add_subscription_def
      add_handle_def invalidate_wait_set_def set_handle_def handle_at_def
      rclc_executor_handle_init_def blank_handle_def
      rclc_executor_handle_counters_zero_init_def Let_def)

lemma distinct_buffer_executor_eq:
  "distinct_buffer_executor = Some \<lparr> e_context = 7,
     e_handles = Some
       [\<lparr> h_type = RCLC_SUBSCRIPTION, h_invocation = ON_NEW_DATA, h_entity = 12, h_data = 22,
           h_req_id = 0, h_data_response_msg = 0, h_callback_context = 0, h_callback = 31,
           h_index = 2, h_initialized = True, h_data_available = False \<rparr>,
        \<lparr> h_type = RCLC_SUBSCRIPTION, h_invocation = ON_NEW_DATA, h_entity = 13, h_data = 23,
           h_req_id = 0, h_data_response_msg = 0, h_callback_context = 0, h_callback = 32,
           h_index = 2, h_initialized = True, h_data_available = False \<rparr>],
     e_max_handles = 2, e_index = 2, e_allocator = 9, e_wait_set = False,
     e_info = \<lparr> number_of_subscriptions = 2, number_of_timers = 0, number_of_clients = 0,
                number_of_services = 0, number_of_action_clients = 0,
                number_of_action_servers = 0, number_of_guard_conditions = 0,
                number_of_events = 0 \<rparr>,
     e_timeout_ns = 1000000000,
     e_invocation_time = 0, e_trigger_function = Some TRIGGER_ANY, e_trigger_object = NULL,
     e_data_comm_semantics = LET \<rparr>"
  unfolding distinct_buffer_executor_def fresh_executor_eq [unfolded fresh_executor_def]
  by (simp add: idle_rcl_def rclc_executor_add_subscription_def
      add_handle_def invalidate_wait_set_def set_handle_def handle_at_def
      rclc_executor_handle_init_def blank_handle_def
      rclc_executor_handle_counters_zero_init_def Let_def)

lemmas memory_defs =
  memory_rcl_def memory_world_def write_buffer_def blank_action_client_def
  blank_action_server_def


lemma take_frame_memory_rcl: "take_frame memory_rcl buffers b"
  by (simp add: take_frame_def memory_defs)

text \<open>
An execute leaves the content of an address as it is when the callbacks and the
  middleware functions it calls do.
\<close>

lemma execute_action_client_frame:
  assumes "execute_frame mw mem b"
  shows "mem (w_rest (execute_action_client mw h w)) b = mem (w_rest w) b"
proof -
  have a: "\<And>step p ctx w. mem (w_rest (rclc_action_execute mw step p ctx w)) b = mem (w_rest w) b"
    using assms by (simp add: execute_frame_def)
  show ?thesis by (simp add: execute_action_client_def Let_def a)
qed

lemma execute_action_server_frame:
  assumes "execute_frame mw mem b"
  shows "mem (w_rest (execute_action_server mw h w)) b = mem (w_rest w) b"
proof -
  have a: "\<And>step p ctx w. mem (w_rest (rclc_action_execute mw step p ctx w)) b = mem (w_rest w) b"
    using assms by (simp add: execute_frame_def)
  show ?thesis by (simp add: execute_action_server_def Let_def a)
qed

lemma execute_frame:
  assumes f: "execute_frame mw mem b"
  shows "mem (w_rest (snd (rclc_execute mw h w))) b = mem (w_rest w) b"
proof -
  have c: "\<And>f args w. mem (w_rest (call mw f args w)) b = mem (w_rest w) b"
    and t: "\<And>p w. mem (w_rest (snd (rcl_timer_call mw p w))) b = mem (w_rest w) b"
    and r: "\<And>p r d w. mem (w_rest (snd (rcl_send_response mw p r d w))) b = mem (w_rest w) b"
    using f by (simp_all add: execute_frame_def)
  have t': "mem (w_rest (snd (case rcl_timer_call mw (h_entity h) w of
        (rc, w') \<Rightarrow> if rc = RCL_RET_TIMER_CANCELED then (RCL_RET_OK, w') else (rc, w')))) b =
      mem (w_rest w) b"
    using t [of "h_entity h" w] by (cases "rcl_timer_call mw (h_entity h) w") simp
  show ?thesis
    by (cases "h_type h")
       (simp_all add: rclc_execute_def execute_service_def Let_def c r t'
          execute_action_client_frame [OF f] execute_action_server_frame [OF f])
qed

lemma execute_step_frame:
  assumes "execute_frame mw mem b"
  shows "mem (w_rest (rs_world (snd (execute_step mw k t)))) b = mem (w_rest (rs_world t)) b"
proof -
  obtain rc w where x: "rclc_execute mw (handle_at (rs_executor t) k) (rs_world t) = (rc, w)"
    by (cases "rclc_execute mw (handle_at (rs_executor t) k) (rs_world t)")
  show ?thesis
    using execute_frame [OF assms, of "handle_at (rs_executor t) k" "rs_world t"] x
    by (simp add: execute_step_def)
qed

lemma executes_upto_frame:
  assumes "execute_frame mw mem b"
  shows "mem (w_rest (rs_world (executes_upto mw k s))) b = mem (w_rest (rs_world s)) b"
proof (induction k)
  case 0
  then show ?case by (simp add: executes_upto_def)
next
  case (Suc k)
  have "executes_upto mw (Suc k) s = snd (execute_step mw k (executes_upto mw k s))"
    by (simp add: executes_upto_def)
  then show ?case using Suc execute_step_frame [OF assms] by simp
qed


lemma execute_frame_memory_rcl: "execute_frame memory_rcl buffers b"
  by (simp add: execute_frame_def memory_defs)


end
